(* ===== verification/Text_Prelude.thy ===== *)
theory Text_Prelude
  imports Complex_Main "HOL-Library.Word"
begin

text \<open>
  Shared vocabulary of the text-layout and text-area development: the machine types of
  the C++ sources (\<open>unsigned int\<close>, \<open>int\<close>, \<open>char32_t\<close>, \<open>std::size_t\<close>,
  \<open>float\<close>), the arithmetic of \<open>std::size_t\<close> with its wrap-around written out, the
  error values that replace the sources' failed assertions and out-of-range reads, and
  the lemma collections the component theories share.
\<close>

section \<open>Machine types\<close>

text \<open>
  \<open>unsigned int\<close> and \<open>char32_t\<close> are 32-bit words; \<open>int\<close> is a 32-bit word read
  with \<open>sint\<close>. \<open>std::size_t\<close> is kept as a \<open>nat\<close> below \<open>2^64\<close>: every
  operation the sources apply to it is one of \<open>size_add\<close>, \<open>size_sub\<close>, which wrap
  modulo \<open>2^64\<close> as the C++ arithmetic does. \<open>float\<close> is modelled by exact
  rationals: the development does not model IEEE rounding.
\<close>

type_synonym u8 = "8 word"
type_synonym u32 = "32 word"
type_synonym i32 = "32 word"
type_synonym char32 = "32 word"
type_synonym size_t = nat
type_synonym float = rat

definition size_modulus :: nat where
  "size_modulus = 2 ^ 64"

definition size_add :: "size_t \<Rightarrow> size_t \<Rightarrow> size_t" where
  "size_add a b = (a + b) mod size_modulus"

definition size_sub :: "size_t \<Rightarrow> size_t \<Rightarrow> size_t" where
  "size_sub a b = nat ((int a - int b) mod int size_modulus)"

text \<open>\<open>static_cast<unsigned int>\<close> of a \<open>std::size_t\<close>: the value modulo \<open>2^32\<close>.\<close>

definition u32_of_size :: "size_t \<Rightarrow> u32" where
  "u32_of_size n = of_nat n"

text \<open>
  Conversion of a \<open>float\<close> to \<open>unsigned int\<close>: truncation toward zero. A value out
  of range is undefined behaviour in C++; the model takes it modulo \<open>2^32\<close>.
\<close>

definition trunc_float :: "float \<Rightarrow> int" where
  "trunc_float r = (if 0 \<le> r then \<lfloor>r\<rfloor> else \<lceil>r\<rceil>)"

definition u32_of_float :: "float \<Rightarrow> u32" where
  "u32_of_float r = word_of_int (trunc_float r)"

definition float_of_u32 :: "u32 \<Rightarrow> float" where
  "float_of_u32 w = of_nat (unat w)"

section \<open>Errors\<close>

text \<open>
  Every failed assertion, out-of-range container access or logged error of the sources
  is a value of this type; a fallible operation returns \<open>error + 'a\<close>.
\<close>

datatype error =
    Line_out_of_range       \<comment> \<open>\<open>AbstractTextDrawer::GetLine\<close> with an index past the line table\<close>
  | Glyph_out_of_range      \<comment> \<open>\<open>m_glyphs[index]\<close> past the glyph list\<close>
  | Invalid_font            \<comment> \<open>\<open>UpdateGlyphs\<close> without a valid font\<close>
  | Font_index_out_of_range \<comment> \<open>\<open>SimpleTextDrawer::GetFont(index)\<close> with \<open>index > 0\<close>\<close>
  | History_out_of_range    \<comment> \<open>\<open>m_commandHistory[m_historyPosition]\<close> past the history\<close>
  | Float_cast_out_of_range \<comment> \<open>a \<open>float\<close> cast to \<open>unsigned int\<close> out of its range, or infinite\<close>
  | Not_listening           \<comment> \<open>a resource notification from a resource not listened to (debug check)\<close>

type_synonym 'a result = "error + 'a"

text \<open>
  A \<open>static_cast<unsigned int>\<close> of a \<open>float\<close> where the code gives no reason for the
  value to be in range: the undefined cases are the error \<open>Float_cast_out_of_range\<close>.
\<close>

definition u32_of_float_checked :: "float \<Rightarrow> u32 result" where
  "u32_of_float_checked r =
     (if 0 \<le> trunc_float r \<and> trunc_float r < 2 ^ 32 then Inr (word_of_int (trunc_float r))
      else Inl Float_cast_out_of_range)"

section \<open>Lemma collections\<close>

named_theorems size_simps "arithmetic of std::size_t below the wrap-around"
named_theorems word_conv "conversions between words and naturals below the word size"
named_theorems float_eval "evaluation of float truncation on concrete rationals"

lemmas [float_eval] = trunc_float_def u32_of_float_def float_of_u32_def floor_eq_iff ceiling_eq_iff

lemma size_add_small [size_simps]:
  "a + b < size_modulus \<Longrightarrow> size_add a b = a + b"
  by (simp add: size_add_def)

lemma size_sub_small [size_simps]:
  "b \<le> a \<Longrightarrow> a < size_modulus \<Longrightarrow> size_sub a b = a - b"
  by (simp add: size_sub_def of_nat_diff)

lemma size_sub_zero_one [size_simps]:
  "size_sub 0 1 = size_modulus - 1"
proof -
  have "(- 1 :: int) mod int size_modulus = int size_modulus - 1"
    by (simp add: size_modulus_def zmod_minus1)
  then show ?thesis
    by (simp add: size_sub_def size_modulus_def nat_diff_distrib)
qed

lemma size_modulus_bound [size_simps]: "(2::nat) ^ 32 < size_modulus"
  by (simp add: size_modulus_def)

lemma unat_u32_of_size [word_conv]:
  "n < 2 ^ 32 \<Longrightarrow> unat (u32_of_size n) = n"
  by (simp add: u32_of_size_def unat_of_nat)

lemma u32_of_size_unat [word_conv]:
  "u32_of_size (unat w) = w"
  by (simp add: u32_of_size_def)

lemma unat_u32_less [word_conv]: "unat (w :: u32) < 2 ^ 32"
  using unsigned_less [of w] by simp

lemma unat_u32_inj [word_conv]:
  "(unat (v :: u32) = unat w) = (v = w)"
  by (simp add: unat_arith_simps(3))

lemma u32_of_size_inj [word_conv]:
  "m < 2 ^ 32 \<Longrightarrow> n < 2 ^ 32 \<Longrightarrow> (u32_of_size m = u32_of_size n) = (m = n)"
  by (metis unat_u32_of_size)

lemma float_of_u32_word_of_int [word_conv]:
  "float_of_u32 (word_of_int k) = of_int (k mod 2 ^ 32)"
proof -
  have "unat (word_of_int k :: u32) = nat (k mod 2 ^ 32)"
    by (simp add: unat_eq_nat_uint uint_word_of_int)
  then show ?thesis by (simp add: float_of_u32_def)
qed

lemma u32_of_float_checked_of_int:
  "u32_of_float_checked (of_int k) =
     (if 0 \<le> k \<and> k < 2 ^ 32 then Inr (word_of_int k) else Inl Float_cast_out_of_range)"
  by (simp add: u32_of_float_checked_def trunc_float_def)

lemma unat_word_of_int_u32:
  "0 \<le> k \<Longrightarrow> k < 2 ^ 32 \<Longrightarrow> unat (word_of_int k :: u32) = nat k"
  by (simp add: unat_eq_nat_uint uint_word_of_int_eq take_bit_int_eq_self)

lemma u32_of_float_of_int [word_conv]: "u32_of_float (of_int k) = word_of_int k"
  by (simp add: u32_of_float_def trunc_float_def)

lemma float_of_u32_zero [word_conv]: "float_of_u32 0 = 0"
  by (simp add: float_of_u32_def)

lemma neg_mod_u32 [word_conv]:
  "- 4294967296 \<le> k \<Longrightarrow> k < 0 \<Longrightarrow> (k::int) mod 4294967296 = k + 4294967296"
proof -
  assume a: "- 4294967296 \<le> k" "k < 0"
  have "(k + 4294967296) mod 4294967296 = k + 4294967296"
    using a by (intro mod_pos_pos_trivial) simp_all
  then show ?thesis by simp
qed

lemma unat_plus_one_u32 [word_conv]:
  "unat (w :: u32) + 1 < 2 ^ 32 \<Longrightarrow> unat (w + 1) = unat w + 1"
  using unat_add_lem [of w 1] by simp

lemma unat_succ_u32 [word_conv]:
  "unat ((y :: u32) + 1) = (if unat y + 1 < 2 ^ 32 then unat y + 1 else 0)"
proof -
  have eq: "unat (y + 1) = (unat y + 1) mod 2 ^ 32"
    by (simp add: unat_word_ariths)
  have "unat y + 1 \<le> 2 ^ 32" using unat_u32_less [of y] by simp
  then show ?thesis using eq by auto
qed

lemma size_lt_modulus [size_simps]: "n < 2 ^ 32 \<Longrightarrow> (n::nat) < size_modulus"
  using size_modulus_bound by linarith

lemma size_sub_self [size_simps]: "size_sub a a = 0"
  by (simp add: size_sub_def)

lemma u32_of_size_max [word_conv]: "u32_of_size (size_modulus - 1) = - 1"
  by (simp add: u32_of_size_def size_modulus_def)

end
