(* ===== verification/Nz_Math.thy ===== *)
theory Nz_Math
  imports Text_Prelude
begin

text \<open>
  The vector and rectangle types of Nazara's math library that the text drawer and the
  text area exchange: \<open>Vector2ui\<close> (a cursor position, a draw position),
  \<open>Vector2i\<close> (a signed cursor offset) and \<open>Rect<T>\<close> with the operations the
  drawer calls (\<open>MakeZero\<close>, \<open>ExtendTo\<close>, \<open>GetCenter\<close>, \<open>GetMaximum\<close>).
  The math library is not among the sources; these definitions follow its
  \<open>Vector2.inl\<close> and \<open>Rect.inl\<close>. Positions are ordered line first, column second:
  the order in which \<open>AbstractTextAreaWidget::SetSelection\<close> compares them.
\<close>

section \<open>Vectors\<close>

datatype vector2ui = Vector2ui (vec_x: u32) (vec_y: u32)

datatype vector2i = Vector2i (veci_x: i32) (veci_y: i32)

instantiation vector2ui :: linorder
begin

definition less_eq_vector2ui :: "vector2ui \<Rightarrow> vector2ui \<Rightarrow> bool" where
  "p \<le> q \<longleftrightarrow> vec_y p < vec_y q \<or> (vec_y p = vec_y q \<and> vec_x p \<le> vec_x q)"

definition less_vector2ui :: "vector2ui \<Rightarrow> vector2ui \<Rightarrow> bool" where
  "p < q \<longleftrightarrow> vec_y p < vec_y q \<or> (vec_y p = vec_y q \<and> vec_x p < vec_x q)"

instance
proof
  fix p q r :: vector2ui
  show "p < q \<longleftrightarrow> p \<le> q \<and> \<not> q \<le> p"
    by (auto simp: less_eq_vector2ui_def less_vector2ui_def)
  show "p \<le> p"
    by (simp add: less_eq_vector2ui_def)
  show "p \<le> q \<Longrightarrow> q \<le> r \<Longrightarrow> p \<le> r"
    by (auto simp: less_eq_vector2ui_def)
  show "p \<le> q \<Longrightarrow> q \<le> p \<Longrightarrow> p = q"
    by (cases p; cases q) (auto simp: less_eq_vector2ui_def)
  show "p \<le> q \<or> q \<le> p"
    by (auto simp: less_eq_vector2ui_def)
qed

end

section \<open>Rectangles\<close>

record 'a rect =
  rect_x :: 'a
  rect_y :: 'a
  rect_width :: 'a
  rect_height :: 'a

definition rect_make_zero :: "'a::zero rect" where
  "rect_make_zero = \<lparr>rect_x = 0, rect_y = 0, rect_width = 0, rect_height = 0\<rparr>"

text \<open>\<open>Rect::ExtendTo(point)\<close> on an unsigned rectangle, in the order of its statements.\<close>

definition rect_extend_to :: "u32 rect \<Rightarrow> vector2ui \<Rightarrow> u32 rect" where
  "rect_extend_to r p =
     (let w = max (rect_x r + rect_width r) (vec_x p);
          h = max (rect_y r + rect_height r) (vec_y p);
          x = min (rect_x r) (vec_x p);
          y = min (rect_y r) (vec_y p)
      in \<lparr>rect_x = x, rect_y = y, rect_width = w - x, rect_height = h - y\<rparr>)"

definition rect_get_center :: "float rect \<Rightarrow> float \<times> float" where
  "rect_get_center r = (rect_x r + rect_width r / 2, rect_y r + rect_height r / 2)"

definition rect_get_maximum :: "float rect \<Rightarrow> float \<times> float" where
  "rect_get_maximum r = (rect_x r + rect_width r, rect_y r + rect_height r)"

text \<open>\<open>NzRectf(const NzRecti&)\<close>: the integer rectangle read as floats.\<close>

definition rectf_of_recti :: "int rect \<Rightarrow> float rect" where
  "rectf_of_recti r =
     \<lparr>rect_x = of_int (rect_x r), rect_y = of_int (rect_y r),
      rect_width = of_int (rect_width r), rect_height = of_int (rect_height r)\<rparr>"

lemma extend_zero_rect:
  "rect_extend_to rect_make_zero p =
     \<lparr>rect_x = 0, rect_y = 0, rect_width = vec_x p, rect_height = vec_y p\<rparr>"
  by (simp add: rect_extend_to_def rect_make_zero_def)

end
