(* ===== verification/Font_Interface.thy ===== *)
theory Font_Interface
  imports Nz_Math
begin

text \<open>
  The font-metrics provider (\<open>include/Nazara/Utility/Font.hpp\<close>) as the drawer sees
  it: a glyph record, a size-info record, and a font given by the four queries the
  drawer makes. A font is a record of functions, so every lemma about the drawer holds
  for every font; the font's glyph, kerning and size-info caches are invisible through
  this interface: \<open>Font_Cache\<close> models them and proves that a cached answer
  equals the computed one.
\<close>

record font_glyph =
  glyph_aabb :: "int rect"
  glyph_atlas_rect :: "u32 rect"
  require_faux_bold :: bool
  require_faux_italic :: bool
  glyph_flipped :: bool
  glyph_valid :: bool
  faux_outline_thickness :: float
  glyph_advance :: int
  layer_index :: u32

record size_info =
  space_advance :: int
  line_height :: u32
  underline_position :: float
  underline_thickness :: float

text \<open>
  \<open>Font::IsValid\<close>, \<open>Font::GetGlyph\<close>, \<open>Font::GetKerning\<close>, \<open>Font::GetSizeInfo\<close>.
  The glyph query takes the arguments \<open>SimpleTextDrawer::UpdateGlyphs\<close> passes
  (character size, style, character); \<open>Font.hpp\<close> declares an extra outline
  thickness, which the drawer of this revision does not pass.
\<close>

record font =
  font_is_valid :: bool
  font_get_glyph :: "u32 \<Rightarrow> u32 \<Rightarrow> char32 \<Rightarrow> font_glyph"
  font_get_kerning :: "u32 \<Rightarrow> char32 \<Rightarrow> char32 \<Rightarrow> int"
  font_get_size_info :: "u32 \<Rightarrow> size_info"

end
