(* ===== verification/Simple_Text_Drawer.thy ===== *)
theory Simple_Text_Drawer
  imports Font_Interface
begin

text \<open>
  The glyph-layout engine, \<open>src/Nazara/Utility/SimpleTextDrawer.cpp\<close>: the drawer's
  state, its setters (each invalidates the cached layout), the lazy getters, and
  \<open>UpdateGlyphs\<close>, which lays the text out glyph by glyph. The layout loop is
  \<open>layout_loop\<close>, one call of \<open>layout_char\<close> per character; the geometry of one
  glyph (translation, faux bold, faux italic) is \<open>glyph_geometry\<close>.
\<close>

section \<open>State\<close>

record color =
  color_r :: u8
  color_g :: u8
  color_b :: u8
  color_a :: u8

definition color_white :: color where
  "color_white = \<lparr>color_r = 255, color_g = 255, color_b = 255, color_a = 255\<rparr>"

definition text_style_regular :: u32 where
  "text_style_regular = 0"

text \<open>
  \<open>NzAbstractTextDrawer::Glyph\<close>. The atlas layer is named by the font's layer index
  (the drawer stores \<open>GetAtlas()->GetLayer(layerIndex)\<close>); the four corners are
  top-left, top-right, bottom-left, bottom-right.
\<close>

record glyph =
  g_atlas :: u32
  g_atlas_rect :: "u32 rect"
  g_color :: color
  g_flipped :: bool
  g_corners :: "(float \<times> float) list"

record simple_text_drawer =
  m_bounds :: "u32 rect"
  m_color :: color
  m_font :: "font option"
  m_glyphs :: "glyph list"
  m_style :: u32
  m_text :: "char32 list"
  m_character_size :: u32
  m_glyph_updated :: bool

text \<open>
  The constructor sets the colour and the style; the other members take the values of
  their declarations, which are not among the sources: no font, an invalidated layout
  and the character size given as a parameter.
\<close>

definition simple_text_drawer_new :: "u32 \<Rightarrow> simple_text_drawer" where
  "simple_text_drawer_new cs =
     \<lparr>m_bounds = rect_make_zero, m_color = color_white, m_font = None, m_glyphs = [],
      m_style = text_style_regular, m_text = [], m_character_size = cs,
      m_glyph_updated = False\<rparr>"

section \<open>Setters\<close>

definition set_character_size :: "u32 \<Rightarrow> simple_text_drawer \<Rightarrow> simple_text_drawer" where
  "set_character_size cs d = d\<lparr>m_character_size := cs, m_glyph_updated := False\<rparr>"

definition set_color :: "color \<Rightarrow> simple_text_drawer \<Rightarrow> simple_text_drawer" where
  "set_color c d = d\<lparr>m_color := c, m_glyph_updated := False\<rparr>"

text \<open>
  \<open>SetFont\<close> also moves the drawer's resource listener from the old font to the new
  one; the listener registry belongs to the font and is not modelled, the effect of a
  notification being \<open>on_resource_modified\<close> and \<open>on_resource_released\<close> below.
\<close>

definition set_font :: "font option \<Rightarrow> simple_text_drawer \<Rightarrow> simple_text_drawer" where
  "set_font f d = d\<lparr>m_font := f, m_glyph_updated := False\<rparr>"

definition set_style :: "u32 \<Rightarrow> simple_text_drawer \<Rightarrow> simple_text_drawer" where
  "set_style st d = d\<lparr>m_style := st, m_glyph_updated := False\<rparr>"

definition set_text :: "char32 list \<Rightarrow> simple_text_drawer \<Rightarrow> simple_text_drawer" where
  "set_text t d = d\<lparr>m_text := t, m_glyph_updated := False\<rparr>"

text \<open>The two static \<open>Draw\<close> factories.\<close>

definition draw :: "char32 list \<Rightarrow> u32 \<Rightarrow> u32 \<Rightarrow> color \<Rightarrow> simple_text_drawer" where
  "draw str cs style c =
     set_text str (set_style style (set_color c (set_character_size cs (simple_text_drawer_new cs))))"

definition draw_with_font ::
  "font option \<Rightarrow> char32 list \<Rightarrow> u32 \<Rightarrow> u32 \<Rightarrow> color \<Rightarrow> simple_text_drawer" where
  "draw_with_font f str cs style c =
     set_text str (set_style style (set_font f (set_color c
       (set_character_size cs (simple_text_drawer_new cs)))))"

definition get_font_index :: "nat \<Rightarrow> simple_text_drawer \<Rightarrow> font option result" where
  "get_font_index i d = (if 0 < i then Inl Font_index_out_of_range else Inr (m_font d))"

definition get_font_count :: "simple_text_drawer \<Rightarrow> nat" where
  "get_font_count d = 1"

text \<open>Font notifications: three modification codes invalidate the layout.\<close>

datatype font_modification =
    Atlas_changed | Atlas_layer_changed | Glyph_cache_cleared
  | Kerning_cache_cleared | Size_info_cache_cleared

definition on_resource_modified ::
  "font_modification \<Rightarrow> simple_text_drawer \<Rightarrow> bool \<times> simple_text_drawer" where
  "on_resource_modified code d =
     (True,
      if code = Atlas_changed \<or> code = Atlas_layer_changed \<or> code = Glyph_cache_cleared
      then d\<lparr>m_glyph_updated := False\<rparr> else d)"

definition on_resource_released :: "simple_text_drawer \<Rightarrow> simple_text_drawer" where
  "on_resource_released d = set_font None d"

section \<open>Geometry of one glyph\<close>

text \<open>The font's box, moved to the draw position (\<open>bounds.x += drawPos.x\<close>, ...).\<close>

definition translated_bounds :: "font_glyph \<Rightarrow> vector2ui \<Rightarrow> float rect" where
  "translated_bounds fg dp =
     (let b = rectf_of_recti (glyph_aabb fg)
      in b\<lparr>rect_x := rect_x b + float_of_u32 (vec_x dp),
           rect_y := rect_y b + float_of_u32 (vec_y dp)\<rparr>)"

text \<open>Faux bold: both sides scaled by 1.1, the box moved back to its old vertical centre.\<close>

definition faux_bold_bounds :: "float rect \<Rightarrow> float rect" where
  "faux_bold_bounds b =
     (let center = rect_get_center b;
          b' = b\<lparr>rect_width := rect_width b * 11 / 10, rect_height := rect_height b * 11 / 10\<rparr>;
          offset_y = snd (rect_get_center b') - snd center
      in b'\<lparr>rect_y := rect_y b' - offset_y\<rparr>)"

definition italic_skew :: float where
  "italic_skew = 26 / 125"

text \<open>The four corners, the top and bottom edges sheared by the italic factor.\<close>

definition glyph_corners :: "bool \<Rightarrow> float rect \<Rightarrow> (float \<times> float) list" where
  "glyph_corners faux_italic b =
     (let italic = (if faux_italic then italic_skew else 0);
          italic_top = italic * rect_y b;
          italic_bottom = italic * snd (rect_get_maximum b)
      in [(rect_x b - italic_top, rect_y b),
          (rect_x b + rect_width b - italic_top, rect_y b),
          (rect_x b - italic_bottom, rect_y b + rect_height b),
          (rect_x b + rect_width b - italic_bottom, rect_y b + rect_height b)])"

definition glyph_geometry :: "font_glyph \<Rightarrow> vector2ui \<Rightarrow> (float \<times> float) list \<times> float" where
  "glyph_geometry fg dp =
     (let b = translated_bounds fg dp;
          b' = (if require_faux_bold fg then faux_bold_bounds b else b);
          advance = (if require_faux_bold fg then of_int (glyph_advance fg) * 11 / 10
                     else of_int (glyph_advance fg))
      in (glyph_corners (require_faux_italic fg) b', advance))"

section \<open>The layout loop\<close>

record layout_state =
  draw_pos :: vector2ui
  last_pos :: vector2ui
  previous_character :: char32
  out_glyphs :: "glyph list"

definition layout_init :: "u32 \<Rightarrow> layout_state" where
  "layout_init cs =
     \<lparr>draw_pos = Vector2ui 0 cs, last_pos = Vector2ui 0 0, previous_character = 0,
      out_glyphs = []\<rparr>"

definition move_x :: "(u32 \<Rightarrow> u32) \<Rightarrow> vector2ui \<Rightarrow> vector2ui" where
  "move_x f p = Vector2ui (f (vec_x p)) (vec_y p)"

definition is_layout_whitespace :: "char32 \<Rightarrow> bool" where
  "is_layout_whitespace c \<longleftrightarrow> c = 32 \<or> c = 10 \<or> c = 9"

text \<open>
  One iteration of the \<open>for\<close> loop of \<open>UpdateGlyphs\<close>: kerning against the previous
  character, then space, newline and tab move the pen and emit nothing; any other
  character emits a glyph when the font reports it valid. Adding the signed kerning or
  space advance to the unsigned pen wraps modulo \<open>2^32\<close>.
\<close>

definition layout_char ::
  "font \<Rightarrow> u32 \<Rightarrow> u32 \<Rightarrow> color \<Rightarrow> size_info \<Rightarrow> layout_state \<Rightarrow> char32 \<Rightarrow> layout_state" where
  "layout_char f cs style c si st ch =
     (let dp = (if previous_character st \<noteq> 0
                then move_x (\<lambda>x. x + word_of_int (font_get_kerning f cs (previous_character st) ch))
                       (draw_pos st)
                else draw_pos st);
          st = st\<lparr>draw_pos := dp, previous_character := ch\<rparr>
      in if ch = 32 then st\<lparr>draw_pos := move_x (\<lambda>x. x + word_of_int (space_advance si)) dp\<rparr>
         else if ch = 10 then st\<lparr>draw_pos := Vector2ui 0 (vec_y dp + line_height si)\<rparr>
         else if ch = 9 then st\<lparr>draw_pos := move_x (\<lambda>x. x + word_of_int (space_advance si * 4)) dp\<rparr>
         else
           (let fg = font_get_glyph f cs style ch
            in if \<not> glyph_valid fg then st
               else
                 (let (corners, advance) = glyph_geometry fg dp;
                      g = \<lparr>g_atlas = layer_index fg, g_atlas_rect = glyph_atlas_rect fg,
                           g_color = c, g_flipped = glyph_flipped fg, g_corners = corners\<rparr>
                  in st\<lparr>out_glyphs := out_glyphs st @ [g], last_pos := dp,
                        draw_pos := move_x (\<lambda>x. u32_of_float (float_of_u32 x + advance)) dp\<rparr>)))"

primrec layout_loop ::
  "font \<Rightarrow> u32 \<Rightarrow> u32 \<Rightarrow> color \<Rightarrow> size_info \<Rightarrow> layout_state \<Rightarrow> char32 list \<Rightarrow> layout_state" where
  "layout_loop f cs style c si st [] = st"
| "layout_loop f cs style c si st (ch # chs) = layout_loop f cs style c si (layout_char f cs style c si st ch) chs"

text \<open>
  \<open>UpdateGlyphs\<close>: clear the layout and mark it fresh, then fail with
  \<open>Invalid_font\<close> (logged, not thrown: the layout stays empty) without a valid font,
  stop on an empty text, else run the loop and extend the bounds to the last pen
  position at which a glyph was emitted. The text is a sequence of code points: the
  UTF-8 to UTF-32 conversion of \<open>NzString\<close> (and its "Invalid character set" error) is
  outside this theory.
\<close>

definition update_glyphs :: "simple_text_drawer \<Rightarrow> error option \<times> simple_text_drawer" where
  "update_glyphs d =
     (let d = d\<lparr>m_bounds := rect_make_zero, m_glyphs := [], m_glyph_updated := True\<rparr>
      in case m_font d of
           None \<Rightarrow> (Some Invalid_font, d)
         | Some f \<Rightarrow>
             if \<not> font_is_valid f then (Some Invalid_font, d)
             else if m_text d = [] then (None, d)
             else
               (let cs = m_character_size d;
                    si = font_get_size_info f cs;
                    st = layout_loop f cs (m_style d) (m_color d) si (layout_init cs) (m_text d)
                in (None, d\<lparr>m_glyphs := out_glyphs st,
                            m_bounds := rect_extend_to (m_bounds d) (last_pos st)\<rparr>)))"

section \<open>Lazy getters\<close>

definition ensure_glyphs :: "simple_text_drawer \<Rightarrow> simple_text_drawer" where
  "ensure_glyphs d = (if m_glyph_updated d then d else snd (update_glyphs d))"

definition get_bounds :: "simple_text_drawer \<Rightarrow> u32 rect \<times> simple_text_drawer" where
  "get_bounds d = (let d = ensure_glyphs d in (m_bounds d, d))"

definition get_glyph :: "nat \<Rightarrow> simple_text_drawer \<Rightarrow> glyph result \<times> simple_text_drawer" where
  "get_glyph i d =
     (let d = ensure_glyphs d
      in (if i < length (m_glyphs d) then Inr (m_glyphs d ! i) else Inl Glyph_out_of_range, d))"

definition get_glyph_count :: "simple_text_drawer \<Rightarrow> nat \<times> simple_text_drawer" where
  "get_glyph_count d = (let d = ensure_glyphs d in (length (m_glyphs d), d))"

text \<open>The plain getters read the settings and never lay the text out.\<close>

definition get_character_size :: "simple_text_drawer \<Rightarrow> u32" where
  "get_character_size d = m_character_size d"

definition get_color :: "simple_text_drawer \<Rightarrow> color" where
  "get_color d = m_color d"

definition get_font :: "simple_text_drawer \<Rightarrow> font option" where
  "get_font d = m_font d"

definition get_style :: "simple_text_drawer \<Rightarrow> u32" where
  "get_style d = m_style d"

section \<open>Vocabulary of the properties\<close>

text \<open>A character emits a glyph when it is no layout whitespace and its glyph is valid.\<close>

definition emits_glyph :: "font \<Rightarrow> u32 \<Rightarrow> u32 \<Rightarrow> char32 \<Rightarrow> bool" where
  "emits_glyph f cs style ch \<longleftrightarrow>
     \<not> is_layout_whitespace ch \<and> glyph_valid (font_get_glyph f cs style ch)"

text \<open>
  The cache is coherent when a layout marked fresh is the one \<open>UpdateGlyphs\<close> would
  compute from the current text, font, size, style and colour.
\<close>

definition cache_coherent :: "simple_text_drawer \<Rightarrow> bool" where
  "cache_coherent d \<longleftrightarrow> (m_glyph_updated d \<longrightarrow> snd (update_glyphs d) = d)"

text \<open>The drawer's public operations, each with the state it leaves behind.\<close>

datatype drawer_op =
    Set_character_size u32 | Set_color color | Set_font "font option" | Set_style u32
  | Set_text "char32 list" | Get_bounds | Get_glyph nat | Get_glyph_count
  | Resource_modified font_modification | Resource_released

fun drawer_step :: "drawer_op \<Rightarrow> simple_text_drawer \<Rightarrow> simple_text_drawer" where
  "drawer_step (Set_character_size cs) d = set_character_size cs d"
| "drawer_step (Set_color c) d = set_color c d"
| "drawer_step (Set_font f) d = set_font f d"
| "drawer_step (Set_style st) d = set_style st d"
| "drawer_step (Set_text t) d = set_text t d"
| "drawer_step Get_bounds d = snd (get_bounds d)"
| "drawer_step (Get_glyph i) d = snd (get_glyph i d)"
| "drawer_step Get_glyph_count d = snd (get_glyph_count d)"
| "drawer_step (Resource_modified code) d = snd (on_resource_modified code d)"
| "drawer_step Resource_released d = on_resource_released d"

definition drawer_run :: "drawer_op list \<Rightarrow> simple_text_drawer \<Rightarrow> simple_text_drawer" where
  "drawer_run ops d = fold drawer_step ops d"

text \<open>
  A sample font for the witnesses: every code point below 128 has a valid glyph
  (8 by 10 pixels above the baseline, advance 9), others are invalid; the kerning of any
  character against a preceding newline is \<open>-1\<close>, all other pairs 0.
\<close>

definition sample_glyph :: "char32 \<Rightarrow> font_glyph" where
  "sample_glyph ch =
     \<lparr>glyph_aabb = \<lparr>rect_x = 0, rect_y = -10, rect_width = 8, rect_height = 10\<rparr>,
      glyph_atlas_rect = rect_make_zero, require_faux_bold = False, require_faux_italic = False,
      glyph_flipped = False, glyph_valid = (ch < 128), faux_outline_thickness = 0,
      glyph_advance = 9, layer_index = 0\<rparr>"

definition sample_font :: font where
  "sample_font =
     \<lparr>font_is_valid = True, font_get_glyph = (\<lambda>cs style ch. sample_glyph ch),
      font_get_kerning = (\<lambda>cs a b. if a = 10 then -1 else 0),
      font_get_size_info = (\<lambda>cs. \<lparr>space_advance = 5, line_height = 20,
                                    underline_position = 0, underline_thickness = 0\<rparr>)\<rparr>"

section \<open>The loop, one character at a time\<close>

lemmas drawer_setters = set_character_size_def set_color_def set_font_def set_style_def set_text_def

lemmas layout_unfold = layout_init_def layout_char_def emits_glyph_def is_layout_whitespace_def
  Let_def move_x_def glyph_geometry_def translated_bounds_def glyph_corners_def rectf_of_recti_def

lemma layout_char_non_emitting:
  "\<not> emits_glyph f cs style ch \<Longrightarrow>
   out_glyphs (layout_char f cs style c si st ch) = out_glyphs st \<and>
   last_pos (layout_char f cs style c si st ch) = last_pos st"
  by (auto simp: layout_char_def emits_glyph_def is_layout_whitespace_def Let_def)

lemma layout_char_emitting:
  "emits_glyph f cs style ch \<Longrightarrow>
   length (out_glyphs (layout_char f cs style c si st ch)) = Suc (length (out_glyphs st))"
  by (auto simp: layout_char_def emits_glyph_def is_layout_whitespace_def Let_def split: prod.splits)

lemma layout_char_length:
  "length (out_glyphs (layout_char f cs style c si st ch)) =
     length (out_glyphs st) + (if emits_glyph f cs style ch then 1 else 0)"
  using layout_char_non_emitting layout_char_emitting by (cases "emits_glyph f cs style ch") auto

lemma layout_loop_length:
  "length (out_glyphs (layout_loop f cs style c si st chs)) =
     length (out_glyphs st) + length (filter (emits_glyph f cs style) chs)"
  by (induction chs arbitrary: st) (simp_all add: layout_char_length)

lemma layout_loop_append:
  "layout_loop f cs style c si st (xs @ ys) =
     layout_loop f cs style c si (layout_loop f cs style c si st xs) ys"
  by (induction xs arbitrary: st) simp_all

lemma layout_loop_non_emitting:
  "\<forall>ch \<in> set chs. \<not> emits_glyph f cs style ch \<Longrightarrow>
   out_glyphs (layout_loop f cs style c si st chs) = out_glyphs st \<and>
   last_pos (layout_loop f cs style c si st chs) = last_pos st"
  by (induction chs arbitrary: st) (simp_all add: layout_char_non_emitting)

lemma faux_bold_x: "rect_x (faux_bold_bounds b) = rect_x b"
  by (simp add: faux_bold_bounds_def Let_def)

section \<open>UpdateGlyphs and the cache\<close>

lemma update_glyphs_valid_font:
  assumes "m_font d = Some f" and "font_is_valid f"
  shows "update_glyphs d =
    (let st = layout_loop f (m_character_size d) (m_style d) (m_color d)
                (font_get_size_info f (m_character_size d)) (layout_init (m_character_size d)) (m_text d)
     in (None, d\<lparr>m_bounds := rect_extend_to rect_make_zero (last_pos st),
                 m_glyphs := out_glyphs st, m_glyph_updated := True\<rparr>))"
  using assms
  by (cases "m_text d = []")
     (simp_all add: update_glyphs_def Let_def layout_init_def rect_extend_to_def rect_make_zero_def)

lemma update_glyphs_idem: "update_glyphs (snd (update_glyphs d)) = update_glyphs d"
  by (auto simp: update_glyphs_def Let_def split: option.splits)

lemma update_glyphs_updated: "m_glyph_updated (snd (update_glyphs d))"
  by (auto simp: update_glyphs_def Let_def split: option.splits)

lemma ensure_glyphs_coherent: "cache_coherent d \<Longrightarrow> ensure_glyphs d = snd (update_glyphs d)"
  by (simp add: ensure_glyphs_def cache_coherent_def)

lemma cache_coherent_ensure: "cache_coherent d \<Longrightarrow> cache_coherent (ensure_glyphs d)"
  by (simp add: cache_coherent_def ensure_glyphs_def update_glyphs_idem)

lemma cache_coherent_step: "cache_coherent d \<Longrightarrow> cache_coherent (drawer_step op d)"
proof (cases op)
  case (Resource_modified code)
  assume "cache_coherent d"
  then show ?thesis using Resource_modified
    by (simp add: on_resource_modified_def cache_coherent_def)
qed (simp_all add: cache_coherent_def drawer_setters on_resource_released_def get_bounds_def
       get_glyph_def get_glyph_count_def Let_def cache_coherent_ensure [unfolded cache_coherent_def])

lemma drawer_run_coherent: "cache_coherent d \<Longrightarrow> cache_coherent (drawer_run ops d)"
  unfolding drawer_run_def
  by (induction ops arbitrary: d) (simp_all add: cache_coherent_step)

lemma cache_coherent_new: "cache_coherent (simple_text_drawer_new cs)"
  by (simp add: cache_coherent_def simple_text_drawer_new_def)

lemma cache_coherent_draw_with_font: "cache_coherent (draw_with_font f str cs style c)"
  by (simp add: cache_coherent_def draw_with_font_def drawer_setters)

lemma glyph_count_coherent:
  assumes "cache_coherent d" and "m_font d = Some f" and "font_is_valid f"
  shows "fst (get_glyph_count d) =
           length (filter (emits_glyph f (m_character_size d) (m_style d)) (m_text d))"
  using assms
  by (simp add: get_glyph_count_def ensure_glyphs_coherent update_glyphs_valid_font Let_def
        layout_loop_length layout_init_def)

lemma sample_font_valid: "font_is_valid sample_font"
  by (simp add: sample_font_def)

lemma draw_with_font_fields:
  "m_font (draw_with_font f str cs style c) = f \<and> m_text (draw_with_font f str cs style c) = str \<and>
   m_character_size (draw_with_font f str cs style c) = cs \<and>
   m_style (draw_with_font f str cs style c) = style \<and> m_color (draw_with_font f str cs style c) = c"
  by (simp add: draw_with_font_def drawer_setters)

lemmas sample_eval = sample_font_def sample_glyph_def emits_glyph_def is_layout_whitespace_def

section \<open>Properties of the layout engine\<close>

text \<open>
  C3. Whatever sequence of setters, getters and font notifications a fresh drawer
  goes through, its cached layout is never stale: a layout marked up to date is the
  one \<open>UpdateGlyphs\<close> computes from the current text and settings.
\<close>

theorem drawer_reachable_coherent:
  "cache_coherent (drawer_run ops (simple_text_drawer_new cs))"
  by (rule drawer_run_coherent) (rule cache_coherent_new)

text \<open>
  C4. With a valid font, the glyph count a drawer reports is the number of characters
  of its text that are no space, newline or tab and whose glyph the font reports valid:
  kerning, pen position and style never add or drop a glyph.
\<close>

theorem drawer_glyph_count:
  assumes "cache_coherent d" and "m_font d = Some f" and "font_is_valid f"
  shows "fst (get_glyph_count d) =
           length (filter (emits_glyph f (m_character_size d) (m_style d)) (m_text d))"
  using assms by (rule glyph_count_coherent)

theorem drawer_glyph_count_witness:
  "cache_coherent (draw_with_font (Some sample_font) [65, 32, 66, 200] 16 0 color_white) \<and>
   fst (get_glyph_count (draw_with_font (Some sample_font) [65, 32, 66, 200] 16 0 color_white)) = 2"
proof -
  let ?d = "draw_with_font (Some sample_font) [65, 32, 66, 200] 16 0 color_white"
  have h1: "cache_coherent ?d" by (rule cache_coherent_draw_with_font)
  have h2: "m_font ?d = Some sample_font" by (simp add: draw_with_font_fields)
  have "fst (get_glyph_count ?d) =
          length (filter (emits_glyph sample_font (m_character_size ?d) (m_style ?d)) (m_text ?d))"
    by (rule drawer_glyph_count [OF h1 h2 sample_font_valid])
  also have "\<dots> = 2" by (simp add: draw_with_font_fields sample_eval)
  finally show ?thesis using h1 by simp
qed

text \<open>
  C17. The bounds and the glyphs of a text do not change when characters that emit no
  glyph are appended: a trailing newline, space or tab does not extend the bounds.
\<close>

theorem trailing_non_emitting_bounds:
  assumes "m_font d = Some f" and "font_is_valid f"
    and "\<forall>ch \<in> set ys. \<not> emits_glyph f (m_character_size d) (m_style d) ch"
  shows "m_bounds (snd (update_glyphs (set_text (xs @ ys) d))) =
           m_bounds (snd (update_glyphs (set_text xs d))) \<and>
         m_glyphs (snd (update_glyphs (set_text (xs @ ys) d))) =
           m_glyphs (snd (update_glyphs (set_text xs d)))"
  using assms
  by (simp add: update_glyphs_valid_font set_text_def Let_def layout_loop_append
        layout_loop_non_emitting)

theorem trailing_non_emitting_bounds_witness:
  "m_bounds (snd (update_glyphs (set_text [65, 10, 10] (simple_text_drawer_new 16 \<lparr>m_font := Some sample_font\<rparr>)))) =
   \<lparr>rect_x = 0, rect_y = 0, rect_width = 0, rect_height = 16\<rparr>"
proof -
  let ?d = "simple_text_drawer_new 16 \<lparr>m_font := Some sample_font\<rparr>"
  have ys: "\<forall>ch \<in> set [10, 10]. \<not> emits_glyph sample_font (m_character_size ?d) (m_style ?d) ch"
    by (simp add: sample_eval)
  have "m_bounds (snd (update_glyphs (set_text ([65] @ [10, 10]) ?d))) =
          m_bounds (snd (update_glyphs (set_text [65] ?d)))"
    using trailing_non_emitting_bounds [OF _ sample_font_valid ys, where xs = "[65]"] by simp
  also have "\<dots> = \<lparr>rect_x = 0, rect_y = 0, rect_width = 0, rect_height = 16\<rparr>"
    by (simp add: update_glyphs_def set_text_def simple_text_drawer_new_def layout_unfold
          sample_font_def sample_glyph_def rect_extend_to_def rect_make_zero_def
          text_style_regular_def split: prod.splits)
  finally show ?thesis by simp
qed

text \<open>
  C16. Two adjacent glyphs with no kerning between them: the second is drawn one
  advance of the first further right (each measured from its own box offset), as long
  as the first is not faux bold and neither is faux italic.
\<close>

theorem adjacent_glyph_pen:
  assumes "font_is_valid f" and "emits_glyph f cs style a" and "emits_glyph f cs style b"
    and "font_get_kerning f cs a b = 0"
    and "\<not> require_faux_bold (font_get_glyph f cs style a)"
    and "\<not> require_faux_italic (font_get_glyph f cs style a)"
    and "\<not> require_faux_italic (font_get_glyph f cs style b)"
    and "0 \<le> glyph_advance (font_get_glyph f cs style a)"
    and "glyph_advance (font_get_glyph f cs style a) < 2 ^ 32"
  shows "length (m_glyphs (snd (update_glyphs (draw_with_font (Some f) [a, b] cs style c)))) = 2 \<and>
    fst (g_corners (m_glyphs (snd (update_glyphs (draw_with_font (Some f) [a, b] cs style c))) ! 1) ! 0)
      - of_int (rect_x (glyph_aabb (font_get_glyph f cs style b))) =
    fst (g_corners (m_glyphs (snd (update_glyphs (draw_with_font (Some f) [a, b] cs style c))) ! 0) ! 0)
      - of_int (rect_x (glyph_aabb (font_get_glyph f cs style a)))
      + of_int (glyph_advance (font_get_glyph f cs style a))"
  using assms
  by (auto simp: update_glyphs_valid_font draw_with_font_def drawer_setters simple_text_drawer_new_def
      layout_unfold word_conv faux_bold_x split: prod.splits)

theorem adjacent_glyph_pen_witness:
  "fst (g_corners (m_glyphs (snd (update_glyphs (draw_with_font (Some sample_font) [65, 66] 16 0 color_white))) ! 1) ! 0)
   = fst (g_corners (m_glyphs (snd (update_glyphs (draw_with_font (Some sample_font) [65, 66] 16 0 color_white))) ! 0) ! 0) + 9"
  using adjacent_glyph_pen [of sample_font 16 0 65 66 color_white]
  by (simp add: sample_eval sample_font_def)

text \<open>
  C26. The pen is an unsigned 32-bit vector and the kerning a signed offset: the first
  glyph of a line is kerned against the preceding newline, and a negative kerning there
  wraps the pen to the far right, \<open>2^32 + k\<close> instead of \<open>k\<close>.
\<close>

theorem kerning_after_newline_wraps:
  assumes "font_is_valid f" and "emits_glyph f cs style ch"
    and "font_get_kerning f cs 10 ch = k" and "- 4294967296 \<le> k" and "k < 0"
    and "\<not> require_faux_italic (font_get_glyph f cs style ch)"
  shows "fst (g_corners (hd (m_glyphs (snd (update_glyphs (draw_with_font (Some f) [10, ch] cs style c))))) ! 0)
         = of_int (rect_x (glyph_aabb (font_get_glyph f cs style ch))) + 4294967296 + of_int k"
  using assms
  by (auto simp: update_glyphs_valid_font draw_with_font_def drawer_setters simple_text_drawer_new_def
      layout_unfold word_conv faux_bold_x split: prod.splits)

theorem kerning_after_newline_wraps_witness:
  "fst (g_corners (hd (m_glyphs (snd (update_glyphs (draw_with_font (Some sample_font) [10, 65] 16 0 color_white))))) ! 0)
   = 4294967295"
  using kerning_after_newline_wraps [of sample_font 16 0 65 "-1" color_white]
  by (simp add: sample_eval sample_font_def)

text \<open>
  C23. The glyph quad's geometry. Faux bold scales the glyph box by 1.1 in both
  directions, keeps its left edge and moves it back to its old vertical centre. The quad
  is a parallelogram: horizontal top and bottom edges of the box's width, one box height
  apart, the bottom edge shifted left of the top by the italic skew times the height when
  faux italic is on and not at all otherwise.
\<close>

theorem glyph_quad_geometry:
  "rect_x (faux_bold_bounds b) = rect_x b \<and>
   rect_width (faux_bold_bounds b) = rect_width b * 11 / 10 \<and>
   rect_height (faux_bold_bounds b) = rect_height b * 11 / 10 \<and>
   snd (rect_get_center (faux_bold_bounds b)) = snd (rect_get_center b) \<and>
   length (glyph_corners it b) = 4 \<and>
   snd (glyph_corners it b ! 0) = snd (glyph_corners it b ! 1) \<and>
   snd (glyph_corners it b ! 2) = snd (glyph_corners it b ! 3) \<and>
   fst (glyph_corners it b ! 1) - fst (glyph_corners it b ! 0) = rect_width b \<and>
   fst (glyph_corners it b ! 3) - fst (glyph_corners it b ! 2) = rect_width b \<and>
   snd (glyph_corners it b ! 2) - snd (glyph_corners it b ! 0) = rect_height b \<and>
   fst (glyph_corners it b ! 0) - fst (glyph_corners it b ! 2) =
     (if it then italic_skew * rect_height b else 0)"
proof (intro conjI)
  show "rect_x (faux_bold_bounds b) = rect_x b" and
    "rect_width (faux_bold_bounds b) = rect_width b * 11 / 10" and
    "rect_height (faux_bold_bounds b) = rect_height b * 11 / 10" and
    "snd (rect_get_center (faux_bold_bounds b)) = snd (rect_get_center b)"
    by (simp_all add: faux_bold_bounds_def rect_get_center_def Let_def field_simps)
qed (simp_all add: glyph_corners_def rect_get_maximum_def Let_def algebra_simps)

text \<open>
  C22. Without a font, or with an invalid one, \<open>UpdateGlyphs\<close> reports
  \<open>Invalid_font\<close> and leaves an empty, zero-bounded layout marked up to date.
\<close>

theorem update_glyphs_invalid_font:
  assumes "m_font d = None \<or> (\<exists>f. m_font d = Some f \<and> \<not> font_is_valid f)"
  shows "update_glyphs d =
           (Some Invalid_font, d\<lparr>m_bounds := rect_make_zero, m_glyphs := [], m_glyph_updated := True\<rparr>)"
  using assms by (auto simp: update_glyphs_def)

theorem update_glyphs_invalid_font_witness:
  "fst (update_glyphs (draw [65] 16 0 color_white)) = Some Invalid_font"
  using update_glyphs_invalid_font [of "draw [65] 16 0 color_white"]
  by (simp add: draw_def drawer_setters simple_text_drawer_new_def)

end
