(* ===== verification/Drawer_Listeners.thy ===== *)
theory Drawer_Listeners
  imports Simple_Text_Drawer
begin

text \<open>
  The resource-listener protocol of \<open>src/src/Nazara/Utility/SimpleTextDrawer.cpp\<close>:
  \<open>SetFont\<close> unregisters the drawer from its old font and registers it with the new one,
  the destructor unregisters it, and the two notifications a font sends check, under
  \<open>NAZARA_DEBUG\<close>, that they come from the font the drawer points to. Fonts have an
  identity here: \<open>m_font\<close> is a pointer \<open>'fid option\<close> into a font store
  \<open>'fid \<Rightarrow> font\<close>, and each font's registry of listeners is represented, for this drawer,
  by the set of fonts the drawer is registered with (\<open>AddResourceListener\<close> inserts,
  \<open>RemoveResourceListener\<close> removes; both are defined outside the sources). The drawer
  record of \<open>Simple_Text_Drawer\<close> is carried along, with the pointed-to font as its
  \<open>m_font\<close>.
\<close>

section \<open>State and operations\<close>

record 'fid listened_drawer =
  ld_drawer :: simple_text_drawer
  ld_font :: "'fid option"
  ld_listeners :: "'fid set"

definition ld_new :: "u32 \<Rightarrow> 'fid listened_drawer" where
  "ld_new cs = \<lparr>ld_drawer = simple_text_drawer_new cs, ld_font = None, ld_listeners = {}\<rparr>"

text \<open>\<open>SetFont\<close> with its listener calls, in the order of the code.\<close>

definition ld_set_font ::
  "('fid \<Rightarrow> font) \<Rightarrow> 'fid option \<Rightarrow> 'fid listened_drawer \<Rightarrow> 'fid listened_drawer" where
  "ld_set_font store font s =
     (let l = (case ld_font s of Some f \<Rightarrow> ld_listeners s - {f} | None \<Rightarrow> ld_listeners s);
          l = (case font of Some f \<Rightarrow> insert f l | None \<Rightarrow> l)
      in s\<lparr>ld_drawer := set_font (map_option store font) (ld_drawer s), ld_font := font,
           ld_listeners := l\<rparr>)"

text \<open>The destructor: the registrations that outlive the drawer.\<close>

definition ld_destroy :: "'fid listened_drawer \<Rightarrow> 'fid set" where
  "ld_destroy s = (case ld_font s of Some f \<Rightarrow> ld_listeners s - {f} | None \<Rightarrow> ld_listeners s)"

definition ld_on_resource_modified ::
  "'fid \<Rightarrow> font_modification \<Rightarrow> 'fid listened_drawer \<Rightarrow> (bool \<times> 'fid listened_drawer) result" where
  "ld_on_resource_modified resource code s =
     (if ld_font s \<noteq> Some resource then Inl Not_listening
      else (let (r, d) = on_resource_modified code (ld_drawer s) in Inr (r, s\<lparr>ld_drawer := d\<rparr>)))"

definition ld_on_resource_released ::
  "('fid \<Rightarrow> font) \<Rightarrow> 'fid \<Rightarrow> 'fid listened_drawer \<Rightarrow> 'fid listened_drawer result" where
  "ld_on_resource_released store resource s =
     (if ld_font s \<noteq> Some resource then Inl Not_listening
      else Inr (ld_set_font store None s))"

datatype 'fid ld_op =
    LD_set_font "'fid option" | LD_modified 'fid font_modification | LD_released 'fid

fun ld_step :: "('fid \<Rightarrow> font) \<Rightarrow> 'fid ld_op \<Rightarrow> 'fid listened_drawer \<Rightarrow> 'fid listened_drawer result" where
  "ld_step store (LD_set_font f) s = Inr (ld_set_font store f s)"
| "ld_step store (LD_modified r code) s = map_sum id snd (ld_on_resource_modified r code s)"
| "ld_step store (LD_released r) s = ld_on_resource_released store r s"

fun ld_run :: "('fid \<Rightarrow> font) \<Rightarrow> 'fid ld_op list \<Rightarrow> 'fid listened_drawer \<Rightarrow> 'fid listened_drawer result" where
  "ld_run store [] s = Inr s"
| "ld_run store (op # ops) s =
     (case ld_step store op s of Inl e \<Rightarrow> Inl e | Inr s' \<Rightarrow> ld_run store ops s')"

text \<open>
  The protocol invariant: the drawer is registered with exactly the font it points to,
  its drawer record holds that font, and its layout cache is coherent.
\<close>

definition ld_inv :: "('fid \<Rightarrow> font) \<Rightarrow> 'fid listened_drawer \<Rightarrow> bool" where
  "ld_inv store s \<longleftrightarrow>
     ld_listeners s = set_option (ld_font s) \<and> get_font (ld_drawer s) = map_option store (ld_font s) \<and>
     cache_coherent (ld_drawer s)"

text \<open>
  The drawer operation each protocol step performs on the drawer record: the abstraction
  under which the protocol refines the drawer model \<open>drawer_step\<close>.
\<close>

fun ld_erase :: "('fid \<Rightarrow> font) \<Rightarrow> 'fid ld_op \<Rightarrow> drawer_op" where
  "ld_erase store (LD_set_font f) = Set_font (map_option store f)"
| "ld_erase store (LD_modified r code) = Resource_modified code"
| "ld_erase store (LD_released r) = Resource_released"

definition sample_store :: "nat \<Rightarrow> font" where
  "sample_store fid = sample_font"

section \<open>Lemmas\<close>

lemma ld_set_font_inv: "ld_inv store s \<Longrightarrow> ld_inv store (ld_set_font store f s)"
  by (auto simp: ld_inv_def get_font_def ld_set_font_def Let_def set_font_def cache_coherent_def
      split: option.splits)

lemma ld_step_inv:
  assumes "ld_inv store s" and "ld_step store op s = Inr s'"
  shows "ld_inv store s'"
proof (cases op)
  case (LD_set_font f)
  then show ?thesis using assms ld_set_font_inv by auto
next
  case (LD_modified r code)
  then show ?thesis using assms
    by (auto simp: ld_on_resource_modified_def ld_inv_def get_font_def on_resource_modified_def cache_coherent_def
        split: if_splits)
next
  case (LD_released r)
  then show ?thesis using assms ld_set_font_inv
    by (auto simp: ld_on_resource_released_def split: if_splits)
qed

lemma ld_run_inv: "ld_inv store s \<Longrightarrow> ld_run store ops s = Inr s' \<Longrightarrow> ld_inv store s'"
proof (induction ops arbitrary: s)
  case Nil
  then show ?case by simp
next
  case (Cons op ops)
  then obtain s1 where "ld_step store op s = Inr s1" and "ld_run store ops s1 = Inr s'"
    by (auto split: sum.splits)
  then show ?case using Cons.IH ld_step_inv [OF Cons.prems(1)] by blast
qed

lemma ld_step_refines:
  "ld_step store op s = Inr s' \<Longrightarrow> ld_drawer s' = drawer_step (ld_erase store op) (ld_drawer s)"
  by (cases op) (auto simp: ld_set_font_def Let_def ld_on_resource_modified_def
      ld_on_resource_released_def on_resource_released_def split: if_splits prod.splits)

text \<open>
  Refinement: a successful run of the protocol changes the drawer record exactly as the
  drawer model runs the erased operations, so every fact about \<open>drawer_run\<close> holds
  of the drawer inside the protocol.
\<close>

lemma ld_run_refines:
  "ld_run store ops s = Inr s' \<Longrightarrow> ld_drawer s' = drawer_run (map (ld_erase store) ops) (ld_drawer s)"
proof (induction ops arbitrary: s)
  case Nil
  then show ?case by (simp add: drawer_run_def)
next
  case (Cons op ops)
  then obtain s1 where s1: "ld_step store op s = Inr s1" and r: "ld_run store ops s1 = Inr s'"
    by (auto split: sum.splits)
  show ?case
    using Cons.IH [OF r] ld_step_refines [OF s1] by (simp add: drawer_run_def)
qed

lemma ld_inv_new: "ld_inv store (ld_new cs)"
  using cache_coherent_new [of cs] by (simp add: ld_inv_def get_font_def ld_new_def simple_text_drawer_new_def)

lemma ld_font_set_font [simp]: "ld_font (ld_set_font store f s) = f"
  by (simp add: ld_set_font_def Let_def)

section \<open>Properties of the protocol\<close>

text \<open>
  C27. Whatever fonts a new drawer is given and whatever notifications it receives, it is
  registered as a listener with exactly the font it points to, \<open>GetFont\<close> returns
  that font, and its destructor leaves it registered with no font: no font keeps a
  dangling listener.
\<close>

theorem listener_registration_inv:
  assumes "ld_run store ops (ld_new cs) = Inr s"
  shows "ld_listeners s = set_option (ld_font s) \<and> get_font (ld_drawer s) = map_option store (ld_font s) \<and>
         ld_destroy s = {}"
proof -
  have "ld_inv store s" using ld_run_inv [OF ld_inv_new assms] .
  then show ?thesis by (auto simp: ld_inv_def get_font_def ld_destroy_def split: option.splits)
qed

theorem listener_registration_inv_witness:
  "ld_run sample_store [LD_set_font (Some 1), LD_set_font (Some 2), LD_released 2, LD_set_font (Some 1)]
     (ld_new 16) =
     Inr (ld_set_font sample_store (Some 1) (ld_set_font sample_store None
       (ld_set_font sample_store (Some 2) (ld_set_font sample_store (Some 1) (ld_new 16))))) \<and>
   ld_listeners (ld_set_font sample_store (Some 1) (ld_set_font sample_store None
       (ld_set_font sample_store (Some 2) (ld_set_font sample_store (Some 1) (ld_new 16))))) = {1} \<and>
   ld_destroy (ld_set_font sample_store (Some 1) (ld_set_font sample_store None
       (ld_set_font sample_store (Some 2) (ld_set_font sample_store (Some 1) (ld_new (16 :: u32)))))) = {}"
proof -
  let ?s = "ld_set_font sample_store (Some 1) (ld_set_font sample_store None
       (ld_set_font sample_store (Some 2) (ld_set_font sample_store (Some 1) (ld_new 16))))"
  have r: "ld_run sample_store [LD_set_font (Some 1), LD_set_font (Some 2), LD_released 2, LD_set_font (Some 1)]
     (ld_new 16) = Inr ?s"
    by (simp add: ld_on_resource_released_def)
  show ?thesis using listener_registration_inv [OF r] r by simp
qed

text \<open>
  C29. The debug checks of the notifications: a font the drawer does not point to is
  refused with \<open>Not_listening\<close> by both \<open>OnResourceModified\<close> and
  \<open>OnResourceReleased\<close>; the font it points to is accepted, and its release leaves the
  drawer without a font and registered nowhere.
\<close>

theorem listener_notification_checks:
  assumes "ld_inv store s"
  shows "(ld_font s \<noteq> Some r \<longrightarrow>
            ld_on_resource_modified r code s = Inl Not_listening \<and>
            ld_on_resource_released store r s = Inl Not_listening) \<and>
         (ld_font s = Some r \<longrightarrow>
            (\<exists>s'. ld_on_resource_modified r code s = Inr (True, s')) \<and>
            (\<exists>s'. ld_on_resource_released store r s = Inr s' \<and> ld_font s' = None \<and>
                  ld_listeners s' = {} \<and> get_font (ld_drawer s') = None))"
  using assms
  by (auto simp: ld_on_resource_modified_def ld_on_resource_released_def on_resource_modified_def
      ld_inv_def get_font_def ld_set_font_def Let_def set_font_def)

theorem listener_notification_checks_witness:
  "ld_on_resource_released sample_store 1 (ld_new 16) = Inl Not_listening \<and>
   (\<exists>s'. ld_on_resource_released sample_store 1 (ld_set_font sample_store (Some 1) (ld_new (16 :: u32))) = Inr s' \<and>
         ld_listeners s' = {})"
proof -
  have i: "ld_inv sample_store (ld_set_font sample_store (Some 1) (ld_new 16))"
    by (rule ld_set_font_inv [OF ld_inv_new])
  have "ld_font (ld_new (16 :: u32)) \<noteq> Some (1 :: nat)" by (simp add: ld_new_def)
  then have "ld_on_resource_released sample_store 1 (ld_new 16) = Inl Not_listening"
    using listener_notification_checks [OF ld_inv_new [of sample_store 16]] by blast
  moreover have "\<exists>s'. ld_on_resource_released sample_store 1 (ld_set_font sample_store (Some 1) (ld_new 16)) = Inr s' \<and>
         ld_listeners s' = {}"
    using listener_notification_checks [OF i, of 1] by auto
  ultimately show ?thesis by blast
qed

end
