(* ===== verification/Font_Cache.thy ===== *)
theory Font_Cache
  imports Simple_Text_Drawer "HOL-Library.Mapping"
begin

text \<open>
  The caches of \<open>Nz::Font\<close> (\<open>src/include/Nazara/Utility/Font.hpp\<close>, members
  \<open>m_kerningCache\<close>, \<open>m_glyphes\<close>, \<open>m_sizeInfoCache\<close>). The header declares them and the
  queries that fill them; the bodies (\<open>Font.cpp\<close>) are not among the sources, so the
  queries follow the specification's contract: the font answers from its data and
  caches the answer by character size, style and character. The font's data is the
  uncached provider, a \<open>font\<close> record of \<open>Font_Interface\<close>. Each unordered map is a
  \<open>('k, 'v) mapping\<close>; the atlas is not modelled. The clearing operations emit the
  font's modification codes, which \<open>Drawer_Listeners\<close> delivers to the drawers.
\<close>

section \<open>State and operations\<close>

text \<open>\<open>ComputeKey(characterSize, style, outlineThickness)\<close>: the drawer of this revision
  passes no outline thickness, so the key is the size and the style.\<close>

type_synonym glyph_key = "u32 \<times> u32"

definition compute_key :: "u32 \<Rightarrow> u32 \<Rightarrow> glyph_key" where
  "compute_key character_size style = (character_size, style)"

record font_cache =
  fc_data :: font
  fc_kerning_cache :: "(u32, (char32 \<times> char32, int) mapping) mapping"
  fc_glyphes :: "(glyph_key, (char32, font_glyph) mapping) mapping"
  fc_size_info_cache :: "(u32, size_info) mapping"
  fc_glyph_border :: u32
  fc_minimum_step_size :: u32

definition fc_new :: "font \<Rightarrow> u32 \<Rightarrow> u32 \<Rightarrow> font_cache" where
  "fc_new data border step =
     \<lparr>fc_data = data, fc_kerning_cache = Mapping.empty, fc_glyphes = Mapping.empty,
      fc_size_info_cache = Mapping.empty, fc_glyph_border = border, fc_minimum_step_size = step\<rparr>"

text \<open>\<open>m[key]\<close> of an \<open>unordered_map\<close> of maps: the inner map, empty when absent.\<close>

definition inner_map :: "('k, ('a, 'b) mapping) mapping \<Rightarrow> 'k \<Rightarrow> ('a, 'b) mapping" where
  "inner_map m k = (case Mapping.lookup m k of Some i \<Rightarrow> i | None \<Rightarrow> Mapping.empty)"

text \<open>\<open>GetGlyph\<close>: a cached glyph, or \<open>PrecacheGlyph\<close> extracts it and caches it.\<close>

definition fc_get_glyph :: "u32 \<Rightarrow> u32 \<Rightarrow> char32 \<Rightarrow> font_cache \<Rightarrow> font_glyph \<times> font_cache" where
  "fc_get_glyph character_size style ch c =
     (let key = compute_key character_size style;
          glyph_map = inner_map (fc_glyphes c) key
      in case Mapping.lookup glyph_map ch of
           Some g \<Rightarrow> (g, c)
         | None \<Rightarrow>
             (let g = font_get_glyph (fc_data c) character_size style ch
              in (g, c\<lparr>fc_glyphes := Mapping.update key (Mapping.update ch g glyph_map) (fc_glyphes c)\<rparr>)))"

definition fc_get_kerning :: "u32 \<Rightarrow> char32 \<Rightarrow> char32 \<Rightarrow> font_cache \<Rightarrow> int \<times> font_cache" where
  "fc_get_kerning character_size first second c =
     (let kerning_map = inner_map (fc_kerning_cache c) character_size
      in case Mapping.lookup kerning_map (first, second) of
           Some k \<Rightarrow> (k, c)
         | None \<Rightarrow>
             (let k = font_get_kerning (fc_data c) character_size first second
              in (k, c\<lparr>fc_kerning_cache :=
                         Mapping.update character_size (Mapping.update (first, second) k kerning_map)
                           (fc_kerning_cache c)\<rparr>)))"

definition fc_get_size_info :: "u32 \<Rightarrow> font_cache \<Rightarrow> size_info \<times> font_cache" where
  "fc_get_size_info character_size c =
     (case Mapping.lookup (fc_size_info_cache c) character_size of
        Some i \<Rightarrow> (i, c)
      | None \<Rightarrow>
          (let i = font_get_size_info (fc_data c) character_size
           in (i, c\<lparr>fc_size_info_cache := Mapping.update character_size i (fc_size_info_cache c)\<rparr>)))"

text \<open>The three \<open>Clear...Cache\<close> operations, each with the signal it raises.\<close>

definition fc_clear_glyph_cache :: "font_cache \<Rightarrow> font_cache \<times> font_modification" where
  "fc_clear_glyph_cache c = (c\<lparr>fc_glyphes := Mapping.empty\<rparr>, Glyph_cache_cleared)"

definition fc_clear_kerning_cache :: "font_cache \<Rightarrow> font_cache \<times> font_modification" where
  "fc_clear_kerning_cache c = (c\<lparr>fc_kerning_cache := Mapping.empty\<rparr>, Kerning_cache_cleared)"

definition fc_clear_size_info_cache :: "font_cache \<Rightarrow> font_cache \<times> font_modification" where
  "fc_clear_size_info_cache c = (c\<lparr>fc_size_info_cache := Mapping.empty\<rparr>, Size_info_cache_cleared)"

text \<open>\<open>GetCachedGlyphCount(characterSize, style, outlineThickness)\<close> and
  \<open>GetCachedGlyphCount()\<close>.\<close>

definition fc_cached_glyph_count_key :: "u32 \<Rightarrow> u32 \<Rightarrow> font_cache \<Rightarrow> nat" where
  "fc_cached_glyph_count_key character_size style c =
     Mapping.size (inner_map (fc_glyphes c) (compute_key character_size style))"

definition fc_cached_glyph_count :: "font_cache \<Rightarrow> nat" where
  "fc_cached_glyph_count c = (\<Sum>k \<in> Mapping.keys (fc_glyphes c). Mapping.size (inner_map (fc_glyphes c) k))"

definition fc_is_valid :: "font_cache \<Rightarrow> bool" where
  "fc_is_valid c = font_is_valid (fc_data c)"

section \<open>The font as a state machine and its abstract specification\<close>

datatype fc_op =
    FC_get_glyph u32 u32 char32 | FC_get_kerning u32 char32 char32 | FC_get_size_info u32
  | FC_clear_glyph_cache | FC_clear_kerning_cache | FC_clear_size_info_cache

datatype fc_answer =
    Ans_glyph font_glyph | Ans_kerning int | Ans_size_info size_info | Ans_signal font_modification

fun fc_step :: "fc_op \<Rightarrow> font_cache \<Rightarrow> fc_answer \<times> font_cache" where
  "fc_step (FC_get_glyph cs st ch) c = apfst Ans_glyph (fc_get_glyph cs st ch c)"
| "fc_step (FC_get_kerning cs a b) c = apfst Ans_kerning (fc_get_kerning cs a b c)"
| "fc_step (FC_get_size_info cs) c = apfst Ans_size_info (fc_get_size_info cs c)"
| "fc_step FC_clear_glyph_cache c = prod.swap (apsnd Ans_signal (fc_clear_glyph_cache c))"
| "fc_step FC_clear_kerning_cache c = prod.swap (apsnd Ans_signal (fc_clear_kerning_cache c))"
| "fc_step FC_clear_size_info_cache c = prod.swap (apsnd Ans_signal (fc_clear_size_info_cache c))"

fun fc_run :: "fc_op list \<Rightarrow> font_cache \<Rightarrow> fc_answer list \<times> font_cache" where
  "fc_run [] c = ([], c)"
| "fc_run (op # ops) c =
     (let (a, c') = fc_step op c; (as, c'') = fc_run ops c' in (a # as, c''))"

text \<open>The specification: the uncached font answers every query from its data.\<close>

fun fc_spec :: "font \<Rightarrow> fc_op \<Rightarrow> fc_answer" where
  "fc_spec f (FC_get_glyph cs st ch) = Ans_glyph (font_get_glyph f cs st ch)"
| "fc_spec f (FC_get_kerning cs a b) = Ans_kerning (font_get_kerning f cs a b)"
| "fc_spec f (FC_get_size_info cs) = Ans_size_info (font_get_size_info f cs)"
| "fc_spec f FC_clear_glyph_cache = Ans_signal Glyph_cache_cleared"
| "fc_spec f FC_clear_kerning_cache = Ans_signal Kerning_cache_cleared"
| "fc_spec f FC_clear_size_info_cache = Ans_signal Size_info_cache_cleared"

text \<open>The cache invariant: every cached entry is what the data answers.\<close>

definition fc_inv :: "font_cache \<Rightarrow> bool" where
  "fc_inv c \<longleftrightarrow>
     (\<forall>k \<in> Mapping.keys (fc_glyphes c). \<forall>ch \<in> Mapping.keys (inner_map (fc_glyphes c) k).
        Mapping.lookup (inner_map (fc_glyphes c) k) ch = Some (font_get_glyph (fc_data c) (fst k) (snd k) ch)) \<and>
     (\<forall>cs \<in> Mapping.keys (fc_kerning_cache c). \<forall>p \<in> Mapping.keys (inner_map (fc_kerning_cache c) cs).
        Mapping.lookup (inner_map (fc_kerning_cache c) cs) p = Some (font_get_kerning (fc_data c) cs (fst p) (snd p))) \<and>
     (\<forall>cs \<in> Mapping.keys (fc_size_info_cache c).
        Mapping.lookup (fc_size_info_cache c) cs = Some (font_get_size_info (fc_data c) cs))"

section \<open>Lemmas\<close>

lemma inner_map_update [simp]:
  "inner_map (Mapping.update k v m) k' = (if k = k' then v else inner_map m k')"
  by (simp add: inner_map_def lookup_update')

lemma inner_map_empty [simp]: "inner_map Mapping.empty k = Mapping.empty"
  by (simp add: inner_map_def)

lemma inner_map_nonempty_key:
  "Mapping.lookup (inner_map m k) ch = Some v \<Longrightarrow> k \<in> Mapping.keys m"
  by (auto simp: inner_map_def keys_dom_lookup split: option.splits)

lemma nested_all_iff:
  "(\<forall>k \<in> dom (Mapping.lookup m). \<forall>x \<in> dom (Mapping.lookup (inner_map m k)).
      Mapping.lookup (inner_map m k) x = Some (F k x)) \<longleftrightarrow>
   (\<forall>k x v. Mapping.lookup (inner_map m k) x = Some v \<longrightarrow> v = F k x)"
proof
  assume a: "\<forall>k \<in> dom (Mapping.lookup m). \<forall>x \<in> dom (Mapping.lookup (inner_map m k)).
      Mapping.lookup (inner_map m k) x = Some (F k x)"
  show "\<forall>k x v. Mapping.lookup (inner_map m k) x = Some v \<longrightarrow> v = F k x"
  proof (intro allI impI)
    fix k x v
    assume l: "Mapping.lookup (inner_map m k) x = Some v"
    then have k: "k \<in> dom (Mapping.lookup m)"
      by (auto simp: inner_map_def split: option.splits)
    have "x \<in> dom (Mapping.lookup (inner_map m k))" using l by blast
    then have "Mapping.lookup (inner_map m k) x = Some (F k x)" using a k by blast
    with l show "v = F k x" by simp
  qed
qed auto

lemma all_dom_iff:
  "(\<forall>k \<in> dom (Mapping.lookup m). Mapping.lookup m k = Some (F k)) \<longleftrightarrow>
   (\<forall>k v. Mapping.lookup m k = Some v \<longrightarrow> v = F k)"
proof
  assume a: "\<forall>k \<in> dom (Mapping.lookup m). Mapping.lookup m k = Some (F k)"
  show "\<forall>k v. Mapping.lookup m k = Some v \<longrightarrow> v = F k"
  proof (intro allI impI)
    fix k v
    assume l: "Mapping.lookup m k = Some v"
    then have "k \<in> dom (Mapping.lookup m)" by blast
    with a l show "v = F k" by simp
  qed
qed auto

text \<open>The invariant read as facts about lookups.\<close>

lemma fc_inv_iff:
  "fc_inv c \<longleftrightarrow>
     (\<forall>k ch g. Mapping.lookup (inner_map (fc_glyphes c) k) ch = Some g \<longrightarrow>
        g = font_get_glyph (fc_data c) (fst k) (snd k) ch) \<and>
     (\<forall>cs p x. Mapping.lookup (inner_map (fc_kerning_cache c) cs) p = Some x \<longrightarrow>
        x = font_get_kerning (fc_data c) cs (fst p) (snd p)) \<and>
     (\<forall>cs i. Mapping.lookup (fc_size_info_cache c) cs = Some i \<longrightarrow>
        i = font_get_size_info (fc_data c) cs)"
  unfolding fc_inv_def keys_dom_lookup
    nested_all_iff [of "fc_glyphes c" "\<lambda>k ch. font_get_glyph (fc_data c) (fst k) (snd k) ch"]
    nested_all_iff [of "fc_kerning_cache c" "\<lambda>cs p. font_get_kerning (fc_data c) cs (fst p) (snd p)"]
    all_dom_iff [of "fc_size_info_cache c" "\<lambda>cs. font_get_size_info (fc_data c) cs"]
  by auto

lemma fc_inv_new: "fc_inv (fc_new f b s)"
  by (simp add: fc_inv_def fc_new_def)

lemma fc_get_glyph_spec:
  assumes "fc_inv c"
  shows "fst (fc_get_glyph cs st ch c) = font_get_glyph (fc_data c) cs st ch \<and>
         fc_inv (snd (fc_get_glyph cs st ch c)) \<and> fc_data (snd (fc_get_glyph cs st ch c)) = fc_data c"
  using assms unfolding fc_inv_iff
  by (auto simp: fc_get_glyph_def compute_key_def Let_def lookup_update' split: option.splits)

lemma fc_get_kerning_spec:
  assumes "fc_inv c"
  shows "fst (fc_get_kerning cs a b c) = font_get_kerning (fc_data c) cs a b \<and>
         fc_inv (snd (fc_get_kerning cs a b c)) \<and> fc_data (snd (fc_get_kerning cs a b c)) = fc_data c"
  using assms unfolding fc_inv_iff
  by (auto simp: fc_get_kerning_def Let_def lookup_update' split: option.splits)

lemma fc_get_size_info_spec:
  assumes "fc_inv c"
  shows "fst (fc_get_size_info cs c) = font_get_size_info (fc_data c) cs \<and>
         fc_inv (snd (fc_get_size_info cs c)) \<and> fc_data (snd (fc_get_size_info cs c)) = fc_data c"
  using assms unfolding fc_inv_iff
  by (auto simp: fc_get_size_info_def Let_def lookup_update' split: option.splits)

lemma fc_clear_spec:
  assumes "fc_inv c"
  shows "fc_inv (fst (fc_clear_glyph_cache c)) \<and> fc_inv (fst (fc_clear_kerning_cache c)) \<and>
         fc_inv (fst (fc_clear_size_info_cache c))"
  using assms by (simp add: fc_inv_def fc_clear_glyph_cache_def fc_clear_kerning_cache_def
      fc_clear_size_info_cache_def)

lemma fc_step_spec:
  assumes "fc_inv c"
  shows "fst (fc_step op c) = fc_spec (fc_data c) op \<and> fc_inv (snd (fc_step op c)) \<and>
         fc_data (snd (fc_step op c)) = fc_data c"
  using fc_get_glyph_spec [OF assms] fc_get_kerning_spec [OF assms] fc_get_size_info_spec [OF assms]
    fc_clear_spec [OF assms]
  by (cases op) (simp_all add: apfst_def apsnd_def map_prod_def split_beta fc_clear_glyph_cache_def
      fc_clear_kerning_cache_def fc_clear_size_info_cache_def)

lemma fc_run_spec:
  "fc_inv c \<Longrightarrow> fst (fc_run ops c) = map (fc_spec (fc_data c)) ops"
proof (induction ops arbitrary: c)
  case Nil
  then show ?case by simp
next
  case (Cons op ops)
  note st = fc_step_spec [OF Cons.prems, of op]
  have "fst (fc_run ops (snd (fc_step op c))) = map (fc_spec (fc_data c)) ops"
    using Cons.IH [of "snd (fc_step op c)"] st by simp
  then show ?case using st by (simp add: split_beta)
qed

section \<open>Properties of the font caches\<close>

text \<open>
  C24. The caches are invisible: over any sequence of glyph, kerning and size-info
  queries and cache clears, starting from a new font, every answer of the cached font
  is the answer its data gives, and every clear raises its own modification signal. The
  drawer model, which reads a font as the uncached record of \<open>Font_Interface\<close>, is
  therefore faithful to a drawer reading a caching font.
\<close>

theorem font_cache_refines_font:
  "fst (fc_run ops (fc_new f border step)) = map (fc_spec f) ops"
  using fc_run_spec [OF fc_inv_new, of ops f border step] by (simp add: fc_new_def)

end
