(* ===== verification/Text_Drawer_View.thy ===== *)
theory Text_Drawer_View
  imports Nz_Math
begin

text \<open>
  The interface through which the text area reads its drawer
  (\<open>AbstractTextDrawer::GetGlyphCount\<close>, \<open>GetLineCount\<close>, \<open>GetLine(i).glyphIndex\<close>):
  a line table of start indices and a glyph count. \<open>GetLine\<close> past the table is a
  failed assertion in the engine and the error \<open>Line_out_of_range\<close> here. The
  well-formedness of a view is what a layout guarantees: a first line starting at
  glyph 0, starts that never decrease (consecutive newlines give equal starts) and never
  pass the glyph count, and counts that fit the 32-bit coordinates of a cursor.
\<close>

record text_drawer_view =
  line_starts :: "size_t list"
  glyph_count :: size_t

definition line_count :: "text_drawer_view \<Rightarrow> size_t" where
  "line_count d = length (line_starts d)"

definition get_line :: "text_drawer_view \<Rightarrow> size_t \<Rightarrow> size_t result" where
  "get_line d i = (if i < line_count d then Inr (line_starts d ! i) else Inl Line_out_of_range)"

definition view_wf :: "text_drawer_view \<Rightarrow> bool" where
  "view_wf d \<longleftrightarrow>
     line_starts d \<noteq> [] \<and> hd (line_starts d) = 0 \<and> sorted (line_starts d) \<and>
     (\<forall>s \<in> set (line_starts d). s \<le> glyph_count d) \<and>
     glyph_count d < 2 ^ 32 \<and> line_count d < 2 ^ 32"

lemma get_line_in_range [simp]:
  "i < line_count d \<Longrightarrow> get_line d i = Inr (line_starts d ! i)"
  by (simp add: get_line_def)

lemma get_line_out_of_range [simp]:
  "\<not> i < line_count d \<Longrightarrow> get_line d i = Inl Line_out_of_range"
  by (simp add: get_line_def)

lemma view_wf_line_count: "view_wf d \<Longrightarrow> 0 < line_count d"
  by (simp add: view_wf_def line_count_def)

lemma view_wf_first: "view_wf d \<Longrightarrow> line_starts d ! 0 = 0"
  by (auto simp: view_wf_def hd_conv_nth [symmetric])

lemma view_wf_start_le: "view_wf d \<Longrightarrow> i < line_count d \<Longrightarrow> line_starts d ! i \<le> glyph_count d"
  by (simp add: view_wf_def line_count_def)

lemma view_wf_mono:
  "view_wf d \<Longrightarrow> i \<le> j \<Longrightarrow> j < line_count d \<Longrightarrow> line_starts d ! i \<le> line_starts d ! j"
  by (simp add: view_wf_def line_count_def sorted_iff_nth_mono)

lemma view_wf_bounds:
  "view_wf d \<Longrightarrow> glyph_count d < 2 ^ 32 \<and> line_count d < 2 ^ 32"
  by (simp add: view_wf_def)

lemmas view_facts = view_wf_line_count view_wf_first view_wf_start_le view_wf_mono view_wf_bounds

end
