(* ===== verification/Text_Area_Widget.thy ===== *)
theory Text_Area_Widget
  imports Text_Drawer_View
begin

text \<open>
  The cursor and selection model of \<open>src/SDK/include/NDK/Widgets/AbstractTextAreaWidget.inl\<close>.
  The widget stores two 2-D positions (\<open>m_cursorPositionBegin\<close>,
  \<open>m_cursorPositionEnd\<close>; x is the column, y the line) and reads its drawer through
  \<open>text_drawer_view\<close>. The host's signal slots \<open>OnTextAreaCursorMove\<close> and
  \<open>OnTextAreaSelection\<close> are lists of position transformers run in connection order
  on one mutable payload. \<open>Erase(first, last)\<close> and \<open>Write(text, index)\<close> are virtual
  functions defined outside the sources; the inline functions that call them are modelled
  by the call they issue (\<open>text_edit\<close>). \<open>RefreshCursor\<close>, \<open>UpdateDisplayText\<close> and
  the cursor entity only redraw and are not modelled.
\<close>

section \<open>State\<close>

datatype echo_mode = Echo_normal | Echo_password | Echo_password_except_last

type_synonym cursor_move_slot = "vector2ui \<Rightarrow> vector2ui"
type_synonym selection_slot = "vector2ui \<times> vector2ui \<Rightarrow> vector2ui \<times> vector2ui"

record text_area =
  cursor_position_begin :: vector2ui
  cursor_position_end :: vector2ui
  multi_line_enabled :: bool
  tab_enabled :: bool
  is_read_only :: bool
  echo_mode :: echo_mode
  character_filter :: "(char32 \<Rightarrow> bool) option"
  on_text_area_cursor_move :: "cursor_move_slot list"
  on_text_area_selection :: "selection_slot list"

text \<open>Firing a signal: every slot in connection order rewrites the payload.\<close>

definition fire_cursor_move :: "cursor_move_slot list \<Rightarrow> vector2ui \<Rightarrow> vector2ui" where
  "fire_cursor_move slots p = fold (\<lambda>slot q. slot q) slots p"

definition fire_selection :: "selection_slot list \<Rightarrow> vector2ui \<times> vector2ui \<Rightarrow> vector2ui \<times> vector2ui" where
  "fire_selection slots ps = fold (\<lambda>slot q. slot q) slots ps"

text \<open>The calls the inline editing functions issue to the virtual editing primitives.\<close>

datatype text_edit = Erase_range size_t size_t | Write_text "char32 list" size_t

section \<open>Index and position\<close>

text \<open>
  The loop of \<open>GetCursorPosition(glyphIndex)\<close>: from line \<open>i = line + 1\<close> on, stop at
  the first line starting after the index, else remember it as the current line.
\<close>

function find_line :: "text_drawer_view \<Rightarrow> size_t \<Rightarrow> size_t \<Rightarrow> size_t \<Rightarrow> size_t" where
  "find_line d g i line =
     (if i < line_count d then (if g < line_starts d ! i then line else find_line d g (Suc i) i)
      else line)"
  by pat_completeness auto
termination
  by (relation "measure (\<lambda>(d, g, i, line). line_count d - i)") auto

declare find_line.simps [simp del]

definition get_cursor_position_of :: "text_drawer_view \<Rightarrow> size_t \<Rightarrow> vector2ui result" where
  "get_cursor_position_of d glyph_index =
     (let g = min glyph_index (glyph_count d);
          line = find_line d g 1 0
      in case get_line d line of
           Inl e \<Rightarrow> Inl e
         | Inr start \<Rightarrow> Inr (Vector2ui (u32_of_size (size_sub g start)) (u32_of_size line)))"

text \<open>
  \<open>GetGlyphIndex(cursorPosition)\<close>: line start plus column, clamped to the last index
  before the next line, or to the glyph count on the last line. \<open>cursorPosition.y + 1\<close>
  is computed in \<open>unsigned int\<close> and the \<open>- 1\<close> in \<open>std::size_t\<close>.
\<close>

definition get_glyph_index_of :: "text_drawer_view \<Rightarrow> vector2ui \<Rightarrow> size_t result" where
  "get_glyph_index_of d p =
     (case get_line d (unat (vec_y p)) of
        Inl e \<Rightarrow> Inl e
      | Inr start \<Rightarrow>
          (let gi = size_add start (unat (vec_x p))
           in if unat (vec_y p + 1) < line_count d then
                (case get_line d (unat (vec_y p + 1)) of
                   Inl e \<Rightarrow> Inl e
                 | Inr next \<Rightarrow> Inr (min gi (size_sub next 1)))
              else Inr (min gi (glyph_count d))))"

text \<open>
  \<open>NormalizeCursorPosition\<close>: a line past the table becomes the last line; the column
  is clamped to the line's last index, except on the last line, where it is kept.
\<close>

definition normalize_cursor_position :: "text_drawer_view \<Rightarrow> vector2ui \<Rightarrow> vector2ui result" where
  "normalize_cursor_position d p =
     (let lc = line_count d;
          y = (if lc \<le> unat (vec_y p) then u32_of_size (size_sub lc 1) else vec_y p)
      in case get_line d (unat y) of
           Inl e \<Rightarrow> Inl e
         | Inr start \<Rightarrow>
             (if unat (y + 1) < lc then
                (case get_line d (unat (y + 1)) of
                   Inl e \<Rightarrow> Inl e
                 | Inr next \<Rightarrow>
                     Inr (Vector2ui (min (vec_x p) (u32_of_size (size_sub (size_sub next start) 1))) y))
              else Inr (Vector2ui (vec_x p) y)))"

section \<open>Cursor and selection\<close>

definition get_cursor_position :: "text_area \<Rightarrow> vector2ui" where
  "get_cursor_position s = cursor_position_begin s"

definition get_glyph_index :: "text_drawer_view \<Rightarrow> text_area \<Rightarrow> size_t result" where
  "get_glyph_index d s = get_glyph_index_of d (cursor_position_begin s)"

definition has_selection :: "text_area \<Rightarrow> bool" where
  "has_selection s \<longleftrightarrow> cursor_position_begin s \<noteq> cursor_position_end s"

definition set_cursor_position_internal :: "vector2ui \<Rightarrow> text_area \<Rightarrow> text_area" where
  "set_cursor_position_internal p s = s\<lparr>cursor_position_begin := p, cursor_position_end := p\<rparr>"

definition set_cursor_position_internal_index ::
  "text_drawer_view \<Rightarrow> size_t \<Rightarrow> text_area \<Rightarrow> text_area result" where
  "set_cursor_position_internal_index d i s =
     (case get_cursor_position_of d i of
        Inl e \<Rightarrow> Inl e
      | Inr p \<Rightarrow> Inr (set_cursor_position_internal p s))"

text \<open>
  \<open>SetCursorPosition(glyphIndex)\<close>: the hooks may redirect the converted position; an
  untouched position is committed as is, a changed one is converted back to an index
  and from there to a position.
\<close>

definition set_cursor_position_index ::
  "text_drawer_view \<Rightarrow> size_t \<Rightarrow> text_area \<Rightarrow> text_area result" where
  "set_cursor_position_index d glyph_index s =
     (case get_cursor_position_of d glyph_index of
        Inl e \<Rightarrow> Inl e
      | Inr position \<Rightarrow>
          (let new_position = fire_cursor_move (on_text_area_cursor_move s) position
           in if position = new_position then Inr (set_cursor_position_internal position s)
              else (case get_glyph_index_of d new_position of
                      Inl e \<Rightarrow> Inl e
                    | Inr i \<Rightarrow> set_cursor_position_internal_index d i s)))"

definition set_cursor_position ::
  "text_drawer_view \<Rightarrow> vector2ui \<Rightarrow> text_area \<Rightarrow> text_area result" where
  "set_cursor_position d p s =
     (case normalize_cursor_position d (fire_cursor_move (on_text_area_cursor_move s) p) of
        Inl e \<Rightarrow> Inl e
      | Inr q \<Rightarrow> Inr (set_cursor_position_internal q s))"

text \<open>
  \<open>MoveCursor(int offset)\<close>. For a negative offset the code negates it in
  \<open>int\<close> (\<open>-INT_MIN\<close> wraps to itself) and converts the result to \<open>std::size_t\<close>.
\<close>

definition move_cursor_by :: "text_drawer_view \<Rightarrow> i32 \<Rightarrow> text_area \<Rightarrow> text_area result" where
  "move_cursor_by d offset s =
     (case get_glyph_index_of d (cursor_position_begin s) of
        Inl e \<Rightarrow> Inl e
      | Inr cursor_glyph \<Rightarrow>
          (if 0 \<le> sint offset
           then set_cursor_position_index d (size_add cursor_glyph (nat (sint offset))) s
           else
             (let n_offset = nat (sint (- offset) mod int size_modulus)
              in if cursor_glyph \<le> n_offset then set_cursor_position_index d 0 s
                 else set_cursor_position_index d (cursor_glyph - n_offset) s)))"

text \<open>The \<open>ClampOffset\<close> lambda of \<open>MoveCursor(const Vector2i&)\<close>, in \<open>unsigned int\<close>.\<close>

definition clamp_offset :: "u32 \<Rightarrow> i32 \<Rightarrow> u32" where
  "clamp_offset cursor_position cursor_offset =
     (if 0 \<le> sint cursor_offset then cursor_position + cursor_offset
      else (let n_offset = - cursor_offset
            in if cursor_position \<le> n_offset then 0 else cursor_position - n_offset))"

definition move_cursor :: "text_drawer_view \<Rightarrow> vector2i \<Rightarrow> text_area \<Rightarrow> text_area result" where
  "move_cursor d offset s =
     (let p = cursor_position_begin s
      in set_cursor_position d
           (Vector2ui (clamp_offset (vec_x p) (veci_x offset)) (clamp_offset (vec_y p) (veci_y offset))) s)"

text \<open>The reordering test of \<open>SetSelection\<close>: is \<open>to\<close> before \<open>from\<close>?\<close>

definition order_positions :: "vector2ui \<times> vector2ui \<Rightarrow> vector2ui \<times> vector2ui" where
  "order_positions ps =
     (let (from_p, to_p) = ps
      in if vec_y to_p < vec_y from_p \<or> (vec_y to_p = vec_y from_p \<and> vec_x to_p < vec_x from_p)
         then (to_p, from_p) else (from_p, to_p))"

definition set_selection ::
  "text_drawer_view \<Rightarrow> vector2ui \<Rightarrow> vector2ui \<Rightarrow> text_area \<Rightarrow> text_area result" where
  "set_selection d from_position to_position s =
     (let (f, t) = order_positions (from_position, to_position)
      in if cursor_position_begin s \<noteq> f \<or> cursor_position_end s \<noteq> t then
           (let (f', t') = order_positions (fire_selection (on_text_area_selection s) (f, t))
            in case normalize_cursor_position d f' of
                 Inl e \<Rightarrow> Inl e
               | Inr b \<Rightarrow>
                   (case normalize_cursor_position d t' of
                      Inl e \<Rightarrow> Inl e
                    | Inr e' \<Rightarrow> Inr (s\<lparr>cursor_position_begin := b, cursor_position_end := e'\<rparr>)))
         else Inr s)"

section \<open>Editing calls and settings\<close>

definition erase :: "size_t \<Rightarrow> text_edit" where
  "erase glyph_position = Erase_range glyph_position (size_add glyph_position 1)"

definition erase_selection :: "text_drawer_view \<Rightarrow> text_area \<Rightarrow> text_edit option result" where
  "erase_selection d s =
     (if \<not> has_selection s then Inr None
      else (case get_glyph_index_of d (cursor_position_begin s) of
              Inl e \<Rightarrow> Inl e
            | Inr b \<Rightarrow>
                (case get_glyph_index_of d (cursor_position_end s) of
                   Inl e \<Rightarrow> Inl e
                 | Inr e' \<Rightarrow> Inr (Some (Erase_range b e')))))"

definition write_text_at :: "text_drawer_view \<Rightarrow> char32 list \<Rightarrow> vector2ui \<Rightarrow> text_edit result" where
  "write_text_at d text p =
     (case get_glyph_index_of d p of Inl e \<Rightarrow> Inl e | Inr i \<Rightarrow> Inr (Write_text text i))"

definition write_text :: "text_drawer_view \<Rightarrow> char32 list \<Rightarrow> text_area \<Rightarrow> text_edit result" where
  "write_text d text s =
     (case get_glyph_index_of d (cursor_position_begin s) of
        Inl e \<Rightarrow> Inl e | Inr i \<Rightarrow> Inr (Write_text text i))"

definition enable_multiline :: "bool \<Rightarrow> text_area \<Rightarrow> text_area" where
  "enable_multiline b s = s\<lparr>multi_line_enabled := b\<rparr>"

definition enable_tab_writing :: "bool \<Rightarrow> text_area \<Rightarrow> text_area" where
  "enable_tab_writing b s = s\<lparr>tab_enabled := b\<rparr>"

definition set_read_only :: "bool \<Rightarrow> text_area \<Rightarrow> text_area" where
  "set_read_only b s = s\<lparr>is_read_only := b\<rparr>"

definition set_echo_mode :: "echo_mode \<Rightarrow> text_area \<Rightarrow> text_area" where
  "set_echo_mode m s = s\<lparr>echo_mode := m\<rparr>"

definition get_character_filter :: "text_area \<Rightarrow> (char32 \<Rightarrow> bool) option" where
  "get_character_filter s = character_filter s"

definition set_character_filter :: "(char32 \<Rightarrow> bool) option \<Rightarrow> text_area \<Rightarrow> text_area" where
  "set_character_filter f s = s\<lparr>character_filter := f\<rparr>"

section \<open>The widget as a state machine\<close>

text \<open>
  The widget's constructor is in \<open>AbstractTextAreaWidget.cpp\<close>, outside the sources:
  both cursor ends at line 0, column 0, no slot connected, the flags cleared.
\<close>

definition text_area_new :: text_area where
  "text_area_new =
     \<lparr>cursor_position_begin = Vector2ui 0 0, cursor_position_end = Vector2ui 0 0,
      multi_line_enabled = False, tab_enabled = False, is_read_only = False,
      echo_mode = Echo_normal, character_filter = None,
      on_text_area_cursor_move = [], on_text_area_selection = []\<rparr>"

datatype ta_op =
    Op_set_cursor_index size_t
  | Op_set_cursor vector2ui
  | Op_move_cursor_by i32
  | Op_move_cursor vector2i
  | Op_set_selection vector2ui vector2ui
  | Op_connect_cursor_move cursor_move_slot
  | Op_connect_selection selection_slot
  | Op_enable_multiline bool
  | Op_enable_tab_writing bool
  | Op_set_read_only bool
  | Op_set_echo_mode echo_mode
  | Op_set_character_filter "(char32 \<Rightarrow> bool) option"

fun ta_exec :: "text_drawer_view \<Rightarrow> ta_op \<Rightarrow> text_area \<Rightarrow> text_area result" where
  "ta_exec d (Op_set_cursor_index i) s = set_cursor_position_index d i s"
| "ta_exec d (Op_set_cursor p) s = set_cursor_position d p s"
| "ta_exec d (Op_move_cursor_by off) s = move_cursor_by d off s"
| "ta_exec d (Op_move_cursor off) s = move_cursor d off s"
| "ta_exec d (Op_set_selection a b) s = set_selection d a b s"
| "ta_exec d (Op_connect_cursor_move slot) s =
     Inr (s\<lparr>on_text_area_cursor_move := on_text_area_cursor_move s @ [slot]\<rparr>)"
| "ta_exec d (Op_connect_selection slot) s =
     Inr (s\<lparr>on_text_area_selection := on_text_area_selection s @ [slot]\<rparr>)"
| "ta_exec d (Op_enable_multiline b) s = Inr (enable_multiline b s)"
| "ta_exec d (Op_enable_tab_writing b) s = Inr (enable_tab_writing b s)"
| "ta_exec d (Op_set_read_only b) s = Inr (set_read_only b s)"
| "ta_exec d (Op_set_echo_mode m) s = Inr (set_echo_mode m s)"
| "ta_exec d (Op_set_character_filter f) s = Inr (set_character_filter f s)"

section \<open>Vocabulary of the properties\<close>

text \<open>The last index the column of line \<open>l\<close> may reach in \<open>GetGlyphIndex\<close>.\<close>

definition line_last_index :: "text_drawer_view \<Rightarrow> nat \<Rightarrow> size_t" where
  "line_last_index d l =
     (if Suc l < line_count d then size_sub (line_starts d ! Suc l) 1 else glyph_count d)"

definition line_valid :: "text_drawer_view \<Rightarrow> vector2ui \<Rightarrow> bool" where
  "line_valid d p \<longleftrightarrow> unat (vec_y p) < line_count d"

definition slot_keeps_lines :: "text_drawer_view \<Rightarrow> cursor_move_slot \<Rightarrow> bool" where
  "slot_keeps_lines d slot \<longleftrightarrow> (\<forall>p. line_valid d p \<longrightarrow> line_valid d (slot p))"

definition selection_slot_keeps_lines :: "text_drawer_view \<Rightarrow> selection_slot \<Rightarrow> bool" where
  "selection_slot_keeps_lines d slot \<longleftrightarrow>
     (\<forall>a b. line_valid d a \<and> line_valid d b \<longrightarrow>
        line_valid d (fst (slot (a, b))) \<and> line_valid d (snd (slot (a, b))))"

text \<open>
  The widget invariant: both cursor ends on existing lines, in order, and every
  connected slot keeps positions on existing lines.
\<close>

definition ta_inv :: "text_drawer_view \<Rightarrow> text_area \<Rightarrow> bool" where
  "ta_inv d s \<longleftrightarrow>
     line_valid d (cursor_position_begin s) \<and> line_valid d (cursor_position_end s) \<and>
     cursor_position_begin s \<le> cursor_position_end s \<and>
     (\<forall>slot \<in> set (on_text_area_cursor_move s). slot_keeps_lines d slot) \<and>
     (\<forall>slot \<in> set (on_text_area_selection s). selection_slot_keeps_lines d slot)"

text \<open>What a caller must respect: selections between existing lines, well-behaved slots.\<close>

definition op_ok :: "text_drawer_view \<Rightarrow> ta_op \<Rightarrow> bool" where
  "op_ok d op =
     (case op of
        Op_set_selection a b \<Rightarrow> line_valid d a \<and> line_valid d b
      | Op_connect_cursor_move slot \<Rightarrow> slot_keeps_lines d slot
      | Op_connect_selection slot \<Rightarrow> selection_slot_keeps_lines d slot
      | _ \<Rightarrow> True)"

inductive ta_reachable :: "text_drawer_view \<Rightarrow> text_area \<Rightarrow> bool" for d where
  ta_start: "ta_reachable d text_area_new"
| ta_step: "ta_reachable d s \<Longrightarrow> op_ok d op \<Longrightarrow> ta_exec d op s = Inr s' \<Longrightarrow> ta_reachable d s'"

text \<open>
  A slot written against a flat index (as \<open>Console.cpp\<close> writes its cursor guard)
  acting on this widget's positional signal: convert, apply, convert back.
\<close>

definition index_slot :: "text_drawer_view \<Rightarrow> (size_t \<Rightarrow> size_t) \<Rightarrow> cursor_move_slot" where
  "index_slot d f p =
     (case get_glyph_index_of d p of
        Inl e \<Rightarrow> p
      | Inr k \<Rightarrow> (case get_cursor_position_of d (f k) of Inl e \<Rightarrow> p | Inr q \<Rightarrow> q))"

text \<open>Sample line tables: \<open>"A\\nB"\<close> and a single line of \<open>n\<close> glyphs.\<close>

definition sample_view :: text_drawer_view where
  "sample_view = \<lparr>line_starts = [0, 1], glyph_count = 2\<rparr>"

definition single_line_view :: "size_t \<Rightarrow> text_drawer_view" where
  "single_line_view n = \<lparr>line_starts = [0], glyph_count = n\<rparr>"

text \<open>
  The specification's \<open>PositionFromIndex\<close>, as a reference for the loop of
  \<open>GetCursorPosition\<close>: clamp the index to the glyph count, take the last line whose
  start is at most the index (the table is sorted, so these lines are a prefix of it),
  and the offset from that line's start.
\<close>

definition last_line_at_or_before :: "text_drawer_view \<Rightarrow> size_t \<Rightarrow> size_t" where
  "last_line_at_or_before d g = length (takeWhile (\<lambda>s. s \<le> g) (line_starts d)) - 1"

definition position_from_index_ref :: "text_drawer_view \<Rightarrow> size_t \<Rightarrow> vector2ui" where
  "position_from_index_ref d i =
     (let g = min i (glyph_count d); l = last_line_at_or_before d g
      in Vector2ui (u32_of_size (g - line_starts d ! l)) (u32_of_size l))"

section \<open>Conversions between index and position\<close>

lemma find_line_props:
  "0 < i \<Longrightarrow> line = i - 1 \<Longrightarrow> line < line_count d \<Longrightarrow> line_starts d ! line \<le> g \<Longrightarrow>
   find_line d g i line < line_count d \<and> line_starts d ! find_line d g i line \<le> g \<and>
   (Suc (find_line d g i line) < line_count d \<longrightarrow> g < line_starts d ! Suc (find_line d g i line))"
proof (induction d g i line rule: find_line.induct)
  case (1 d g i line)
  show ?case
  proof (cases "i < line_count d")
    case True
    show ?thesis
    proof (cases "g < line_starts d ! i")
      case True
      with \<open>i < line_count d\<close> "1.prems" show ?thesis
        by (simp add: find_line.simps [of d g i])
    next
      case False
      with \<open>i < line_count d\<close> "1.prems" "1.IH" show ?thesis
        by (simp add: find_line.simps [of d g i])
    qed
  next
    case False
    with "1.prems" show ?thesis by (simp add: find_line.simps [of d g i])
  qed
qed

lemma find_line_takeWhile:
  "0 < i \<Longrightarrow> i \<le> line_count d \<Longrightarrow> line = i - 1 \<Longrightarrow> (\<forall>k < i. line_starts d ! k \<le> g) \<Longrightarrow>
   find_line d g i line = length (takeWhile (\<lambda>s. s \<le> g) (line_starts d)) - 1"
proof (induction d g i line rule: find_line.induct)
  case (1 d g i line)
  show ?case
  proof (cases "i < line_count d")
    case lt: True
    show ?thesis
    proof (cases "g < line_starts d ! i")
      case True
      have "takeWhile (\<lambda>s. s \<le> g) (line_starts d) = take i (line_starts d)"
        using "1.prems"(4) True lt by (intro takeWhile_eq_take_P_nth) (auto simp: line_count_def)
      then show ?thesis using "1.prems" lt True by (simp add: find_line.simps [of d g i] line_count_def)
    next
      case False
      then have "\<forall>k < Suc i. line_starts d ! k \<le> g" using "1.prems"(4) less_Suc_eq by auto
      then show ?thesis using "1.IH" lt False "1.prems"(1) by (simp add: find_line.simps [of d g i])
    qed
  next
    case False
    then have "i = line_count d" using "1.prems"(2) by simp
    then have tw: "takeWhile (\<lambda>s. s \<le> g) (line_starts d) = line_starts d"
      using "1.prems"(4) by (simp add: takeWhile_eq_all_conv all_set_conv_all_nth line_count_def)
    have fl: "find_line d g i line = line" using False by (simp add: find_line.simps [of d g i])
    show ?thesis unfolding fl tw using "1.prems"(3) \<open>i = line_count d\<close> by (simp add: line_count_def)
  qed
qed

lemma find_line_wf:
  assumes "view_wf d"
  shows "find_line d g 1 0 < line_count d \<and> line_starts d ! find_line d g 1 0 \<le> g \<and>
         (Suc (find_line d g 1 0) < line_count d \<longrightarrow> g < line_starts d ! Suc (find_line d g 1 0))"
  using find_line_props [of 1 0 d g] view_wf_line_count [OF assms] view_wf_first [OF assms] by simp

lemma get_cursor_position_of_wf:
  assumes "view_wf d" and "g = min i (glyph_count d)" and "l = find_line d g 1 0"
  shows "get_cursor_position_of d i =
           Inr (Vector2ui (u32_of_size (g - line_starts d ! l)) (u32_of_size l))"
proof -
  have "l < line_count d" and "line_starts d ! l \<le> g"
    using find_line_wf [OF assms(1), of g] assms(3) by simp_all
  moreover have "g < 2 ^ 32"
    using assms(2) view_wf_bounds [OF assms(1)] by (simp add: min_less_iff_disj)
  then have "g < size_modulus" by (rule size_lt_modulus)
  ultimately show ?thesis
    using assms(2,3) \<open>g < size_modulus\<close> by (simp add: get_cursor_position_of_def Let_def size_sub_small)
qed

lemma get_glyph_index_of_wf:
  assumes "view_wf d" and "unat (vec_y p) < line_count d"
  shows "get_glyph_index_of d p =
           Inr (min (line_starts d ! unat (vec_y p) + unat (vec_x p)) (line_last_index d (unat (vec_y p))))"
proof -
  let ?l = "unat (vec_y p)"
  have lt: "?l + 1 < 2 ^ 32" using assms view_wf_bounds [OF assms(1)] by simp
  then have succ: "unat (vec_y p + 1) = Suc ?l" using unat_succ_u32 [of "vec_y p"] by simp
  have "line_starts d ! ?l + unat (vec_x p) < size_modulus"
    using view_wf_start_le [OF assms] view_wf_bounds [OF assms(1)] unat_u32_less [of "vec_x p"]
    by (simp add: size_modulus_def)
  then show ?thesis
    using assms succ by (simp add: get_glyph_index_of_def line_last_index_def size_add_small)
qed

lemma roundtrip_core:
  assumes "view_wf d" and "i \<le> glyph_count d"
  shows "\<exists>p. get_cursor_position_of d i = Inr p \<and> get_glyph_index_of d p = Inr i"
proof -
  let ?l = "find_line d i 1 0"
  let ?s = "line_starts d ! ?l"
  let ?p = "Vector2ui (u32_of_size (i - ?s)) (u32_of_size ?l)"
  have fl: "?l < line_count d" "?s \<le> i" "Suc ?l < line_count d \<longrightarrow> i < line_starts d ! Suc ?l"
    using find_line_wf [OF assms(1), of i] by simp_all
  have b: "glyph_count d < 2 ^ 32" "line_count d < 2 ^ 32" using view_wf_bounds [OF assms(1)] by simp_all
  have cp: "get_cursor_position_of d i = Inr ?p"
    using get_cursor_position_of_wf [OF assms(1)] assms(2) by simp
  have x: "unat (vec_x ?p) = i - ?s" using assms(2) b by (simp add: unat_u32_of_size)
  have y: "unat (vec_y ?p) = ?l" using fl(1) b by (simp add: unat_u32_of_size)
  have last: "i \<le> line_last_index d ?l"
  proof (cases "Suc ?l < line_count d")
    case True
    then have "i < line_starts d ! Suc ?l" using fl(3) by simp
    moreover have "line_starts d ! Suc ?l < size_modulus"
      using view_wf_start_le [OF assms(1) True] b size_lt_modulus by simp
    ultimately show ?thesis using True by (simp add: line_last_index_def size_sub_small)
  next
    case False
    then show ?thesis using assms(2) by (simp add: line_last_index_def)
  qed
  have "get_glyph_index_of d ?p = Inr i"
    using get_glyph_index_of_wf [OF assms(1)] fl(1,2) x y last by (simp add: min_absorb1)
  with cp show ?thesis by blast
qed

lemma normalize_wf:
  assumes "view_wf d" and "line_valid d p"
  shows "normalize_cursor_position d p =
           Inr (if Suc (unat (vec_y p)) < line_count d
                then Vector2ui (min (vec_x p) (u32_of_size (size_sub (size_sub (line_starts d ! Suc (unat (vec_y p)))
                                  (line_starts d ! unat (vec_y p))) 1))) (vec_y p)
                else p)"
proof -
  have lt: "unat (vec_y p) + 1 < 2 ^ 32"
    using assms view_wf_bounds [OF assms(1)] by (simp add: line_valid_def)
  then have "unat (vec_y p + 1) = Suc (unat (vec_y p))" using unat_succ_u32 [of "vec_y p"] by simp
  then show ?thesis using assms
    by (cases p) (simp add: normalize_cursor_position_def line_valid_def Let_def)
qed

lemma normalize_valid_line:
  assumes "view_wf d"
  shows "\<exists>q. normalize_cursor_position d p = Inr q \<and> line_valid d q \<and>
             (line_valid d p \<longrightarrow> vec_y q = vec_y p)"
proof (cases "line_valid d p")
  case True
  then show ?thesis using normalize_wf [OF assms True] by (simp add: line_valid_def)
next
  case False
  let ?y = "u32_of_size (size_sub (line_count d) 1)"
  have lc: "0 < line_count d" "line_count d < 2 ^ 32"
    using view_wf_line_count [OF assms] view_wf_bounds [OF assms] by simp_all
  then have y: "unat ?y = line_count d - 1"
    using size_lt_modulus [of "line_count d"] by (simp add: size_sub_small unat_u32_of_size)
  have "unat (?y + 1) = line_count d"
    using y lc unat_succ_u32 [of ?y] by simp
  then have "normalize_cursor_position d p = Inr (Vector2ui (vec_x p) ?y)"
    using False lc y by (simp add: normalize_cursor_position_def line_valid_def Let_def)
  then show ?thesis using False y lc by (simp add: line_valid_def)
qed

lemma normalize_index:
  assumes "view_wf d" and "line_valid d p" and "normalize_cursor_position d p = Inr q"
  shows "get_glyph_index_of d q = get_glyph_index_of d p"
proof (cases "Suc (unat (vec_y p)) < line_count d")
  case False
  then show ?thesis using assms normalize_wf [OF assms(1,2)] by simp
next
  case True
  let ?l = "unat (vec_y p)"
  let ?st = "line_starts d ! ?l"
  let ?nx = "line_starts d ! Suc ?l"
  have le: "?st \<le> ?nx" using view_wf_mono [OF assms(1), of ?l "Suc ?l"] True by simp
  have nx: "?nx < 2 ^ 32"
    using view_wf_start_le [OF assms(1) True] view_wf_bounds [OF assms(1)] by simp
  then have nxm: "?nx < size_modulus" by (rule size_lt_modulus)
  have q: "q = Vector2ui (min (vec_x p) (u32_of_size (size_sub (size_sub ?nx ?st) 1))) (vec_y p)"
    using assms normalize_wf [OF assms(1,2)] True by simp
  have lv: "line_valid d q" using q assms(2) by (simp add: line_valid_def)
  show ?thesis
  proof (cases "?st = ?nx")
    case True
    then have "q = Vector2ui (vec_x p) (vec_y p)"
      using q by (simp only: size_sub_self size_sub_zero_one u32_of_size_max) simp
    then show ?thesis by simp
  next
    case False
    then have pos: "?st < ?nx" using le by simp
    then have b: "unat (u32_of_size (size_sub (size_sub ?nx ?st) 1)) = ?nx - ?st - 1"
      using nx nxm by (simp add: size_sub_small unat_u32_of_size)
    have ux: "unat (min (vec_x p) (u32_of_size (size_sub (size_sub ?nx ?st) 1))) =
                min (unat (vec_x p)) (?nx - ?st - 1)"
      using b by (simp add: min_def word_le_nat_alt)
    have lastq: "line_last_index d ?l = ?nx - 1"
      using True pos nxm by (simp add: line_last_index_def size_sub_small)
    have gq: "get_glyph_index_of d q = Inr (min (?st + unat (vec_x q)) (?nx - 1))"
      using get_glyph_index_of_wf [OF assms(1), of q] lv q lastq by (simp add: line_valid_def)
    have gp: "get_glyph_index_of d p = Inr (min (?st + unat (vec_x p)) (?nx - 1))"
      using get_glyph_index_of_wf [OF assms(1), of p] assms(2) lastq by (simp add: line_valid_def)
    have "unat (vec_x q) = min (unat (vec_x p)) (?nx - ?st - 1)" using q ux by simp
    then have "min (?st + unat (vec_x q)) (?nx - 1) = min (?st + unat (vec_x p)) (?nx - 1)"
      using pos by (simp add: min_def) arith
    then show ?thesis using gq gp by simp
  qed
qed

lemma normalize_mono:
  assumes "view_wf d" and "line_valid d a" and "line_valid d b" and "a \<le> b"
    and "normalize_cursor_position d a = Inr a'" and "normalize_cursor_position d b = Inr b'"
  shows "a' \<le> b'"
  using assms normalize_wf [OF assms(1,2)] normalize_wf [OF assms(1,3)]
  by (auto simp: less_eq_vector2ui_def min_def split: if_splits)

lemma fire_cursor_move_keeps:
  "\<forall>slot \<in> set slots. slot_keeps_lines d slot \<Longrightarrow> line_valid d p \<Longrightarrow>
   line_valid d (fire_cursor_move slots p)"
  unfolding fire_cursor_move_def
  by (induction slots arbitrary: p) (simp_all add: slot_keeps_lines_def)

lemma fire_selection_keeps:
  "\<forall>slot \<in> set slots. selection_slot_keeps_lines d slot \<Longrightarrow> line_valid d a \<Longrightarrow> line_valid d b \<Longrightarrow>
   line_valid d (fst (fire_selection slots (a, b))) \<and> line_valid d (snd (fire_selection slots (a, b)))"
  unfolding fire_selection_def
proof (induction slots arbitrary: a b)
  case Nil
  then show ?case by simp
next
  case (Cons slot slots)
  then have "line_valid d (fst (slot (a, b))) \<and> line_valid d (snd (slot (a, b)))"
    by (simp add: selection_slot_keeps_lines_def)
  then show ?case using Cons.IH [of "fst (slot (a, b))" "snd (slot (a, b))"] Cons.prems by simp
qed

lemma order_positions_le:
  "order_positions ps = (f, t) \<Longrightarrow> f \<le> t \<and> {f, t} = {fst ps, snd ps}"
  by (cases ps) (auto simp: order_positions_def less_eq_vector2ui_def split: if_splits)

lemma cursor_position_of_valid:
  "view_wf d \<Longrightarrow> \<exists>p. get_cursor_position_of d i = Inr p \<and> line_valid d p"
  using get_cursor_position_of_wf [OF _ refl refl, of d i]
        find_line_wf [of d "min i (glyph_count d)"] view_wf_bounds [of d]
  by (simp add: line_valid_def unat_u32_of_size)

lemma glyph_index_of_valid:
  "view_wf d \<Longrightarrow> line_valid d p \<Longrightarrow> \<exists>i. get_glyph_index_of d p = Inr i"
  using get_glyph_index_of_wf by (simp add: line_valid_def)

lemma set_cursor_position_index_ok:
  assumes "view_wf d" and "\<forall>slot \<in> set (on_text_area_cursor_move s). slot_keeps_lines d slot"
  shows "\<exists>p. set_cursor_position_index d i s = Inr (set_cursor_position_internal p s) \<and> line_valid d p"
proof -
  obtain p where p: "get_cursor_position_of d i = Inr p" "line_valid d p"
    using cursor_position_of_valid [OF assms(1)] by blast
  let ?q = "fire_cursor_move (on_text_area_cursor_move s) p"
  have q: "line_valid d ?q" using fire_cursor_move_keeps [OF assms(2) p(2)] .
  show ?thesis
  proof (cases "p = ?q")
    case True
    then have "set_cursor_position_index d i s = Inr (set_cursor_position_internal p s)"
      using p by (simp add: set_cursor_position_index_def)
    then show ?thesis using p(2) by blast
  next
    case False
    obtain j where j: "get_glyph_index_of d ?q = Inr j" using glyph_index_of_valid [OF assms(1) q] by blast
    obtain r where r: "get_cursor_position_of d j = Inr r" "line_valid d r"
      using cursor_position_of_valid [OF assms(1)] by blast
    show ?thesis using p False j r
      by (simp add: set_cursor_position_index_def set_cursor_position_internal_index_def) blast
  qed
qed

lemma set_cursor_position_ok:
  assumes "view_wf d"
  shows "\<exists>q. set_cursor_position d p s = Inr (set_cursor_position_internal q s) \<and> line_valid d q"
proof -
  obtain q where "normalize_cursor_position d (fire_cursor_move (on_text_area_cursor_move s) p) = Inr q"
    and "line_valid d q"
    using normalize_valid_line [OF assms] by blast
  then show ?thesis by (simp add: set_cursor_position_def) blast
qed

lemma ta_inv_internal:
  "ta_inv d s \<Longrightarrow> line_valid d p \<Longrightarrow> ta_inv d (set_cursor_position_internal p s)"
  by (simp add: ta_inv_def set_cursor_position_internal_def)

lemma set_selection_ok:
  assumes "view_wf d" and "ta_inv d s" and "line_valid d a" and "line_valid d b"
  shows "\<exists>s'. set_selection d a b s = Inr s' \<and> ta_inv d s'"
proof -
  obtain f t where ft: "order_positions (a, b) = (f, t)" by fastforce
  have fv: "line_valid d f \<and> line_valid d t" using order_positions_le [OF ft] assms(3,4) by auto
  obtain f1 t1 where ft1: "fire_selection (on_text_area_selection s) (f, t) = (f1, t1)" by fastforce
  have v1: "line_valid d f1 \<and> line_valid d t1"
    using fire_selection_keeps [of "on_text_area_selection s" d f t] assms(2) fv ft1
    by (simp add: ta_inv_def)
  obtain f2 t2 where ft2: "order_positions (f1, t1) = (f2, t2)" by fastforce
  have v2: "line_valid d f2 \<and> line_valid d t2 \<and> f2 \<le> t2"
    using order_positions_le [OF ft2] v1 by auto
  obtain nb where nb: "normalize_cursor_position d f2 = Inr nb" "line_valid d nb"
    using normalize_valid_line [OF assms(1), of f2] by blast
  obtain ne where ne: "normalize_cursor_position d t2 = Inr ne" "line_valid d ne"
    using normalize_valid_line [OF assms(1), of t2] by blast
  have "nb \<le> ne" using normalize_mono [OF assms(1)] v2 nb(1) ne(1) by blast
  then have inv: "ta_inv d (s\<lparr>cursor_position_begin := nb, cursor_position_end := ne\<rparr>)"
    using assms(2) nb(2) ne(2) by (simp add: ta_inv_def)
  show ?thesis
  proof (cases "cursor_position_begin s \<noteq> f \<or> cursor_position_end s \<noteq> t")
    case True
    then show ?thesis using ft ft1 ft2 nb ne inv by (simp add: set_selection_def)
  next
    case False
    then show ?thesis using ft assms(2) by (simp add: set_selection_def)
  qed
qed

lemma neg_offset_bound:
  assumes "sint (off :: i32) < 0"
  shows "nat (- sint off) \<le> nat (sint (- off) mod int size_modulus)"
proof (cases "sint off = - 2147483648")
  case True
  then have "sint (- off) = - 2147483648" by (simp add: sint_word_minus)
  then show ?thesis using True by (simp add: size_modulus_def)
next
  case False
  have "- 2147483648 \<le> sint off" using sint_ge [of off] by simp
  with False assms have r: "- 2147483648 \<le> - sint off" "- sint off < 2147483648" by simp_all
  then have "sint (- off) = - sint off"
    by (simp add: sint_word_minus signed_take_bit_int_eq_self)
  moreover have "(- sint off) mod 18446744073709551616 = - sint off"
    using assms r by (intro mod_pos_pos_trivial) simp_all
  ultimately show ?thesis by (simp add: size_modulus_def)
qed


section \<open>The widget invariant\<close>


lemma ta_inv_slots:
  "ta_inv d s \<Longrightarrow> \<forall>slot \<in> set (on_text_area_cursor_move s). slot_keeps_lines d slot"
  by (simp add: ta_inv_def)

lemma ta_inv_begin: "ta_inv d s \<Longrightarrow> line_valid d (cursor_position_begin s)"
  by (simp add: ta_inv_def)

lemma move_cursor_by_ok:
  assumes "view_wf d" and "ta_inv d s"
  shows "\<exists>p. move_cursor_by d off s = Inr (set_cursor_position_internal p s) \<and> line_valid d p"
proof -
  obtain g where g: "get_glyph_index_of d (cursor_position_begin s) = Inr g"
    using glyph_index_of_valid [OF assms(1) ta_inv_begin [OF assms(2)]] by blast
  have "\<exists>k. move_cursor_by d off s = set_cursor_position_index d k s"
    using g by (auto simp: move_cursor_by_def Let_def)
  then obtain k where "move_cursor_by d off s = set_cursor_position_index d k s" by blast
  then show ?thesis
    using set_cursor_position_index_ok [OF assms(1) ta_inv_slots [OF assms(2)]] by simp
qed

lemma set_cursor_position_inv:
  assumes "view_wf d" and "ta_inv d s"
  shows "\<exists>s'. set_cursor_position d p s = Inr s' \<and> ta_inv d s'"
proof -
  obtain q where "set_cursor_position d p s = Inr (set_cursor_position_internal q s)"
    and "line_valid d q"
    using set_cursor_position_ok [OF assms(1)] by blast
  then show ?thesis using ta_inv_internal [OF assms(2)] by auto
qed

lemma ta_exec_inv:
  assumes "view_wf d" and "ta_inv d s" and "op_ok d op"
  shows "\<exists>s'. ta_exec d op s = Inr s' \<and> ta_inv d s'"
proof (cases op)
  case (Op_set_cursor_index i)
  obtain p where "set_cursor_position_index d i s = Inr (set_cursor_position_internal p s)"
    and "line_valid d p"
    using set_cursor_position_index_ok [OF assms(1) ta_inv_slots [OF assms(2)]] by blast
  then show ?thesis using Op_set_cursor_index ta_inv_internal [OF assms(2)] by auto
next
  case (Op_set_cursor p)
  then show ?thesis using set_cursor_position_inv [OF assms(1,2)] by simp
next
  case (Op_move_cursor_by off)
  then show ?thesis using move_cursor_by_ok [OF assms(1,2)] ta_inv_internal [OF assms(2)] by auto
next
  case (Op_move_cursor off)
  then show ?thesis using set_cursor_position_inv [OF assms(1,2)] by (simp add: move_cursor_def Let_def)
next
  case (Op_set_selection a b)
  then show ?thesis using set_selection_ok [OF assms(1,2)] assms(3) by (simp add: op_ok_def)
qed (use assms in \<open>auto simp: ta_inv_def op_ok_def enable_multiline_def enable_tab_writing_def
       set_read_only_def set_echo_mode_def set_character_filter_def\<close>)

lemma ta_inv_new: "view_wf d \<Longrightarrow> ta_inv d text_area_new"
  by (simp add: ta_inv_def text_area_new_def line_valid_def view_wf_line_count)

lemma ta_reachable_inv_helper:
  assumes "view_wf d" and "ta_reachable d s"
  shows "ta_inv d s"
  using assms(2)
proof (induction rule: ta_reachable.induct)
  case ta_start
  show ?case using assms(1) by (rule ta_inv_new)
next
  case (ta_step s op s')
  then show ?case using ta_exec_inv [OF assms(1)] by fastforce
qed


section \<open>Properties of the cursor and selection model\<close>


lemma cursor_position_of_min:
  "get_cursor_position_of d i = get_cursor_position_of d (min i (glyph_count d))"
  by (simp add: get_cursor_position_of_def)

lemma glyph_index_of_cursor_position:
  assumes "view_wf d" and "get_cursor_position_of d i = Inr p"
  shows "get_glyph_index_of d p = Inr (min i (glyph_count d))"
  using roundtrip_core [OF assms(1), of "min i (glyph_count d)"] assms(2) cursor_position_of_min [of d i]
  by auto

lemma committed_from_index:
  assumes "view_wf d" and "get_cursor_position_of d j = Inr q"
  shows "min j (glyph_count d) \<le> glyph_count d \<and>
         get_cursor_position_of d (min j (glyph_count d)) = Inr q \<and>
         get_glyph_index_of d q = Inr (min j (glyph_count d))"
  using assms glyph_index_of_cursor_position [OF assms] cursor_position_of_min [of d j] by simp

lemma set_cursor_position_index_canonical:
  assumes "view_wf d" and "set_cursor_position_index d i s = Inr s'"
  shows "\<exists>j q. get_cursor_position_of d j = Inr q \<and> s' = set_cursor_position_internal q s"
proof (cases "get_cursor_position_of d i")
  case (Inl e)
  then show ?thesis using assms(2) by (simp add: set_cursor_position_index_def)
next
  case (Inr position)
  let ?new = "fire_cursor_move (on_text_area_cursor_move s) position"
  show ?thesis
  proof (cases "position = ?new")
    case True
    then show ?thesis using Inr assms(2) by (auto simp: set_cursor_position_index_def)
  next
    case False
    then obtain j where j: "get_glyph_index_of d ?new = Inr j"
      and s': "set_cursor_position_internal_index d j s = Inr s'"
      using Inr assms(2)
      by (auto simp: set_cursor_position_index_def Let_def split: sum.splits)
    then show ?thesis
      by (auto simp: set_cursor_position_internal_index_def split: sum.splits)
  qed
qed

lemma sample_view_wf: "view_wf sample_view"
  by (simp add: view_wf_def sample_view_def line_count_def)

lemma single_line_view_wf: "n < 2 ^ 32 \<Longrightarrow> view_wf (single_line_view n)"
  by (simp add: view_wf_def single_line_view_def line_count_def)

lemmas view_eval = sample_view_def single_line_view_def line_count_def get_cursor_position_of_def
  get_glyph_index_of_def normalize_cursor_position_def find_line.simps size_sub_def size_add_def
  size_modulus_def u32_of_size_def Let_def

text \<open>
  C1. Converting a glyph index to a (line, column) position and back gives the index
  again, for every index up to the glyph count of a well-formed line table.
\<close>

theorem index_position_roundtrip:
  assumes "view_wf d" and "i \<le> glyph_count d"
  shows "\<exists>p. get_cursor_position_of d i = Inr p \<and> get_glyph_index_of d p = Inr i"
  using roundtrip_core [OF assms] .

theorem index_position_roundtrip_witness:
  "\<exists>p. get_cursor_position_of sample_view 1 = Inr p \<and> get_glyph_index_of sample_view p = Inr 1"
  using index_position_roundtrip [OF sample_view_wf, of 1] by (simp add: sample_view_def)

text \<open>
  C2. Starting from the constructor and applying any sequence of cursor, selection,
  connection and setting operations whose arguments respect the callers' obligations
  of \<open>op_ok\<close> (the two ends passed to \<open>SetSelection\<close> lie on existing lines, connected
  slots map positions on existing lines to positions on existing lines), the widget
  keeps both cursor ends on existing lines, in (line, column) order. Without the
  obligation on the selection ends the order can fail (see the findings); that both ends
  stay on existing lines holds for any ends, by the totality of \<open>SetSelection\<close> below.
\<close>

theorem ta_reachable_inv:
  assumes "view_wf d" and "ta_reachable d s"
  shows "line_valid d (cursor_position_begin s) \<and> line_valid d (cursor_position_end s) \<and>
         cursor_position_begin s \<le> cursor_position_end s"
  using ta_reachable_inv_helper [OF assms] by (simp add: ta_inv_def)

theorem ta_reachable_inv_witness:
  "cursor_position_begin (set_cursor_position_internal (Vector2ui 0 1) text_area_new) \<le>
   cursor_position_end (set_cursor_position_internal (Vector2ui 0 1) text_area_new) \<and>
   line_valid sample_view (cursor_position_end (set_cursor_position_internal (Vector2ui 0 1) text_area_new))"
proof -
  have r: "ta_reachable sample_view (set_cursor_position_internal (Vector2ui 0 1) text_area_new)"
  proof (rule ta_step [OF ta_start])
    show "op_ok sample_view (Op_set_cursor_index 1)" by (simp add: op_ok_def)
    show "ta_exec sample_view (Op_set_cursor_index 1) text_area_new =
            Inr (set_cursor_position_internal (Vector2ui 0 1) text_area_new)"
      by (simp add: set_cursor_position_index_def text_area_new_def fire_cursor_move_def view_eval)
  qed
  show ?thesis using ta_reachable_inv [OF sample_view_wf r] by blast
qed

text \<open>
  C9. No operation a caller may issue fails in a reachable state: \<open>GetLine\<close> is never
  asked for a line past the table, and the new state is reachable again.
\<close>

theorem ta_reachable_progress:
  assumes "view_wf d" and "ta_reachable d s" and "op_ok d op"
  shows "\<exists>s'. ta_exec d op s = Inr s' \<and> ta_reachable d s'"
proof -
  obtain s' where "ta_exec d op s = Inr s'"
    using ta_exec_inv [OF assms(1) ta_reachable_inv_helper [OF assms(1,2)] assms(3)] by blast
  then show ?thesis using ta_step [OF assms(2,3)] by blast
qed

theorem ta_reachable_progress_witness:
  "\<exists>s'. ta_exec sample_view (Op_move_cursor_by (- 5)) text_area_new = Inr s'"
  using ta_reachable_progress [OF sample_view_wf ta_start, of "Op_move_cursor_by (- 5)"]
  by (auto simp: op_ok_def)

lemma normalize_keeps_index_helper:
  assumes "view_wf d" and "line_valid d p"
  shows "\<exists>q. normalize_cursor_position d p = Inr q \<and> line_valid d q \<and> vec_y q = vec_y p \<and>
             get_glyph_index_of d q = get_glyph_index_of d p"
proof -
  obtain q where q: "normalize_cursor_position d p = Inr q" "line_valid d q" "vec_y q = vec_y p"
    using normalize_valid_line [OF assms(1), of p] assms(2) by blast
  then show ?thesis using normalize_index [OF assms q(1)] by blast
qed

text \<open>
  C18. Normalising a position on an existing line keeps its line and never changes the
  glyph index it designates.
\<close>

theorem normalize_keeps_index:
  assumes "view_wf d" and "line_valid d p"
  shows "\<exists>q. normalize_cursor_position d p = Inr q \<and> line_valid d q \<and> vec_y q = vec_y p \<and>
             get_glyph_index_of d q = get_glyph_index_of d p"
  using normalize_keeps_index_helper [OF assms] .

theorem normalize_keeps_index_witness:
  "normalize_cursor_position sample_view (Vector2ui 7 0) = Inr (Vector2ui 0 0) \<and>
   get_glyph_index_of sample_view (Vector2ui 0 0) = get_glyph_index_of sample_view (Vector2ui 7 0)"
proof -
  have v: "line_valid sample_view (Vector2ui 7 0)" by (simp add: line_valid_def sample_view_def line_count_def)
  have "normalize_cursor_position sample_view (Vector2ui 7 0) = Inr (Vector2ui 0 0)"
    by (simp add: view_eval)
  then show ?thesis using normalize_keeps_index [OF sample_view_wf v] by auto
qed

text \<open>
  C5. Whatever order the caller passes the two ends in, and whatever well-behaved
  selection slots rewrite them to, \<open>SetSelection\<close> between existing lines stores a
  selection whose beginning is not after its end (line first, then column).
\<close>

theorem set_selection_ordered:
  assumes "view_wf d" and "ta_inv d s" and "line_valid d a" and "line_valid d b"
  shows "\<exists>s'. set_selection d a b s = Inr s' \<and> cursor_position_begin s' \<le> cursor_position_end s'"
  using set_selection_ok [OF assms] by (auto simp: ta_inv_def)

theorem set_selection_ordered_witness:
  "set_selection sample_view (Vector2ui 0 1) (Vector2ui 0 0) text_area_new =
     Inr (text_area_new\<lparr>cursor_position_begin := Vector2ui 0 0, cursor_position_end := Vector2ui 0 1\<rparr>)"
proof -
  have "ta_inv sample_view text_area_new" by (rule ta_inv_new [OF sample_view_wf])
  then have "\<exists>s'. set_selection sample_view (Vector2ui 0 1) (Vector2ui 0 0) text_area_new = Inr s' \<and>
               cursor_position_begin s' \<le> cursor_position_end s'"
    by (rule set_selection_ordered [OF sample_view_wf])
       (simp_all add: line_valid_def sample_view_def line_count_def)
  then show ?thesis
    by (simp add: set_selection_def order_positions_def text_area_new_def fire_selection_def view_eval)
qed

text \<open>
  C6. \<open>SetSelection\<close> is total on a well-formed table: from a state whose ends lie on
  existing lines, for any two ends (also past the last line) and whatever the connected
  selection slots return, it succeeds, changes nothing but the two ends, and stores both
  on existing lines, because both are normalised after the slots have run.
\<close>

theorem set_selection_total:
  assumes "view_wf d" and "line_valid d (cursor_position_begin s)" and "line_valid d (cursor_position_end s)"
  shows "\<exists>b e. set_selection d a c s = Inr (s\<lparr>cursor_position_begin := b, cursor_position_end := e\<rparr>) \<and>
               line_valid d b \<and> line_valid d e"
proof -
  obtain f t where ft: "order_positions (a, c) = (f, t)" by fastforce
  obtain f' t' where ft': "order_positions (fire_selection (on_text_area_selection s) (f, t)) = (f', t')"
    by fastforce
  obtain b where b: "normalize_cursor_position d f' = Inr b" "line_valid d b"
    using normalize_valid_line [OF assms(1), of f'] by blast
  obtain e where e: "normalize_cursor_position d t' = Inr e" "line_valid d e"
    using normalize_valid_line [OF assms(1), of t'] by blast
  show ?thesis
  proof (cases "cursor_position_begin s \<noteq> f \<or> cursor_position_end s \<noteq> t")
    case True
    then show ?thesis using ft ft' b e by (auto simp: set_selection_def)
  next
    case False
    then have "set_selection d a c s =
                 Inr (s\<lparr>cursor_position_begin := cursor_position_begin s, cursor_position_end := cursor_position_end s\<rparr>)"
      using ft by (simp add: set_selection_def)
    then show ?thesis using assms(2,3) by blast
  qed
qed

theorem set_selection_total_witness:
  "\<exists>b e. set_selection sample_view (Vector2ui 5 7) (Vector2ui 0 0) text_area_new =
           Inr (text_area_new\<lparr>cursor_position_begin := b, cursor_position_end := e\<rparr>) \<and>
         line_valid sample_view b \<and> line_valid sample_view e"
proof -
  have "line_valid sample_view (cursor_position_begin text_area_new) \<and>
        line_valid sample_view (cursor_position_end text_area_new)"
    using ta_inv_new [OF sample_view_wf] by (simp add: ta_inv_def)
  then show ?thesis using set_selection_total [OF sample_view_wf, of text_area_new] by blast
qed

text \<open>
  Evidence for the findings on positions past the last line, which are not all normalised. The ordering promise of
  \<open>SetSelection\<close> fails for such ends: normalisation moves a later line onto the last
  line without clamping columns there, so the stored beginning can come after the stored
  end, and \<open>EraseSelection\<close> then asks for a reversed range. And
  \<open>SetCursorPosition(glyphIndex)\<close> converts a slot's redirected position back to an
  index without normalising it: a slot that moves the cursor past the last line makes it
  fail with \<open>Line_out_of_range\<close>, while \<open>SetCursorPosition(position)\<close> normalises
  the same redirection onto the last line.
\<close>

theorem past_last_line_not_normalised:
  "set_selection (single_line_view 5) (Vector2ui 5 0) (Vector2ui 0 1) text_area_new =
     Inr (text_area_new\<lparr>cursor_position_begin := Vector2ui 5 0, cursor_position_end := Vector2ui 0 0\<rparr>) \<and>
   \<not> Vector2ui 5 0 \<le> Vector2ui 0 0 \<and>
   erase_selection (single_line_view 5)
     (text_area_new\<lparr>cursor_position_begin := Vector2ui 5 0, cursor_position_end := Vector2ui 0 0\<rparr>) =
     Inr (Some (Erase_range 5 0)) \<and>
   set_cursor_position_index (single_line_view 3) 0
     (text_area_new\<lparr>on_text_area_cursor_move := [\<lambda>p. Vector2ui 0 1]\<rparr>) = Inl Line_out_of_range \<and>
   set_cursor_position (single_line_view 3) (Vector2ui 0 0)
     (text_area_new\<lparr>on_text_area_cursor_move := [\<lambda>p. Vector2ui 0 1]\<rparr>) =
   Inr (set_cursor_position_internal (Vector2ui 0 0)
          (text_area_new\<lparr>on_text_area_cursor_move := [\<lambda>p. Vector2ui 0 1]\<rparr>))"
proof (intro conjI)
  show "set_selection (single_line_view 5) (Vector2ui 5 0) (Vector2ui 0 1) text_area_new =
     Inr (text_area_new\<lparr>cursor_position_begin := Vector2ui 5 0, cursor_position_end := Vector2ui 0 0\<rparr>)"
    by (simp add: set_selection_def order_positions_def text_area_new_def fire_selection_def view_eval)
  show "\<not> Vector2ui 5 0 \<le> Vector2ui 0 0" by (simp add: less_eq_vector2ui_def)
  show "erase_selection (single_line_view 5)
     (text_area_new\<lparr>cursor_position_begin := Vector2ui 5 0, cursor_position_end := Vector2ui 0 0\<rparr>) =
     Inr (Some (Erase_range 5 0))"
    by (simp add: erase_selection_def has_selection_def text_area_new_def view_eval)
qed (simp_all add: set_cursor_position_index_def set_cursor_position_def fire_cursor_move_def
        text_area_new_def view_eval)

text \<open>
  C15. \<open>MoveCursor(-N)\<close> saturates: with no slot connected, moving back by at least the
  current glyph index puts the cursor at glyph index 0 and clears the selection, also
  for \<open>INT_MIN\<close>, whose negation wraps.
\<close>

theorem move_cursor_by_saturates:
  assumes "view_wf d" and "ta_inv d s" and "on_text_area_cursor_move s = []"
    and "get_glyph_index d s = Inr g" and "sint off < 0" and "g \<le> nat (- sint off)"
  shows "\<exists>s'. move_cursor_by d off s = Inr s' \<and> get_glyph_index d s' = Inr 0 \<and> \<not> has_selection s'"
proof -
  have n: "g \<le> nat (sint (- off) mod int size_modulus)"
    using assms(6) neg_offset_bound [OF assms(5)] by linarith
  have mv: "move_cursor_by d off s = set_cursor_position_index d 0 s"
    using assms(4,5) n by (simp add: move_cursor_by_def get_glyph_index_def Let_def)
  obtain p where p: "get_cursor_position_of d 0 = Inr p"
    using cursor_position_of_valid [OF assms(1)] by blast
  have "set_cursor_position_index d 0 s = Inr (set_cursor_position_internal p s)"
    using p assms(3) by (simp add: set_cursor_position_index_def fire_cursor_move_def)
  moreover have "get_glyph_index_of d p = Inr 0"
    using glyph_index_of_cursor_position [OF assms(1) p] by simp
  ultimately show ?thesis
    using mv by (simp add: get_glyph_index_def has_selection_def set_cursor_position_internal_def)
qed

theorem move_cursor_by_saturates_witness:
  "\<exists>s'. move_cursor_by sample_view (- 5) (set_cursor_position_internal (Vector2ui 0 1) text_area_new) = Inr s'
     \<and> get_glyph_index sample_view s' = Inr 0 \<and> \<not> has_selection s'"
proof -
  let ?s = "set_cursor_position_internal (Vector2ui 0 1) text_area_new"
  have inv: "ta_inv sample_view ?s"
    by (simp add: ta_inv_def set_cursor_position_internal_def text_area_new_def line_valid_def
          sample_view_def line_count_def)
  have g: "get_glyph_index sample_view ?s = Inr 1"
    by (simp add: get_glyph_index_def set_cursor_position_internal_def view_eval)
  show ?thesis
    by (rule move_cursor_by_saturates [OF sample_view_wf inv _ g])
       (simp_all add: set_cursor_position_internal_def text_area_new_def)
qed

lemma cursor_hook_lower_bound_helper:
  assumes "view_wf d" and "m \<le> glyph_count d"
    and hook: "\<forall>p. line_valid d p \<longrightarrow>
      (\<exists>k. get_glyph_index_of d (fire_cursor_move (on_text_area_cursor_move s) p) = Inr k \<and> m \<le> k)"
    and set: "set_cursor_position_index d i s = Inr s'"
  shows "\<exists>k. get_glyph_index d s' = Inr k \<and> m \<le> k"
proof -
  obtain p where p: "get_cursor_position_of d i = Inr p" "line_valid d p"
    using cursor_position_of_valid [OF assms(1)] by blast
  let ?q = "fire_cursor_move (on_text_area_cursor_move s) p"
  obtain k where k: "get_glyph_index_of d ?q = Inr k" "m \<le> k" using hook p(2) by blast
  show ?thesis
  proof (cases "p = ?q")
    case True
    then have "s' = set_cursor_position_internal p s"
      using set p by (simp add: set_cursor_position_index_def)
    then show ?thesis using k True
      by (simp add: get_glyph_index_def set_cursor_position_internal_def)
  next
    case False
    obtain r where r: "get_cursor_position_of d k = Inr r"
      using cursor_position_of_valid [OF assms(1)] by blast
    then have "s' = set_cursor_position_internal r s"
      using set p False k by (simp add: set_cursor_position_index_def set_cursor_position_internal_index_def)
    moreover have "get_glyph_index_of d r = Inr (min k (glyph_count d))"
      by (rule glyph_index_of_cursor_position [OF assms(1) r])
    ultimately show ?thesis using k(2) assms(2)
      by (simp add: get_glyph_index_def set_cursor_position_internal_def)
  qed
qed

lemma index_slot_max_guard:
  assumes "view_wf d" and "m \<le> glyph_count d"
  shows "\<forall>p. line_valid d p \<longrightarrow>
           (\<exists>k. get_glyph_index_of d (fire_cursor_move [index_slot d (\<lambda>k. max k m)] p) = Inr k \<and> m \<le> k)"
proof (intro allI impI)
  fix p assume "line_valid d p"
  then obtain k where k: "get_glyph_index_of d p = Inr k" using glyph_index_of_valid [OF assms(1)] by blast
  obtain q where q: "get_cursor_position_of d (max k m) = Inr q"
    using cursor_position_of_valid [OF assms(1)] by blast
  have "fire_cursor_move [index_slot d (\<lambda>k. max k m)] p = q"
    using k q by (simp add: fire_cursor_move_def index_slot_def)
  moreover have "get_glyph_index_of d q = Inr (min (max k m) (glyph_count d))"
    by (rule glyph_index_of_cursor_position [OF assms(1) q])
  ultimately show "\<exists>k'. get_glyph_index_of d (fire_cursor_move [index_slot d (\<lambda>k. max k m)] p) = Inr k'
                       \<and> m \<le> k'" using assms(2) by simp
qed

text \<open>
  C11. A cursor-move slot that only ever yields positions at glyph index \<open>m\<close> or later
  (the console's guard of its prompt) keeps \<open>SetCursorPosition(glyphIndex)\<close> from
  committing a cursor before \<open>m\<close>, whatever index the caller asks for.
\<close>

theorem cursor_hook_lower_bound:
  assumes "view_wf d" and "m \<le> glyph_count d"
    and "\<forall>p. line_valid d p \<longrightarrow>
      (\<exists>k. get_glyph_index_of d (fire_cursor_move (on_text_area_cursor_move s) p) = Inr k \<and> m \<le> k)"
    and "set_cursor_position_index d i s = Inr s'"
  shows "\<exists>k. get_glyph_index d s' = Inr k \<and> m \<le> k"
  using cursor_hook_lower_bound_helper [OF assms] .

theorem cursor_hook_lower_bound_witness:
  "\<exists>k. get_glyph_index (single_line_view 5)
         (set_cursor_position_internal (Vector2ui 2 0)
           (text_area_new\<lparr>on_text_area_cursor_move := [index_slot (single_line_view 5) (\<lambda>k. max k 2)]\<rparr>)) = Inr k
       \<and> 2 \<le> k"
proof -
  let ?d = "single_line_view 5"
  let ?s = "text_area_new\<lparr>on_text_area_cursor_move := [index_slot ?d (\<lambda>k. max k 2)]\<rparr>"
  have wf: "view_wf ?d" by (rule single_line_view_wf) simp
  have hook: "\<forall>p. line_valid ?d p \<longrightarrow>
      (\<exists>k. get_glyph_index_of ?d (fire_cursor_move (on_text_area_cursor_move ?s) p) = Inr k \<and> 2 \<le> k)"
    using index_slot_max_guard [OF wf, of 2] by (simp add: single_line_view_def)
  have set: "set_cursor_position_index ?d 0 ?s = Inr (set_cursor_position_internal (Vector2ui 2 0) ?s)"
    by (simp add: set_cursor_position_index_def set_cursor_position_internal_index_def
          fire_cursor_move_def index_slot_def text_area_new_def view_eval)
  show ?thesis
    using cursor_hook_lower_bound [OF wf _ hook set] by (simp add: single_line_view_def)
qed

text \<open>
  The cursor is not renormalised when the layout changes: after the text loses its
  second line, \<open>MoveCursor(int)\<close> and \<open>Write\<close> read the stale cursor's line and fail
  with \<open>Line_out_of_range\<close>.
\<close>

theorem stale_cursor_after_relayout:
  "ta_inv \<lparr>line_starts = [0, 3], glyph_count = 5\<rparr> (set_cursor_position_internal (Vector2ui 1 1) text_area_new) \<and>
   move_cursor_by (single_line_view 2) 1 (set_cursor_position_internal (Vector2ui 1 1) text_area_new) =
     Inl Line_out_of_range \<and>
   write_text (single_line_view 2) t (set_cursor_position_internal (Vector2ui 1 1) text_area_new) =
     Inl Line_out_of_range"
  by (simp add: ta_inv_def line_valid_def move_cursor_by_def write_text_def
        set_cursor_position_internal_def text_area_new_def less_eq_vector2ui_def view_eval)

text \<open>
  Evidence for the findings on two wrap-arounds of the index/position conversions. When the text begins with a
  newline the second line also starts at glyph 0 and \<open>next.glyphIndex - 1\<close> wraps, so
  a column on the empty first line is never clamped: the position (line 0, column 1)
  designates glyph 1, which the widget itself places on line 1. And the column is stored
  in an \<open>unsigned int\<close>: with \<open>2^32\<close> glyphs on a line the end-of-text index converts
  to column 0 and comes back as index 0.
\<close>

theorem conversion_wraparounds:
  "view_wf \<lparr>line_starts = [0, 0], glyph_count = 2\<rparr> \<and>
   normalize_cursor_position \<lparr>line_starts = [0, 0], glyph_count = 2\<rparr> (Vector2ui 1 0) = Inr (Vector2ui 1 0) \<and>
   get_glyph_index_of \<lparr>line_starts = [0, 0], glyph_count = 2\<rparr> (Vector2ui 1 0) = Inr 1 \<and>
   get_cursor_position_of \<lparr>line_starts = [0, 0], glyph_count = 2\<rparr> 1 = Inr (Vector2ui 1 1) \<and>
   get_cursor_position_of (single_line_view (2 ^ 32)) (2 ^ 32) = Inr (Vector2ui 0 0) \<and>
   get_glyph_index_of (single_line_view (2 ^ 32)) (Vector2ui 0 0) = Inr 0"
  by (simp add: view_wf_def view_eval)

text \<open>
  The \<open>ClampOffset\<close> of \<open>MoveCursor(Vector2i)\<close> is a saturating subtraction
  for negative offsets: the coordinate drops by the offset's magnitude and stops at 0.
\<close>

theorem clamp_offset_saturates:
  assumes "sint off < 0"
  shows "unat (clamp_offset pos off) = unat pos - unat (- off)"
proof (cases "pos \<le> - off")
  case True
  then show ?thesis using assms by (simp add: clamp_offset_def Let_def word_le_nat_alt)
next
  case False
  then have le: "- off \<le> pos" by simp
  show ?thesis using False assms unat_sub [OF le] by (simp add: clamp_offset_def Let_def)
qed

theorem clamp_offset_saturates_witness:
  "unat (clamp_offset 3 (- 5)) = 0 \<and> unat (clamp_offset 7 (- 5)) = 2"
  using clamp_offset_saturates [of "- 5" 3] clamp_offset_saturates [of "- 5" 7] by simp


text \<open>
  C19. \<open>SetCursorPosition(glyphIndex)\<close> always commits a canonical position: whatever the
  slots substitute, the stored cursor is the conversion of a glyph index within the text,
  converts back to that index, and carries no selection. This settles the open question of
  the specification for this code: a slot's position that differs from the proposed one
  goes through the index and is replaced by the index's own position.
\<close>

theorem set_cursor_index_commits_canonical:
  assumes "view_wf d" and "set_cursor_position_index d i s = Inr s'"
  shows "\<exists>k \<le> glyph_count d. get_cursor_position_of d k = Inr (cursor_position_begin s') \<and>
           get_glyph_index d s' = Inr k \<and> \<not> has_selection s'"
proof -
  obtain j q where q: "get_cursor_position_of d j = Inr q" and s': "s' = set_cursor_position_internal q s"
    using set_cursor_position_index_canonical [OF assms] by blast
  show ?thesis
    using committed_from_index [OF assms(1) q] s'
    by (auto simp: set_cursor_position_internal_def get_glyph_index_def has_selection_def)
qed

theorem set_cursor_index_commits_canonical_witness:
  "set_cursor_position_index sample_view 1
     (text_area_new\<lparr>on_text_area_cursor_move := [\<lambda>p. Vector2ui 7 0]\<rparr>) =
     Inr (set_cursor_position_internal (Vector2ui 0 0)
            (text_area_new\<lparr>on_text_area_cursor_move := [\<lambda>p. Vector2ui 7 0]\<rparr>)) \<and>
   (\<exists>k \<le> glyph_count sample_view.
      get_cursor_position_of sample_view k = Inr (Vector2ui 0 0) \<and>
      get_glyph_index sample_view (set_cursor_position_internal (Vector2ui 0 0)
            (text_area_new\<lparr>on_text_area_cursor_move := [\<lambda>p. Vector2ui 7 0]\<rparr>)) = Inr k)"
proof -
  let ?s = "text_area_new\<lparr>on_text_area_cursor_move := [\<lambda>p. Vector2ui 7 0]\<rparr>"
  have e: "set_cursor_position_index sample_view 1 ?s = Inr (set_cursor_position_internal (Vector2ui 0 0) ?s)"
    by (simp add: set_cursor_position_index_def set_cursor_position_internal_index_def
          fire_cursor_move_def text_area_new_def view_eval find_line.simps)
  let ?t = "set_cursor_position_internal (Vector2ui 0 0) ?s"
  obtain k where k: "k \<le> glyph_count sample_view"
      "get_cursor_position_of sample_view k = Inr (cursor_position_begin ?t)"
      "get_glyph_index sample_view ?t = Inr k"
    using set_cursor_index_commits_canonical [OF sample_view_wf e] by (elim exE conjE) simp
  have "cursor_position_begin ?t = Vector2ui 0 0" by (simp add: set_cursor_position_internal_def)
  then have "\<exists>k \<le> glyph_count sample_view. get_cursor_position_of sample_view k = Inr (Vector2ui 0 0) \<and>
               get_glyph_index sample_view ?t = Inr k"
    using k by (intro exI [of _ k]) simp
  with e show ?thesis by (rule conjI)
qed


text \<open>
  C10. The loop of \<open>GetCursorPosition(glyphIndex)\<close> computes the specification's
  \<open>PositionFromIndex\<close>: on a well-formed line table it never fails and returns the last
  line whose start is at most the clamped index, with the offset from that line's start
  as the column.
\<close>

theorem cursor_position_matches_reference:
  assumes "view_wf d"
  shows "get_cursor_position_of d i = Inr (position_from_index_ref d i)"
proof -
  let ?g = "min i (glyph_count d)"
  have "find_line d ?g 1 0 = last_line_at_or_before d ?g"
    using find_line_takeWhile [of 1 d 0 ?g] view_wf_line_count [OF assms] view_wf_first [OF assms]
    by (simp add: last_line_at_or_before_def Suc_le_eq)
  then show ?thesis
    using get_cursor_position_of_wf [OF assms refl refl, of i]
    by (simp add: position_from_index_ref_def Let_def)
qed

theorem cursor_position_matches_reference_witness:
  "get_cursor_position_of sample_view 1 = Inr (position_from_index_ref sample_view 1) \<and>
   position_from_index_ref sample_view 1 = Vector2ui 0 1"
  using cursor_position_matches_reference [OF sample_view_wf, of 1]
  by (simp add: position_from_index_ref_def last_line_at_or_before_def view_eval)

end
