(* ===== verification/Console_Layout.thy ===== *)
theory Console_Layout
  imports Simple_Text_Drawer
begin

text \<open>
  \<open>Console::Layout\<close> of \<open>src/SDK/src/NDK/Console.cpp\<close>: the input area takes one line
  at the bottom of the console, the history area the rest, rounded up to whole lines.
  The function computes the widget geometry from the console's position and size, its
  default font and character size. Floats are exact rationals; the two
  \<open>static_cast<unsigned int>\<close> conversions of the code are checked, so that a division
  by a zero line height or a negative line count is the error \<open>Float_cast_out_of_range\<close>
  (undefined behaviour in C++), and \<open>m_maxHistoryLines * lineHeight\<close> is an
  \<open>unsigned int\<close> product.
\<close>

record console_geometry =
  max_history_lines :: u32
  history_area_position :: "float \<times> float"
  history_area_size :: "float \<times> float"
  input_position :: "float \<times> float"
  input_size :: "float \<times> float"

definition console_layout ::
  "font option \<Rightarrow> u32 \<Rightarrow> float \<times> float \<Rightarrow> float \<times> float \<Rightarrow> console_geometry result" where
  "console_layout default_font character_size origin widget_size =
     (case default_font of
        None \<Rightarrow> Inl Invalid_font
      | Some f \<Rightarrow>
          (let lh = line_height (font_get_size_info f character_size);
               history_height = snd widget_size - float_of_u32 lh
           in if lh = 0 then Inl Float_cast_out_of_range
              else
                (case u32_of_float_checked (of_int \<lceil>history_height / float_of_u32 lh\<rceil>) of
                   Inl e \<Rightarrow> Inl e
                 | Inr max_lines \<Rightarrow>
                     (let diff = history_height - float_of_u32 (max_lines * lh)
                      in Inr \<lparr>max_history_lines = max_lines,
                              history_area_position = (fst origin, snd origin + diff),
                              history_area_size = (fst widget_size, history_height - diff - 4),
                              input_position = (fst origin, snd origin + history_height),
                              input_size = (fst widget_size, snd widget_size - history_height)\<rparr>))))"

section \<open>Geometry of the layout\<close>

lemma ceiling_lt_add_one:
  fixes x :: rat shows "of_int \<lceil>x\<rceil> < x + 1"
  using ceiling_correct [of x] by linarith

lemma layout_line_count:
  fixes h L :: rat
  assumes L: "1 \<le> L" and h: "0 < h" "h \<le> 2 ^ 32"
  defines "c \<equiv> \<lceil>(h - L) / L\<rceil>"
  shows "0 \<le> c \<and> c < 2 ^ 32 \<and> h - L \<le> of_int c * L \<and> of_int c * L < h"
proof -
  have Lpos: "0 < L" using L by simp
  have q: "(h - L) / L = h / L - 1" using Lpos by (simp add: field_simps)
  have "h / L \<le> h" using L h(1) by (simp add: divide_le_eq mult_le_cancel_left1)
  then have qle: "(h - L) / L \<le> 2 ^ 32 - 1" using q h(2) by simp
  have qgt: "-1 < (h - L) / L" using q h(1) Lpos by simp
  have c1: "0 \<le> c" using qgt by (simp add: c_def)
  have c2: "c < 2 ^ 32" using qle by (simp add: c_def ceiling_less_iff)
  have lo: "(h - L) / L \<le> of_int c" by (simp add: c_def)
  have hi: "of_int c < (h - L) / L + 1"
    unfolding c_def by (rule ceiling_lt_add_one)
  have "h - L \<le> of_int c * L" using lo Lpos by (simp add: pos_divide_le_eq)
  moreover have "of_int c < h / L" using hi q by simp
  then have "of_int c * L < h" using Lpos by (simp add: pos_less_divide_eq)
  ultimately show ?thesis using c1 c2 by blast
qed

lemma float_of_u32_ge_one:
  assumes "lh \<noteq> 0" shows "1 \<le> float_of_u32 lh"
proof -
  have "1 \<le> unat lh" using assms by (simp add: unat_gt_0 [symmetric] Suc_le_eq)
  then have "(of_nat 1 :: rat) \<le> of_nat (unat lh)" by (simp only: of_nat_le_iff)
  then show ?thesis by (simp only: float_of_u32_def of_nat_1)
qed

lemma float_of_u32_mult_small:
  assumes "0 \<le> c" "c < 2 ^ 32" "of_int c * float_of_u32 lh < (2 ^ 32 :: rat)"
  shows "float_of_u32 (word_of_int c * lh) = of_int c * float_of_u32 lh \<and> unat (word_of_int c :: u32) = nat c"
proof -
  have u: "unat (word_of_int c :: u32) = nat c" using assms(1,2) by (rule unat_word_of_int_u32)
  have e: "of_int c * float_of_u32 lh = (of_nat (nat c * unat lh) :: rat)"
    using assms(1) by (simp add: float_of_u32_def)
  have "(of_nat (nat c * unat lh) :: rat) < of_nat (2 ^ 32)" using assms(3) e by simp
  then have lt: "nat c * unat lh < 2 ^ 32" by (simp only: of_nat_less_iff)
  have "unat (word_of_int c * lh) = nat c * unat lh"
    using lt u by (simp add: unat_mult_lem [THEN iffD1])
  then show ?thesis using e u assms(1) by (simp add: float_of_u32_def)
qed

section \<open>Properties of the layout\<close>

text \<open>
  C20. For a console of positive height up to \<open>2^32\<close> and a font with a positive line
  height, \<open>Layout\<close> succeeds: the input area is one line high and ends at the console's
  bottom edge; the history area is a whole number of lines minus 4 pixels high, ends 4
  pixels above the input area, and starts at most one line height above the console's
  top edge (rounding the line count up moves it up, out of the console).
\<close>

theorem console_layout_geometry:
  assumes lh: "line_height (font_get_size_info f cs) \<noteq> 0" and h: "0 < snd sz" "snd sz \<le> 2 ^ 32"
  shows "\<exists>g. console_layout (Some f) cs org sz = Inr g \<and>
     snd org - float_of_u32 (line_height (font_get_size_info f cs)) < snd (history_area_position g) \<and>
     snd (history_area_position g) \<le> snd org \<and>
     snd (history_area_position g) + snd (history_area_size g) + 4 = snd (input_position g) \<and>
     snd (input_size g) = float_of_u32 (line_height (font_get_size_info f cs)) \<and>
     snd (input_position g) + snd (input_size g) = snd org + snd sz \<and>
     snd (history_area_size g) =
       float_of_u32 (max_history_lines g) * float_of_u32 (line_height (font_get_size_info f cs)) - 4 \<and>
     fst (history_area_position g) = fst org \<and> fst (input_position g) = fst org \<and>
     fst (history_area_size g) = fst sz \<and> fst (input_size g) = fst sz"
proof -
  let ?lh = "line_height (font_get_size_info f cs)"
  let ?L = "float_of_u32 ?lh"
  let ?c = "\<lceil>(snd sz - ?L) / ?L\<rceil>"
  have c: "0 \<le> ?c \<and> ?c < 2 ^ 32 \<and> snd sz - ?L \<le> of_int ?c * ?L \<and> of_int ?c * ?L < snd sz"
    using layout_line_count [OF float_of_u32_ge_one [OF lh] h] .
  then have m: "float_of_u32 (word_of_int ?c * ?lh) = of_int ?c * ?L \<and> unat (word_of_int ?c :: u32) = nat ?c"
    using h(2) by (intro float_of_u32_mult_small) auto
  have fm: "float_of_u32 (word_of_int ?c :: u32) = of_int ?c"
    using m c by (simp add: float_of_u32_def)
  show ?thesis
    using lh c m fm
    by (simp add: console_layout_def Let_def u32_of_float_checked_of_int algebra_simps)
qed

theorem console_layout_geometry_witness:
  "\<exists>g. console_layout (Some sample_font) 24 (0, 0) (300, 210) = Inr g \<and>
        snd (history_area_position g) \<le> 0 \<and> snd (input_size g) = 20"
  using console_layout_geometry [of sample_font 24 "(300, 210)" "(0, 0)"]
  by (auto simp: sample_font_def float_of_u32_def)

text \<open>
  C28. \<open>Layout\<close> dereferences the default font, divides by the line height and casts the
  rounded-up line count to \<open>unsigned int\<close>: without a font it fails, and a zero line
  height or a console height of zero or less makes the cast undefined.
\<close>

theorem console_layout_errors:
  "console_layout None cs org sz = Inl Invalid_font \<and>
   (line_height (font_get_size_info f cs) = 0 \<longrightarrow>
      console_layout (Some f) cs org sz = Inl Float_cast_out_of_range) \<and>
   (line_height (font_get_size_info f cs) \<noteq> 0 \<longrightarrow> snd sz \<le> 0 \<longrightarrow>
      console_layout (Some f) cs org sz = Inl Float_cast_out_of_range)"
proof (intro conjI impI)
  show "console_layout None cs org sz = Inl Invalid_font" by (simp add: console_layout_def)
  show "line_height (font_get_size_info f cs) = 0 \<Longrightarrow>
      console_layout (Some f) cs org sz = Inl Float_cast_out_of_range"
    by (simp add: console_layout_def)
next
  let ?lh = "line_height (font_get_size_info f cs)"
  let ?L = "float_of_u32 ?lh"
  assume lh: "?lh \<noteq> 0" and h: "snd sz \<le> 0"
  have L: "0 < ?L" using float_of_u32_ge_one [OF lh] by simp
  have "(snd sz - ?L) / ?L \<le> -1" using L h by (simp add: pos_divide_le_eq)
  then have "\<lceil>(snd sz - ?L) / ?L\<rceil> < 0" by (simp add: ceiling_less_iff)
  then show "console_layout (Some f) cs org sz = Inl Float_cast_out_of_range"
    using lh by (simp add: console_layout_def Let_def u32_of_float_checked_of_int)
qed

theorem console_layout_errors_witness:
  "console_layout (Some sample_font) 24 (0, 0) (300, 0) = Inl Float_cast_out_of_range"
  using console_layout_errors [of 24 "(0, 0)" "(300, 0)" sample_font]
  by (simp add: sample_font_def)

end
