(* ===== verification/Console.thy ===== *)
theory Console
  imports Console_Layout
begin

text \<open>
  The scripting console of \<open>src/SDK/src/NDK/Console.cpp\<close>: a history area, an input
  line that starts with the prompt \<open>"> "\<close>, a command history browsed with the arrow
  keys, and the execution of the input by a Lua state. The two text areas are reduced to
  their texts and the input's focus; the console's own position and size (those of its
  base widget) and the geometry \<open>Layout\<close> computes from them are part of the state. The
  Lua state is a parameter mapping a command to success and its last error message. The slots the
  console connects to its input area are the functions \<open>console_cursor_guard\<close>,
  \<open>console_on_backspace\<close>, \<open>console_on_key_up\<close> and \<open>console_on_key_down\<close>.
\<close>

section \<open>State\<close>

definition s_input_prefix :: "char32 list" where
  "s_input_prefix = [62, 32]"

definition s_input_prefix_size :: size_t where
  "s_input_prefix_size = length s_input_prefix"

definition color_red :: color where
  "color_red = \<lparr>color_r = 255, color_g = 0, color_b = 0, color_a = 255\<rparr>"

record console_line =
  line_color :: color
  line_text :: "char32 list"

record console =
  history_lines :: "console_line list"
  history_text :: "char32 list"
  input_text :: "char32 list"
  command_history :: "char32 list list"
  history_position :: size_t
  console_character_size :: u32
  default_font :: "font option"
  console_position :: "float \<times> float"
  console_size :: "float \<times> float"
  geometry :: console_geometry
  input_has_focus :: bool

type_synonym lua_state = "char32 list \<Rightarrow> bool \<times> char32 list"

text \<open>
  The constructor, given \<open>Font::GetDefault()\<close>. The base widget's position and size
  start at 0 and the geometry is not computed before the first \<open>Layout\<close> (both are set
  outside the sources).
\<close>

definition console_new :: "font option \<Rightarrow> console" where
  "console_new df =
     \<lparr>history_lines = [], history_text = [], input_text = s_input_prefix, command_history = [],
      history_position = 0, console_character_size = 24, default_font = df,
      console_position = (0, 0), console_size = (0, 0),
      geometry = \<lparr>max_history_lines = 0, history_area_position = (0, 0), history_area_size = (0, 0),
                  input_position = (0, 0), input_size = (0, 0)\<rparr>,
      input_has_focus = False\<rparr>"

section \<open>Operations\<close>

text \<open>\<open>AddLine\<close>: record the line and append it, with a newline, to the history area.\<close>

definition add_line :: "char32 list \<Rightarrow> color \<Rightarrow> console \<Rightarrow> console" where
  "add_line t c k =
     k\<lparr>history_lines := history_lines k @ [\<lparr>line_color = c, line_text = t\<rparr>],
       history_text := history_text k @ t @ [10]\<rparr>"

definition console_clear :: "console \<Rightarrow> console" where
  "console_clear k = k\<lparr>history_lines := [], history_text := [], input_text := s_input_prefix\<rparr>"

text \<open>\<open>Layout\<close>, applied to the console's state.\<close>

definition console_do_layout :: "console \<Rightarrow> console result" where
  "console_do_layout k =
     (case console_layout (default_font k) (console_character_size k) (console_position k) (console_size k) of
        Inl e \<Rightarrow> Inl e
      | Inr g \<Rightarrow> Inr (k\<lparr>geometry := g\<rparr>))"

definition console_set_character_size :: "u32 \<Rightarrow> console \<Rightarrow> console result" where
  "console_set_character_size cs k = console_do_layout (k\<lparr>console_character_size := cs\<rparr>)"

text \<open>\<open>SetTextFont\<close>: the assertion on the font, then the new font and a new layout.\<close>

definition console_set_text_font :: "font option \<Rightarrow> console \<Rightarrow> console result" where
  "console_set_text_font font k =
     (case font of
        None \<Rightarrow> Inl Invalid_font
      | Some f \<Rightarrow> if \<not> font_is_valid f then Inl Invalid_font
                  else console_do_layout (k\<lparr>default_font := Some f\<rparr>))"

definition console_set_focus :: "console \<Rightarrow> console" where
  "console_set_focus k = k\<lparr>input_has_focus := True\<rparr>"

definition console_clear_focus :: "console \<Rightarrow> console" where
  "console_clear_focus k = k\<lparr>input_has_focus := False\<rparr>"

text \<open>
  \<open>m_commandHistory[m_historyPosition]\<close> with \<open>std::vector::operator[]\<close>: reading past
  the end is undefined behaviour, here \<open>History_out_of_range\<close>.
\<close>

definition history_entry :: "console \<Rightarrow> char32 list result" where
  "history_entry k =
     (if history_position k < length (command_history k)
      then Inr (command_history k ! history_position k) else Inl History_out_of_range)"

text \<open>
  \<open>NzString::SubString(startPos)\<close>: the characters from \<open>startPos\<close> on, empty when the
  string is shorter.
\<close>

definition sub_string :: "char32 list \<Rightarrow> size_t \<Rightarrow> char32 list" where
  "sub_string s start = drop start s"

definition execute_input :: "lua_state \<Rightarrow> console \<Rightarrow> console" where
  "execute_input lua k =
     (let input = input_text k;
          input_cmd = sub_string input s_input_prefix_size;
          k = k\<lparr>input_text := s_input_prefix\<rparr>;
          k = (if command_history k = [] \<or> last (command_history k) \<noteq> input_cmd
               then k\<lparr>command_history := command_history k @ [input_cmd]\<rparr> else k);
          k = k\<lparr>history_position := length (command_history k)\<rparr>;
          k = add_line input color_white k
      in if \<not> fst (lua input_cmd) then add_line (snd (lua input_cmd)) color_red k else k)"

text \<open>The slots the constructor connects to the input area.\<close>

definition console_cursor_guard :: "size_t \<Rightarrow> size_t" where
  "console_cursor_guard new_cursor_pos = max new_cursor_pos s_input_prefix_size"

definition console_on_backspace :: "size_t \<Rightarrow> bool \<Rightarrow> bool" where
  "console_on_backspace glyph_index ignore_default_action =
     (if glyph_index \<le> s_input_prefix_size then True else ignore_default_action)"

definition console_on_key_up :: "console \<Rightarrow> (bool \<times> console) result" where
  "console_on_key_up k =
     (let k = (if 0 < history_position k then k\<lparr>history_position := history_position k - 1\<rparr> else k)
      in case history_entry k of
           Inl e \<Rightarrow> Inl e
         | Inr cmd \<Rightarrow> Inr (True, k\<lparr>input_text := s_input_prefix @ cmd\<rparr>))"

definition console_on_key_down :: "console \<Rightarrow> (bool \<times> console) result" where
  "console_on_key_down k =
     (let k = k\<lparr>history_position := history_position k + 1\<rparr>;
          k = (if length (command_history k) \<le> history_position k then k\<lparr>history_position := 0\<rparr> else k)
      in case history_entry k of
           Inl e \<Rightarrow> Inl e
         | Inr cmd \<Rightarrow> Inr (True, k\<lparr>input_text := s_input_prefix @ cmd\<rparr>))"

section \<open>Vocabulary of the properties\<close>

definition console_inv :: "console \<Rightarrow> bool" where
  "console_inv k \<longleftrightarrow>
     history_position k \<le> length (command_history k) \<and> distinct_adj (command_history k)"

datatype console_op =
    Con_execute lua_state | Con_key_up | Con_key_down | Con_add_line "char32 list" color
  | Con_clear | Con_set_character_size u32 | Con_set_text_font "font option"
  | Con_resize "float \<times> float" | Con_set_focus | Con_clear_focus | Con_type "char32 list"

text \<open>
  One step of the console: a key whose handler fails leaves the failure as the result.
  \<open>Con_type\<close> stands for the user editing the input area: any new input text;
  \<open>Con_resize\<close> for \<open>BaseWidget::Resize\<close>, which lays the console out again.
\<close>

fun console_step :: "console_op \<Rightarrow> console \<Rightarrow> console result" where
  "console_step (Con_execute lua) k = Inr (execute_input lua k)"
| "console_step Con_key_up k = map_sum id snd (console_on_key_up k)"
| "console_step Con_key_down k = map_sum id snd (console_on_key_down k)"
| "console_step (Con_add_line t c) k = Inr (add_line t c k)"
| "console_step Con_clear k = Inr (console_clear k)"
| "console_step (Con_set_character_size cs) k = console_set_character_size cs k"
| "console_step (Con_set_text_font f) k = console_set_text_font f k"
| "console_step (Con_resize sz) k = console_do_layout (k\<lparr>console_size := sz\<rparr>)"
| "console_step Con_set_focus k = Inr (console_set_focus k)"
| "console_step Con_clear_focus k = Inr (console_clear_focus k)"
| "console_step (Con_type t) k = Inr (k\<lparr>input_text := t\<rparr>)"

fun console_run :: "console_op list \<Rightarrow> console \<Rightarrow> console result" where
  "console_run [] k = Inr k"
| "console_run (op # ops) k = (case console_step op k of Inl e \<Rightarrow> Inl e | Inr k' \<Rightarrow> console_run ops k')"

text \<open>A Lua state for the examples: every command succeeds.\<close>

definition lua_accept_all :: lua_state where
  "lua_accept_all cmd = (True, [])"

section \<open>History and key handlers\<close>

lemma console_do_layout_history:
  "console_do_layout k = Inr k' \<Longrightarrow>
   command_history k' = command_history k \<and> history_position k' = history_position k"
  by (auto simp: console_do_layout_def split: sum.splits)

lemma console_set_text_font_history:
  "console_set_text_font f k = Inr k' \<Longrightarrow>
   command_history k' = command_history k \<and> history_position k' = history_position k"
  by (auto simp: console_set_text_font_def split: option.splits if_splits dest!: console_do_layout_history)

lemma add_line_history:
  "command_history (add_line t c k) = command_history k \<and>
   history_position (add_line t c k) = history_position k"
  by (simp add: add_line_def)

lemma execute_input_history:
  "command_history (execute_input lua k) =
     (if command_history k = [] \<or> last (command_history k) \<noteq> sub_string (input_text k) s_input_prefix_size
      then command_history k @ [sub_string (input_text k) s_input_prefix_size] else command_history k) \<and>
   history_position (execute_input lua k) = length (command_history (execute_input lua k))"
  by (simp add: execute_input_def Let_def add_line_history)

lemma execute_input_inv: "console_inv k \<Longrightarrow> console_inv (execute_input lua k)"
  using execute_input_history [of lua k]
  by (auto simp: console_inv_def distinct_adj_append_iff)

lemma history_entry_ok:
  "history_position k < length (command_history k) \<Longrightarrow>
   history_entry k = Inr (command_history k ! history_position k)"
  by (simp add: history_entry_def)

lemma key_up_ok:
  assumes "console_inv k" and "command_history k \<noteq> []"
  shows "\<exists>k'. console_on_key_up k = Inr (True, k') \<and> console_inv k' \<and>
             history_position k' = history_position k - 1 \<and>
             input_text k' = s_input_prefix @ command_history k ! (history_position k - 1)"
proof (cases "0 < history_position k")
  case True
  then show ?thesis using assms
    by (auto simp: console_on_key_up_def history_entry_def console_inv_def Let_def)
next
  case False
  then show ?thesis using assms
    by (simp add: console_on_key_up_def history_entry_def console_inv_def Let_def)
qed

lemma key_down_ok:
  assumes "console_inv k" and "command_history k \<noteq> []"
  shows "\<exists>k'. console_on_key_down k = Inr (True, k') \<and> console_inv k' \<and>
             history_position k' =
               (if length (command_history k) \<le> history_position k + 1 then 0 else history_position k + 1) \<and>
             command_history k' = command_history k \<and>
             input_text k' = s_input_prefix @ command_history k ! history_position k'"
  using assms by (simp add: console_on_key_down_def history_entry_def console_inv_def Let_def)

lemma key_empty_history:
  "command_history k = [] \<Longrightarrow>
   console_on_key_up k = Inl History_out_of_range \<and> console_on_key_down k = Inl History_out_of_range"
  by (simp add: console_on_key_up_def console_on_key_down_def history_entry_def Let_def)

lemma console_step_inv:
  assumes "console_inv k" and "console_step op k = Inr k'"
  shows "console_inv k'"
proof (cases op)
  case (Con_execute lua)
  then show ?thesis using assms execute_input_inv by auto
next
  case Con_key_up
  show ?thesis
  proof (cases "command_history k = []")
    case True
    then show ?thesis using assms Con_key_up key_empty_history by simp
  next
    case False
    then show ?thesis using assms Con_key_up key_up_ok [OF assms(1)] by auto
  qed
next
  case Con_key_down
  show ?thesis
  proof (cases "command_history k = []")
    case True
    then show ?thesis using assms Con_key_down key_empty_history by simp
  next
    case False
    then show ?thesis using assms Con_key_down key_down_ok [OF assms(1)] by auto
  qed
qed (use assms in \<open>auto simp: console_inv_def add_line_def console_clear_def console_set_character_size_def
        console_set_focus_def console_clear_focus_def
        dest!: console_do_layout_history console_set_text_font_history\<close>)

lemma console_run_inv:
  "console_inv k \<Longrightarrow> console_run ops k = Inr k' \<Longrightarrow> console_inv k'"
proof (induction ops arbitrary: k)
  case Nil
  then show ?case by simp
next
  case (Cons op ops)
  then obtain k1 where "console_step op k = Inr k1" and "console_run ops k1 = Inr k'"
    by (auto split: sum.splits)
  then show ?case using Cons.IH console_step_inv [OF Cons.prems(1)] by blast
qed

lemma console_inv_new: "console_inv (console_new df)"
  by (simp add: console_inv_def console_new_def)

lemma execute_history_remdups:
  assumes "command_history k = remdups_adj L"
  shows "command_history (execute_input lua k) =
           remdups_adj (L @ [sub_string (input_text k) s_input_prefix_size])"
proof (cases "L = []")
  case True
  then show ?thesis using assms execute_input_history [of lua k] by simp
next
  case False
  let ?c = "sub_string (input_text k) s_input_prefix_size"
  show ?thesis
  proof (cases "last L = ?c")
    case True
    then have "remdups_adj (L @ [?c]) = remdups_adj L"
      using False remdups_adj_append'' [of L "[?c]"] by simp
    then show ?thesis using assms execute_input_history [of lua k] True False by simp
  next
    case neq: False
    then have "remdups_adj (L @ [?c]) = remdups_adj L @ [?c]"
      using remdups_adj_append' [of L "[?c]"] by simp
    then show ?thesis using assms execute_input_history [of lua k] neq False by simp
  qed
qed

lemma run_type_execute_history:
  "command_history k = remdups_adj L \<Longrightarrow>
   \<exists>k'. console_run (concat (map (\<lambda>i. [Con_type i, Con_execute lua]) inputs)) k = Inr k' \<and>
        command_history k' = remdups_adj (L @ map (\<lambda>i. sub_string i s_input_prefix_size) inputs)"
proof (induction inputs arbitrary: k L)
  case Nil
  then show ?case by simp
next
  case (Cons i inputs)
  let ?k1 = "execute_input lua (k\<lparr>input_text := i\<rparr>)"
  have "command_history ?k1 = remdups_adj (L @ [sub_string i s_input_prefix_size])"
    using execute_history_remdups [of "k\<lparr>input_text := i\<rparr>" L lua] Cons.prems by simp
  then show ?case using Cons.IH [of ?k1 "L @ [sub_string i s_input_prefix_size]"] by simp
qed

lemma key_down_position:
  assumes "p \<le> len" and "0 < len"
  shows "(if len \<le> p + 1 then 0 else p + 1) = (if p < len then Suc p mod len else 0)"
proof (cases "p < len")
  case True
  then show ?thesis by (cases "Suc p = len") simp_all
next
  case False
  then show ?thesis using assms by simp
qed

lemma key_down_run:
  assumes "console_inv k" and "command_history k \<noteq> []"
  shows "\<exists>k'. console_run (replicate (Suc n) Con_key_down) k = Inr k' \<and> console_inv k' \<and>
           command_history k' = command_history k \<and>
           history_position k' =
             (if history_position k < length (command_history k)
              then (history_position k + Suc n) mod length (command_history k)
              else n mod length (command_history k)) \<and>
           input_text k' = s_input_prefix @ command_history k ! history_position k'"
  using assms
proof (induction n arbitrary: k)
  case 0
  obtain k1 where k1: "console_on_key_down k = Inr (True, k1)" "console_inv k1"
    "history_position k1 =
       (if length (command_history k) \<le> history_position k + 1 then 0 else history_position k + 1)"
    "command_history k1 = command_history k"
    "input_text k1 = s_input_prefix @ command_history k ! history_position k1"
    using key_down_ok [OF "0.prems"] by blast
  have le: "history_position k \<le> length (command_history k)" using "0.prems"(1) by (simp add: console_inv_def)
  have run: "console_run (replicate (Suc 0) Con_key_down) k = Inr k1" using k1(1) by simp
  have "history_position k1 =
          (if history_position k < length (command_history k)
           then (history_position k + Suc 0) mod length (command_history k) else 0 mod length (command_history k))"
    using k1(3) key_down_position [OF le] "0.prems"(2) by simp
  then show ?case using run k1(2,4,5) by blast
next
  case (Suc n)
  obtain k1 where k1: "console_on_key_down k = Inr (True, k1)" "console_inv k1"
    "history_position k1 =
       (if length (command_history k) \<le> history_position k + 1 then 0 else history_position k + 1)"
    "command_history k1 = command_history k"
    using key_down_ok [OF Suc.prems] by blast
  let ?len = "length (command_history k)"
  have le: "history_position k \<le> ?len" using Suc.prems(1) by (simp add: console_inv_def)
  have h1: "history_position k1 = (if history_position k < ?len then Suc (history_position k) mod ?len else 0)"
    using k1(3) key_down_position [OF le] Suc.prems(2) by simp
  then have lt: "history_position k1 < length (command_history k1)" using k1(4) Suc.prems(2) by simp
  obtain k' where k': "console_run (replicate (Suc n) Con_key_down) k1 = Inr k'" "console_inv k'"
    "command_history k' = command_history k1"
    "history_position k' = (history_position k1 + Suc n) mod length (command_history k1)"
    "input_text k' = s_input_prefix @ command_history k1 ! history_position k'"
    using Suc.IH [OF k1(2)] k1(4) Suc.prems(2) lt by auto
  have run: "console_run (replicate (Suc (Suc n)) Con_key_down) k = Inr k'"
    using k1(1) k'(1) by simp
  have "history_position k' =
      (if history_position k < ?len then (history_position k + Suc (Suc n)) mod ?len else Suc n mod ?len)"
  proof (cases "history_position k < ?len")
    case True
    then have "history_position k' = (Suc (history_position k) mod ?len + Suc n) mod ?len"
      using k'(4) h1 k1(4) by simp
    also have "\<dots> = (history_position k + Suc (Suc n)) mod ?len" by (simp only: mod_add_left_eq) simp
    finally show ?thesis using True by simp
  next
    case False
    then show ?thesis using k'(4) h1 k1(4) by simp
  qed
  then show ?case using run k'(2,3,5) k1(4) by simp
qed

section \<open>Properties of the console\<close>

text \<open>
  C7. In every state a console reaches from construction, the history position is at
  most the history's length and no command is recorded twice in a row.
\<close>

theorem console_reachable_inv:
  assumes "console_run ops (console_new df) = Inr k"
  shows "console_inv k"
  using console_run_inv [OF console_inv_new assms] .

theorem console_reachable_inv_witness:
  "console_inv (execute_input lua_accept_all ((console_new None)\<lparr>input_text := [62, 32, 108, 115]\<rparr>))"
  using console_reachable_inv [of "[Con_type [62, 32, 108, 115], Con_execute lua_accept_all]" None
          "execute_input lua_accept_all ((console_new None)\<lparr>input_text := [62, 32, 108, 115]\<rparr>)"]
  by simp

text \<open>
  C12. The arrow-key handlers on every branch. With a history, they never fail: Up moves
  to the previous entry and stops at the oldest, Down moves to the next and wraps from
  the newest (or from past the end) to the oldest; both suppress the default action and
  put the prompt followed by the entry in the input. With an empty history, before any
  command has been executed, both read \<open>m_commandHistory[0]\<close> past its end.
\<close>

theorem arrow_key_handlers:
  assumes "console_inv k"
  shows "(command_history k \<noteq> [] \<longrightarrow>
           (\<exists>k'. console_on_key_up k = Inr (True, k') \<and>
              history_position k' = history_position k - 1 \<and>
              input_text k' = s_input_prefix @ command_history k ! (history_position k - 1)) \<and>
           (\<exists>k'. console_on_key_down k = Inr (True, k') \<and>
              history_position k' =
                (if length (command_history k) \<le> history_position k + 1 then 0 else history_position k + 1) \<and>
              input_text k' = s_input_prefix @ command_history k ! history_position k')) \<and>
         (command_history k = [] \<longrightarrow>
           console_on_key_up k = Inl History_out_of_range \<and>
           console_on_key_down k = Inl History_out_of_range)"
  using key_up_ok [OF assms] key_down_ok [OF assms] key_empty_history [of k] by blast

theorem arrow_key_handlers_witness:
  "(\<exists>k'. console_on_key_up (execute_input lua_accept_all ((console_new None)\<lparr>input_text := [62, 32, 108, 115]\<rparr>)) =
          Inr (True, k') \<and> input_text k' = [62, 32, 108, 115]) \<and>
   console_on_key_down (console_new None) = Inl History_out_of_range"
proof -
  let ?k = "execute_input lua_accept_all ((console_new None)\<lparr>input_text := [62, 32, 108, 115]\<rparr>)"
  have h: "command_history ?k = [[108, 115]] \<and> history_position ?k = 1"
    by (simp add: execute_input_def add_line_def console_new_def sub_string_def s_input_prefix_size_def
          s_input_prefix_def Let_def lua_accept_all_def)
  have inv: "console_inv ?k"
    by (rule execute_input_inv) (simp add: console_inv_def console_new_def)
  have up: "\<exists>k'. console_on_key_up ?k = Inr (True, k') \<and> input_text k' = [62, 32, 108, 115]"
    using arrow_key_handlers [OF inv] h by (auto simp: s_input_prefix_def)
  have "console_on_key_down (console_new None) = Inl History_out_of_range"
    using arrow_key_handlers [OF console_inv_new [of None]] by (simp add: console_new_def)
  with up show ?thesis by blast
qed

text \<open>
  C13. History recall: after executing the input \<open>"> " @ cmd\<close>, the Up key puts
  \<open>"> " @ cmd\<close> back into the input, whether or not the command was already the last
  entry of the history.
\<close>

theorem execute_then_key_up_recalls:
  assumes "console_inv k" and "input_text k = s_input_prefix @ cmd"
  shows "\<exists>k'. console_on_key_up (execute_input lua k) = Inr (True, k') \<and>
             input_text k' = s_input_prefix @ cmd"
proof -
  let ?k = "execute_input lua k"
  have sub: "sub_string (input_text k) s_input_prefix_size = cmd"
    using assms(2) by (simp add: sub_string_def s_input_prefix_size_def)
  have h: "command_history ?k \<noteq> [] \<and> last (command_history ?k) = cmd \<and>
           history_position ?k = length (command_history ?k)"
    using execute_input_history [of lua k] sub by auto
  then have nth: "command_history ?k ! (history_position ?k - 1) = cmd"
    by (metis last_conv_nth)
  obtain k' where "console_on_key_up ?k = Inr (True, k')"
    and "input_text k' = s_input_prefix @ command_history ?k ! (history_position ?k - 1)"
    using key_up_ok [OF execute_input_inv [OF assms(1)]] h by blast
  then show ?thesis using nth by auto
qed

theorem execute_then_key_up_recalls_witness:
  "\<exists>k'. console_on_key_up (execute_input lua_accept_all ((console_new None)\<lparr>input_text := [62, 32, 108, 115]\<rparr>)) =
          Inr (True, k') \<and> input_text k' = s_input_prefix @ [108, 115]"
  by (rule execute_then_key_up_recalls)
     (simp_all add: console_inv_def console_new_def s_input_prefix_def)

text \<open>
  C14. The command history is the list of executed commands with adjacent repetitions
  removed: typing a sequence of inputs and pressing Return after each, from a new
  console, leaves \<open>remdups_adj\<close> of the commands (the inputs without the prompt) as the
  history. No step of such a session fails.
\<close>

theorem history_is_remdups_adj:
  "\<exists>k'. console_run (concat (map (\<lambda>i. [Con_type i, Con_execute lua]) inputs)) (console_new df) = Inr k' \<and>
        command_history k' = remdups_adj (map (\<lambda>i. sub_string i s_input_prefix_size) inputs)"
  using run_type_execute_history [of "console_new df" "[]" lua inputs] by (simp add: console_new_def)

text \<open>
  C21. Every history entry is reached by the Down key: from any reachable state with a
  non-empty history, pressing Down between one and as many times as there are entries
  brings any chosen entry into the input.
\<close>

theorem down_key_reaches_every_entry:
  assumes "console_inv k" and "command_history k \<noteq> []" and "j < length (command_history k)"
  shows "\<exists>n. 0 < n \<and> n \<le> length (command_history k) \<and>
           (\<exists>k'. console_run (replicate n Con_key_down) k = Inr k' \<and> history_position k' = j \<and>
                 input_text k' = s_input_prefix @ command_history k ! j)"
proof -
  let ?len = "length (command_history k)"
  let ?p = "history_position k"
  have le: "?p \<le> ?len" using assms(1) by (simp add: console_inv_def)
  define m where "m = (if ?p < ?len then (j + ?len - Suc ?p) mod ?len else j)"
  have pos: "(if ?p < ?len then (?p + Suc m) mod ?len else m mod ?len) = j"
  proof (cases "?p < ?len")
    case True
    have mt: "m = (j + ?len - Suc ?p) mod ?len" using True by (simp add: m_def)
    have e: "Suc ?p + (j + ?len - Suc ?p) = j + ?len" using True by arith
    have "(?p + Suc m) mod ?len = (Suc ?p + m) mod ?len" by simp
    also have "\<dots> = (Suc ?p + (j + ?len - Suc ?p)) mod ?len" unfolding mt by (rule mod_add_right_eq)
    also have "\<dots> = (j + ?len) mod ?len" by (simp only: e)
    finally show ?thesis using True assms(3) by simp
  next
    case False
    then show ?thesis using assms(3) by (simp add: m_def)
  qed
  have "m < ?len" using assms(2,3) by (simp add: m_def)
  moreover obtain k' where "console_run (replicate (Suc m) Con_key_down) k = Inr k'"
    "command_history k' = command_history k"
    "history_position k' = (if ?p < ?len then (?p + Suc m) mod ?len else m mod ?len)"
    "input_text k' = s_input_prefix @ command_history k ! history_position k'"
    using key_down_run [OF assms(1,2), of m] by blast
  ultimately show ?thesis using pos by (intro exI [of _ "Suc m"]) auto
qed

theorem down_key_reaches_every_entry_witness:
  "\<exists>n. 0 < n \<and> n \<le> 3 \<and>
     (\<exists>k'. console_run (replicate n Con_key_down)
              ((console_new None)\<lparr>command_history := [[97], [98], [99]], history_position := 3\<rparr>) = Inr k' \<and>
           history_position k' = 1 \<and> input_text k' = s_input_prefix @ [98])"
proof -
  let ?K = "(console_new None)\<lparr>command_history := [[97], [98], [99]], history_position := 3\<rparr>"
  have inv: "console_inv ?K" by (simp add: console_inv_def)
  have "command_history ?K \<noteq> []" and "1 < length (command_history ?K)" by simp_all
  from down_key_reaches_every_entry [OF inv this] show ?thesis by (simp add: numeral_3_eq_3)
qed

end
