(* ===== verification/Window.thy ===== *)
theory Window
  imports Main "HOL-Library.While_Combinator"
begin

text \<open>
  The inline part of the platform window, \<open>src/include/Nazara/Platform/Window.inl\<close>:
  the close flag and its deferred effect in \<open>IsOpen(bool)\<close>, the event-polling switch
  that drains the event queue, and \<open>PushEvent\<close>, which either handles an event at once or
  queues it for an asynchronous window and wakes a waiting reader. The implementation
  pointer \<open>m_impl\<close> is an option of an abstract type. \<open>Destroy\<close> and \<open>HandleEvent\<close> are
  defined in \<open>Window.cpp\<close>, outside the sources: they are parameters of the operations,
  and the lemmas state what they are assumed to do (\<open>destroys\<close>,
  \<open>handler_respects_polling\<close>). The mutexes only order the accesses of concurrent
  threads; a single-threaded run is modelled, with the number of \<open>Signal\<close> calls on the
  event condition as an observable counter.
\<close>

section \<open>State and operations\<close>

record ('impl, 'ev) window =
  w_impl :: "'impl option"
  w_closed :: bool
  w_close_on_quit :: bool
  w_event_polling :: bool
  w_events :: "'ev list"
  w_pending_events :: "'ev list"
  w_async_window :: bool
  w_wait_for_event :: bool
  w_condition_signals :: nat

text \<open>
  \<open>while (!m_events.empty()) m_events.pop();\<close> kept as a loop: \<open>pop\<close> removes the front
  of the queue; \<open>None\<close> would be a loop that never ends.
\<close>

definition drain_events :: "'ev list \<Rightarrow> 'ev list option" where
  "drain_events q = while_option (\<lambda>q. q \<noteq> []) tl q"

definition window_close :: "('impl, 'ev) window \<Rightarrow> ('impl, 'ev) window" where
  "window_close w = w\<lparr>w_closed := True\<rparr>"

definition enable_close_on_quit :: "bool \<Rightarrow> ('impl, 'ev) window \<Rightarrow> ('impl, 'ev) window" where
  "enable_close_on_quit close_on_quit w = w\<lparr>w_close_on_quit := close_on_quit\<rparr>"

definition enable_event_polling :: "bool \<Rightarrow> ('impl, 'ev) window \<Rightarrow> ('impl, 'ev) window" where
  "enable_event_polling enable w =
     (let w = w\<lparr>w_event_polling := enable\<rparr>
      in if \<not> w_event_polling w then w\<lparr>w_events := the (drain_events (w_events w))\<rparr> else w)"

text \<open>\<open>IsOpen(bool checkClosed)\<close>: a closed window is destroyed at the next checking call.\<close>

definition is_open_checked ::
  "(('impl, 'ev) window \<Rightarrow> ('impl, 'ev) window) \<Rightarrow> bool \<Rightarrow> ('impl, 'ev) window \<Rightarrow>
     bool \<times> ('impl, 'ev) window" where
  "is_open_checked destroy check_closed w =
     (if w_impl w = None then (False, w)
      else if check_closed \<and> w_closed w then (False, destroy w)
      else (True, w))"

definition is_open :: "('impl, 'ev) window \<Rightarrow> bool" where
  "is_open w \<longleftrightarrow> w_impl w \<noteq> None"

definition is_valid :: "('impl, 'ev) window \<Rightarrow> bool" where
  "is_valid w \<longleftrightarrow> w_impl w \<noteq> None"

definition get_impl :: "('impl, 'ev) window \<Rightarrow> 'impl option" where
  "get_impl w = w_impl w"

definition push_event ::
  "('ev \<Rightarrow> ('impl, 'ev) window \<Rightarrow> ('impl, 'ev) window) \<Rightarrow> 'ev \<Rightarrow> ('impl, 'ev) window \<Rightarrow>
     ('impl, 'ev) window" where
  "push_event handle_event event w =
     (if \<not> w_async_window w then handle_event event w
      else (let w = w\<lparr>w_pending_events := w_pending_events w @ [event]\<rparr>
            in if w_wait_for_event w then w\<lparr>w_condition_signals := Suc (w_condition_signals w)\<rparr>
               else w))"

section \<open>The window as a state machine\<close>

datatype 'ev window_op =
    W_close | W_enable_close_on_quit bool | W_enable_event_polling bool
  | W_is_open bool | W_push_event 'ev

fun window_step ::
  "(('impl, 'ev) window \<Rightarrow> ('impl, 'ev) window) \<Rightarrow> ('ev \<Rightarrow> ('impl, 'ev) window \<Rightarrow> ('impl, 'ev) window) \<Rightarrow>
     'ev window_op \<Rightarrow> ('impl, 'ev) window \<Rightarrow> ('impl, 'ev) window" where
  "window_step destroy h W_close w = window_close w"
| "window_step destroy h (W_enable_close_on_quit b) w = enable_close_on_quit b w"
| "window_step destroy h (W_enable_event_polling b) w = enable_event_polling b w"
| "window_step destroy h (W_is_open c) w = snd (is_open_checked destroy c w)"
| "window_step destroy h (W_push_event e) w = push_event h e w"

definition window_run ::
  "(('impl, 'ev) window \<Rightarrow> ('impl, 'ev) window) \<Rightarrow> ('ev \<Rightarrow> ('impl, 'ev) window \<Rightarrow> ('impl, 'ev) window) \<Rightarrow>
     'ev window_op list \<Rightarrow> ('impl, 'ev) window \<Rightarrow> ('impl, 'ev) window" where
  "window_run destroy h ops w = fold (window_step destroy h) ops w"

section \<open>Contracts of the functions defined outside the sources\<close>

definition destroys :: "(('impl, 'ev) window \<Rightarrow> ('impl, 'ev) window) \<Rightarrow> bool" where
  "destroys destroy \<longleftrightarrow> (\<forall>w. w_impl (destroy w) = None)"

definition destroy_keeps_events :: "(('impl, 'ev) window \<Rightarrow> ('impl, 'ev) window) \<Rightarrow> bool" where
  "destroy_keeps_events destroy \<longleftrightarrow>
     (\<forall>w. w_events (destroy w) = w_events w \<and> w_event_polling (destroy w) = w_event_polling w)"

definition handler_respects_polling ::
  "('ev \<Rightarrow> ('impl, 'ev) window \<Rightarrow> ('impl, 'ev) window) \<Rightarrow> bool" where
  "handler_respects_polling h \<longleftrightarrow>
     (\<forall>e w. w_event_polling (h e w) = w_event_polling w \<and>
            (\<not> w_event_polling w \<longrightarrow> w_events (h e w) = w_events w))"

definition polling_inv :: "('impl, 'ev) window \<Rightarrow> bool" where
  "polling_inv w \<longleftrightarrow> (\<not> w_event_polling w \<longrightarrow> w_events w = [])"

text \<open>Example collaborators: \<open>Destroy\<close> drops the implementation, \<open>HandleEvent\<close> queues
  the event while polling is enabled.\<close>

definition sample_destroy :: "(nat, nat) window \<Rightarrow> (nat, nat) window" where
  "sample_destroy w = w\<lparr>w_impl := None\<rparr>"

definition sample_handler :: "nat \<Rightarrow> (nat, nat) window \<Rightarrow> (nat, nat) window" where
  "sample_handler e w = (if w_event_polling w then w\<lparr>w_events := w_events w @ [e]\<rparr> else w)"

definition sample_window :: "(nat, nat) window" where
  "sample_window =
     \<lparr>w_impl = Some 1, w_closed = False, w_close_on_quit = True, w_event_polling = True,
      w_events = [], w_pending_events = [], w_async_window = False, w_wait_for_event = False,
      w_condition_signals = 0\<rparr>"

section \<open>Lemmas\<close>

lemma drain_events_empty [simp]: "drain_events es = Some []"
proof (induction es)
  case Nil
  then show ?case by (simp add: drain_events_def while_option_unfold [of _ _ "[]"])
next
  case (Cons e es)
  then show ?case by (simp add: drain_events_def while_option_unfold [of _ _ "e # es"])
qed

lemma window_step_polling_inv:
  assumes "handler_respects_polling h" and "destroy_keeps_events destroy" and "polling_inv w"
  shows "polling_inv (window_step destroy h op w)"
  using assms
  by (cases op)
     (auto simp: polling_inv_def handler_respects_polling_def destroy_keeps_events_def
        window_close_def enable_close_on_quit_def enable_event_polling_def is_open_checked_def
        push_event_def Let_def)

lemma window_run_polling_inv:
  "handler_respects_polling h \<Longrightarrow> destroy_keeps_events destroy \<Longrightarrow> polling_inv w \<Longrightarrow>
   polling_inv (window_run destroy h ops w)"
  unfolding window_run_def
  by (induction ops arbitrary: w) (simp_all add: window_step_polling_inv)

lemma sample_contracts:
  "destroys sample_destroy \<and> destroy_keeps_events sample_destroy \<and> handler_respects_polling sample_handler"
  by (simp add: destroys_def destroy_keeps_events_def handler_respects_polling_def
        sample_destroy_def sample_handler_def)


section \<open>Properties of the window\<close>

text \<open>
  C30. Closing is deferred: after \<open>Close\<close> the constant \<open>IsOpen()\<close> still reports an
  open window and \<open>IsOpen(false)\<close> changes nothing, while the next \<open>IsOpen(true)\<close>
  reports it closed and destroys it, after which it is no longer open.
\<close>

theorem close_deferred_to_checked_is_open:
  assumes "destroys destroy" and "w_impl w \<noteq> None"
  shows "is_open (window_close w) \<and>
         is_open_checked destroy False (window_close w) = (True, window_close w) \<and>
         \<not> fst (is_open_checked destroy True (window_close w)) \<and>
         \<not> is_open (snd (is_open_checked destroy True (window_close w)))"
  using assms by (simp add: destroys_def is_open_def is_open_checked_def window_close_def)

theorem close_deferred_to_checked_is_open_witness:
  "\<not> is_open (snd (is_open_checked sample_destroy True (window_close sample_window)))"
  using close_deferred_to_checked_is_open [of sample_destroy sample_window] sample_contracts
  by (simp add: sample_window_def)

text \<open>
  C31. The draining loop of \<open>EnableEventPolling(false)\<close> terminates on every queue, and
  with an empty one: disabling polling empties the event queue and changes nothing else,
  while enabling it keeps the queue.
\<close>

theorem event_drain_terminates:
  "drain_events es = Some [] \<and>
   enable_event_polling False w = w\<lparr>w_event_polling := False, w_events := []\<rparr> \<and>
   enable_event_polling True w = w\<lparr>w_event_polling := True\<rparr>"
  by (simp add: enable_event_polling_def)

text \<open>
  C32. On an asynchronous window, pushed events are queued in order behind the pending
  ones without being handled, and the event condition is signalled once per event when
  a reader waits.
\<close>

theorem push_events_async_fifo:
  assumes "w_async_window w"
  shows "fold (push_event h) es w =
           w\<lparr>w_pending_events := w_pending_events w @ es,
             w_condition_signals := w_condition_signals w + (if w_wait_for_event w then length es else 0)\<rparr>"
  using assms
  by (induction es arbitrary: w) (auto simp: push_event_def Let_def)

theorem push_events_async_fifo_witness:
  "w_pending_events (fold (push_event sample_handler) [3, 4]
      (sample_window\<lparr>w_async_window := True, w_pending_events := [2], w_wait_for_event := True\<rparr>)) = [2, 3, 4] \<and>
   w_condition_signals (fold (push_event sample_handler) [3, 4]
      (sample_window\<lparr>w_async_window := True, w_pending_events := [2], w_wait_for_event := True\<rparr>)) = 2"
  using push_events_async_fifo
    [of "sample_window\<lparr>w_async_window := True, w_pending_events := [2], w_wait_for_event := True\<rparr>"
        sample_handler "[3, 4]"]
  by (simp add: sample_window_def)

text \<open>
  C33. Whenever event polling is off, the event queue is empty, in every state a window
  reaches from such a state, given a \<open>HandleEvent\<close> that queues nothing while polling is
  off and a \<open>Destroy\<close> that leaves the queue alone.
\<close>

theorem polling_off_queue_empty:
  assumes "handler_respects_polling h" and "destroy_keeps_events destroy" and "polling_inv w"
  shows "polling_inv (window_run destroy h ops w)"
  using window_run_polling_inv [OF assms] .

theorem polling_off_queue_empty_witness:
  "polling_inv (window_run sample_destroy sample_handler
     [W_push_event 1, W_enable_event_polling False, W_push_event 2, W_close, W_is_open True] sample_window)"
  using polling_off_queue_empty [of sample_handler sample_destroy sample_window] sample_contracts
  by (simp add: polling_inv_def sample_window_def)

end
