(* ===== verification/Spec2Isabelle.thy ===== *)
theory Spec2Isabelle
  imports Simple_Text_Drawer Drawer_Listeners Font_Cache Text_Area_Widget Console Window
begin

text \<open>
  \<^bold>\<open>Text layout, cursor model and console of the Nazara Engine.\<close>

  The program has three parts that work together. The glyph layout engine
  (\<open>src/src/Nazara/Utility/SimpleTextDrawer.cpp\<close>, class \<open>NzSimpleTextDrawer\<close>) turns
  a string, a font, a character size and a style into positioned glyph quads and a
  bounding rectangle, lazily: every setter clears \<open>m_glyphUpdated\<close> and every getter
  recomputes the layout (\<open>UpdateGlyphs\<close>) when the flag is clear. The text area
  (\<open>src/SDK/include/NDK/Widgets/AbstractTextAreaWidget.inl\<close>) keeps a cursor and a
  selection as (column, line) positions and converts between them and flat glyph
  indices through its drawer's line table; hosts connect slots to its
  \<open>OnTextAreaCursorMove\<close> and \<open>OnTextAreaSelection\<close> signals. The console
  (\<open>src/SDK/src/NDK/Console.cpp\<close>) owns an input text area that starts with the prompt
  \<open>"> "\<close>, connects a cursor guard and arrow-key handlers to it, and keeps a command
  history.

  \<^bold>\<open>Theories.\<close>
  \<^item> \<open>Text_Prelude\<close>: the machine types (\<open>unsigned int\<close>, \<open>int\<close>, \<open>char32_t\<close> as
    32-bit words; \<open>std::size_t\<close> as a natural number with its wrap-around modulo
    \<open>2^64\<close> written out in \<open>size_add\<close>, \<open>size_sub\<close>; \<open>float\<close> as an exact rational with
    the truncating conversion \<open>u32_of_float\<close> and the checked one
    \<open>u32_of_float_checked\<close>, whose out-of-range cases are undefined in C++), the
    \<open>error\<close> type of failed assertions, out-of-range reads and undefined casts, and the
    shared lemmas on them.
  \<^item> \<open>Nz_Math\<close>: \<open>Vector2ui\<close>, \<open>Vector2i\<close>, \<open>Rect\<close> with \<open>MakeZero\<close>, \<open>ExtendTo\<close>,
    \<open>GetCenter\<close>, \<open>GetMaximum\<close> (not among the sources; modelled from their documented
    behaviour), and the line-then-column order on positions.
  \<^item> \<open>Font_Interface\<close>: \<open>Font::Glyph\<close>, \<open>Font::SizeInfo\<close> and the four font queries the
    drawer makes, as a record of functions (\<open>src/include/Nazara/Utility/Font.hpp\<close>).
  \<^item> \<open>Simple_Text_Drawer\<close>: the drawer state as a record, one definition per member
    function, \<open>UpdateGlyphs\<close> as \<open>layout_char\<close> (the loop body: kerning, whitespace,
    invalid glyphs, faux bold and italic geometry, pen advance) folded by
    \<open>layout_loop\<close>; the drawer's public operations as \<open>drawer_op\<close> with \<open>drawer_step\<close>.
  \<^item> \<open>Font_Cache\<close>: the font's kerning, glyph and size-info caches
    (\<open>m_kerningCache\<close>, \<open>m_glyphes\<close>, \<open>m_sizeInfoCache\<close> of \<open>Font.hpp\<close>) as nested
    mappings, the queries that fill them (\<open>GetGlyph\<close>, \<open>GetKerning\<close>,
    \<open>GetSizeInfo\<close>), the three clears with their signals and the cached-glyph counts,
    run by \<open>fc_step\<close> and \<open>fc_run\<close>; the bodies are in \<open>Font.cpp\<close>, outside the
    repository, and follow the specification's contract, with the uncached \<open>font\<close>
    record \<open>fc_spec\<close> as their abstract specification.
  \<^item> \<open>Drawer_Listeners\<close>: the drawer's resource-listener protocol with fonts as
    identities in a store: \<open>SetFont\<close> with its \<open>RemoveResourceListener\<close> and
    \<open>AddResourceListener\<close> calls (\<open>ld_set_font\<close>), the destructor (\<open>ld_destroy\<close>)
    and both notifications with their \<open>NAZARA_DEBUG\<close> sender checks, run by
    \<open>ld_step\<close> and \<open>ld_run\<close> over the drawer record of \<open>Simple_Text_Drawer\<close>.
  \<^item> \<open>Text_Drawer_View\<close>: the line table the text area reads (\<open>GetLineCount\<close>,
    \<open>GetLine(i).glyphIndex\<close>, \<open>GetGlyphCount\<close>) and its well-formedness \<open>view_wf\<close>.
  \<^item> \<open>Text_Area_Widget\<close>: the widget state, every inline function of the \<open>.inl\<close>
    (\<open>GetCursorPosition\<close>, \<open>GetGlyphIndex\<close>, \<open>NormalizeCursorPosition\<close>, both
    \<open>SetCursorPosition\<close>, both \<open>MoveCursor\<close>, \<open>SetSelection\<close>, the editing calls and
    settings), the step function \<open>ta_exec\<close> and the inductive reachability
    \<open>ta_reachable\<close>; the specification's \<open>PositionFromIndex\<close> as the reference
    \<open>position_from_index_ref\<close>.
  \<^item> \<open>Console_Layout\<close>: \<open>Console::Layout\<close>, the geometry of the history and input
    areas computed from the console's size, font and character size.
  \<^item> \<open>Console\<close>: the console state (texts, history, default font, size, geometry,
    focus), \<open>AddLine\<close>, \<open>Clear\<close>, \<open>SetFocus\<close>, \<open>ClearFocus\<close>, \<open>SetCharacterSize\<close> and
    \<open>SetTextFont\<close> (both lay the console out again), \<open>ExecuteInput\<close> and the four slots
    of the constructor; \<open>console_step\<close> and \<open>console_run\<close> compose them.
  \<^item> \<open>Window\<close>: the inline functions of \<open>src/include/Nazara/Platform/Window.inl\<close>
    (\<open>Close\<close>, \<open>EnableCloseOnQuit\<close>, \<open>EnableEventPolling\<close> with its draining loop
    kept as a \<open>while_option\<close>,
    both \<open>IsOpen\<close>, \<open>IsValid\<close>, \<open>PushEvent\<close>, \<open>GetImpl\<close>), with \<open>Destroy\<close> and
    \<open>HandleEvent\<close> of \<open>Window.cpp\<close> as parameters under stated contracts; independent
    of the text components.
  \<^item> This theory: the line table a layout induces (\<open>drawer_view\<close>), which joins the
    drawer to the text area, and the properties that span the components.

  \<^bold>\<open>What is proved.\<close> Drawer: the cache invariant \<open>cache_coherent\<close> holds in every
  reachable state, so lazy reads agree with a fresh layout; the glyph count, bounds and
  pen-advance behaviour of \<open>UpdateGlyphs\<close>; the glyph geometry; the error branches.
  Listener protocol: over any run the drawer is registered with exactly the font it
  points to and the destructor leaves no registration behind; notifications from another
  font are refused; the drawer record inside the protocol evolves as \<open>drawer_run\<close> of
  the erased operations (\<open>ld_run_refines\<close>), so the drawer lemmas apply to it. Font
  caches: every run of a caching font answers as its uncached data (a refinement, so the
  drawer may read a font as a record of functions), and a cache clear reaches the
  listening drawer through its sender check, invalidating its layout for the glyph
  cache. Text area: the index/position round trip on a well-formed line table; for
  callers that respect the obligations of \<open>op_ok\<close>, both ends stay on existing lines
  and in order in every reachable state (rule induction), and no allowed operation fails
  there; \<open>SetSelection\<close> is total and keeps the ends on existing lines for any
  arguments; the loop of \<open>GetCursorPosition\<close> equals the specification's
  \<open>PositionFromIndex\<close>; normalisation keeps the glyph index;
  \<open>SetCursorPosition(glyphIndex)\<close> commits a canonical position; selection ordering;
  saturating cursor moves; slot guards. Console: the history invariant over any run; the
  command history equals \<open>remdups_adj\<close> of the executed commands; the key handlers on
  every branch; recall after execution; Down reaches every entry within as many presses
  as there are entries; the geometry \<open>Layout\<close> produces, and its undefined casts.
  Across: a layout's line table is a well-formed view for the text area. Window: closing
  is deferred to the next checking \<open>IsOpen\<close>, the draining loop terminates with an
  empty queue, asynchronous pushes queue in order and signal once per event, and a queue
  stays empty while polling is off. Further theorems, which are not properties but
  evidence for the findings, evaluate concrete runs: the specification's layout
  scenarios, unordered selections and unnormalised slot redirections past the last line,
  the wrap-arounds of empty first lines and of columns at \<open>2^32\<close>, the prompt guard's
  off-by-one, out-of-range reads with an empty history or a stale cursor.

  \<^bold>\<open>Bounds.\<close> \<open>view_wf\<close> asks for fewer than \<open>2^32\<close> glyphs and lines, so that line
  numbers and columns fit the \<open>unsigned int\<close> fields of a position and \<open>y + 1\<close> does not
  wrap; \<open>conversion_wraparounds\<close> shows what happens beyond. A text shorter than
  \<open>2^31\<close> characters gives such a view. \<open>Layout\<close> is proved for console heights
  up to \<open>2^32\<close>, where the \<open>unsigned int\<close> line count and its product with the line
  height cannot wrap. All loops are structural recursion, \<open>find_line\<close>, whose
  termination is proved by the measure \<open>line_count - i\<close>, or the \<open>while_option\<close> of
  \<open>EnableEventPolling\<close>, proved to return on every queue; no fuel is needed.

  \<^bold>\<open>Not modelled.\<close> The UTF-8 decoding of \<open>NzString\<close> (texts are lists of code
  points); IEEE rounding (floats are exact rationals); the font's atlas, glyph
  extraction and loaders (the cache bodies follow the specification, \<open>Font.cpp\<close> not
  being in the repository); rendering (\<open>RefreshCursor\<close>, \<open>UpdateDisplayText\<close>, cursor entities); the
  widget's \<open>.cpp\<close> (its constructor is modelled from the spec as \<open>text_area_new\<close>, and
  \<open>Erase\<close>/\<open>Write\<close> are recorded as the calls issued); the console's child widgets
  beyond their texts, focus and geometry (their rendering, resizing and scrolling are
  widget-library code); the Lua interpreter (a parameter); the window's constructors, cursor getters and
  \<open>SetCursor\<close> (they only forward to \<open>Window.cpp\<close>) and its threading (a single thread
  is modelled); and the network test \<open>IpAddress.cpp\<close>, whose code is
  not among the sources.
\<close>

section \<open>The line table of a layout\<close>

text \<open>
  The drawer of these sources keeps no line table; the text area reads one through
  \<open>AbstractTextDrawer::GetLine\<close>. Following the specification, a newline opens a line
  that starts at the flat glyph index of the next glyph, with glyphs counted as the
  layout loop emits them (whitespace and invalid glyphs count none).
\<close>

fun line_starts_from :: "(char32 \<Rightarrow> bool) \<Rightarrow> size_t \<Rightarrow> char32 list \<Rightarrow> size_t list" where
  "line_starts_from e n [] = []"
| "line_starts_from e n (ch # chs) =
     (if ch = 10 then n # line_starts_from e n chs
      else line_starts_from e (if e ch then Suc n else n) chs)"

definition drawer_view :: "font \<Rightarrow> u32 \<Rightarrow> u32 \<Rightarrow> char32 list \<Rightarrow> text_drawer_view" where
  "drawer_view f cs style str =
     \<lparr>line_starts = 0 # line_starts_from (emits_glyph f cs style) 0 str,
      glyph_count = length (filter (emits_glyph f cs style) str)\<rparr>"

lemma line_starts_from_facts:
  "sorted (line_starts_from e n t) \<and>
   (\<forall>x \<in> set (line_starts_from e n t). n \<le> x \<and> x \<le> n + length (filter e t)) \<and>
   length (line_starts_from e n t) = count_list t 10"
proof (induction t arbitrary: n)
  case Nil
  then show ?case by simp
next
  case (Cons ch chs)
  show ?case
  proof (cases "ch = 10")
    case True
    then show ?thesis using Cons.IH [of n] by auto
  next
    case False
    then show ?thesis using Cons.IH [of "if e ch then Suc n else n"] by (auto split: if_splits)
  qed
qed

lemma drawer_view_wf_helper:
  assumes "length str < 2 ^ 31"
  shows "view_wf (drawer_view f cs style str)"
proof -
  let ?e = "emits_glyph f cs style"
  have p: "sorted (line_starts_from ?e 0 str)"
     "\<forall>x \<in> set (line_starts_from ?e 0 str). x \<le> length (filter ?e str)"
     "length (line_starts_from ?e 0 str) = count_list str 10"
    using line_starts_from_facts [of ?e 0 str] by simp_all
  have "(2::nat) ^ 31 < 2 ^ 32" by simp
  then have "length (filter ?e str) < 2 ^ 32" using assms length_filter_le [of ?e str] by linarith
  moreover have "count_list str 10 \<le> length str" by (induction str) simp_all
  ultimately show ?thesis using assms p
    by (simp add: view_wf_def drawer_view_def line_count_def)
qed

lemma drawer_view_line_count:
  "line_count (drawer_view f cs style str) = count_list str 10 + 1"
  using line_starts_from_facts [of "emits_glyph f cs style" 0 str]
  by (simp add: drawer_view_def line_count_def)

section \<open>Properties across the components\<close>

text \<open>
  C8. The line table a layout induces is a well-formed drawer view for the text area:
  it starts at glyph 0, never decreases and stays within the glyph count.
\<close>

theorem drawer_view_wf:
  assumes "length str < 2 ^ 31"
  shows "view_wf (drawer_view f cs style str)"
  using drawer_view_wf_helper [OF assms] .

theorem drawer_view_wf_witness: "view_wf (drawer_view sample_font 16 0 [65, 10, 10, 66])"
  using drawer_view_wf [of "[65, 10, 10, 66]"] by simp

text \<open>
  The layout scenarios and edge cases of the specification. Empty text: no glyph,
  the single line table \<open>[0]\<close> and zero bounds. Scenario A, \<open>"AB"\<close>: two glyphs on
  the line table \<open>[0]\<close>. Scenario B, \<open>"A\\nB"\<close>: the line table \<open>[0, 1]\<close>, and glyph
  index 1 is line 1, column 0. A trailing newline, \<open>"A\\n"\<close>: a final empty line that
  starts past the last glyph.
\<close>

theorem layout_scenarios:
  "drawer_view sample_font 16 0 [] = \<lparr>line_starts = [0], glyph_count = 0\<rparr> \<and>
   get_bounds (draw_with_font (Some sample_font) [] 16 0 color_white) =
     (rect_make_zero, snd (update_glyphs (draw_with_font (Some sample_font) [] 16 0 color_white))) \<and>
   m_glyphs (snd (update_glyphs (draw_with_font (Some sample_font) [] 16 0 color_white))) = [] \<and>
   drawer_view sample_font 16 0 [65, 66] = \<lparr>line_starts = [0], glyph_count = 2\<rparr> \<and>
   drawer_view sample_font 16 0 [65, 10, 66] = \<lparr>line_starts = [0, 1], glyph_count = 2\<rparr> \<and>
   get_cursor_position_of (drawer_view sample_font 16 0 [65, 10, 66]) 1 = Inr (Vector2ui 0 1) \<and>
   drawer_view sample_font 16 0 [65, 10] = \<lparr>line_starts = [0, 1], glyph_count = 1\<rparr>"
proof -
  let ?d = "draw_with_font (Some sample_font) [] 16 0 color_white"
  have u: "update_glyphs ?d = (None, ?d\<lparr>m_bounds := rect_make_zero, m_glyphs := [], m_glyph_updated := True\<rparr>)"
    by (simp add: update_glyphs_def draw_with_font_fields sample_font_valid Let_def)
  have "\<not> m_glyph_updated ?d"
    by (simp add: draw_with_font_def set_text_def set_style_def set_font_def set_color_def set_character_size_def)
  then have "get_bounds ?d = (rect_make_zero, snd (update_glyphs ?d))"
    using u by (simp add: get_bounds_def ensure_glyphs_def)
  then show ?thesis
    using u by (simp add: drawer_view_def sample_eval view_eval)
qed

text \<open>
  Evidence for the finding on the prompt guard. The prompt \<open>"> "\<close> lays out to a single glyph, since the drawer emits none for
  the space, while the console protects \<open>s_input_prefix_size = 2\<close> glyph indices: asking
  for the cursor right after the visible prompt (index 1, before the first typed
  character) puts it after that character (line 0, column 2).
\<close>

theorem prompt_guard_off_by_one:
  "fst (get_glyph_count (draw_with_font (Some sample_font) s_input_prefix 24 0 color_white)) = 1 \<and>
   s_input_prefix_size = 2 \<and>
   set_cursor_position_index (drawer_view sample_font 24 0 [62, 32, 97, 98]) 1
     (text_area_new\<lparr>on_text_area_cursor_move :=
        [index_slot (drawer_view sample_font 24 0 [62, 32, 97, 98]) console_cursor_guard]\<rparr>) =
   Inr (set_cursor_position_internal (Vector2ui 2 0)
     (text_area_new\<lparr>on_text_area_cursor_move :=
        [index_slot (drawer_view sample_font 24 0 [62, 32, 97, 98]) console_cursor_guard]\<rparr>))"
proof -
  have "fst (get_glyph_count (draw_with_font (Some sample_font) s_input_prefix 24 0 color_white)) =
          length (filter (emits_glyph sample_font 24 0) s_input_prefix)"
    using glyph_count_coherent [OF cache_coherent_draw_with_font _ sample_font_valid]
    by (simp add: draw_with_font_fields)
  also have "\<dots> = 1" by (simp add: s_input_prefix_def sample_eval)
  finally show ?thesis
    by (simp add: set_cursor_position_index_def set_cursor_position_internal_index_def
          fire_cursor_move_def index_slot_def text_area_new_def console_cursor_guard_def
          s_input_prefix_size_def s_input_prefix_def drawer_view_def sample_eval view_eval)
qed

text \<open>
  C25. A font's cache clears reach the drawers that listen to it. When the font a drawer
  points to clears its glyph cache, the \<open>Glyph_cache_cleared\<close> signal passes the
  drawer's sender check and marks its layout stale (the atlas rectangles it holds may be
  gone), keeping the protocol invariant; the kerning and size-info clears pass the check
  and leave the drawer as it is, since cached and recomputed metrics agree.
\<close>

theorem font_cache_clear_reaches_drawer:
  assumes "ld_inv store s" and "ld_font s = Some r"
  shows "(\<exists>s'. ld_on_resource_modified r (snd (fc_clear_glyph_cache c)) s = Inr (True, s') \<and>
              \<not> m_glyph_updated (ld_drawer s') \<and> ld_inv store s') \<and>
         ld_on_resource_modified r (snd (fc_clear_kerning_cache c)) s = Inr (True, s) \<and>
         ld_on_resource_modified r (snd (fc_clear_size_info_cache c)) s = Inr (True, s)"
proof -
  let ?s' = "s\<lparr>ld_drawer := (ld_drawer s)\<lparr>m_glyph_updated := False\<rparr>\<rparr>"
  have g: "ld_on_resource_modified r (snd (fc_clear_glyph_cache c)) s = Inr (True, ?s')"
    using assms(2) by (simp add: ld_on_resource_modified_def on_resource_modified_def fc_clear_glyph_cache_def)
  have "ld_step store (LD_modified r Glyph_cache_cleared) s = Inr ?s'"
    using g by (simp add: fc_clear_glyph_cache_def)
  then have "ld_inv store ?s'" by (rule ld_step_inv [OF assms(1)])
  with g have "\<exists>s'. ld_on_resource_modified r (snd (fc_clear_glyph_cache c)) s = Inr (True, s') \<and>
              \<not> m_glyph_updated (ld_drawer s') \<and> ld_inv store s'" by auto
  moreover have "ld_on_resource_modified r (snd (fc_clear_kerning_cache c)) s = Inr (True, s) \<and>
         ld_on_resource_modified r (snd (fc_clear_size_info_cache c)) s = Inr (True, s)"
    using assms(2) by (simp add: ld_on_resource_modified_def on_resource_modified_def
        fc_clear_kerning_cache_def fc_clear_size_info_cache_def)
  ultimately show ?thesis by blast
qed

theorem font_cache_clear_reaches_drawer_witness:
  "ld_on_resource_modified 1 (snd (fc_clear_kerning_cache (fc_new sample_font 0 1)))
     (ld_set_font sample_store (Some 1) (ld_new 16)) =
     Inr (True, ld_set_font sample_store (Some 1) (ld_new (16 :: u32))) \<and>
   (\<exists>s'. ld_on_resource_modified (1 :: nat) (snd (fc_clear_glyph_cache (fc_new sample_font 0 1)))
          (ld_set_font sample_store (Some 1) (ld_new 16)) = Inr (True, s') \<and>
        \<not> m_glyph_updated (ld_drawer s'))"
proof -
  have i: "ld_inv sample_store (ld_set_font sample_store (Some 1) (ld_new (16 :: u32)))"
    by (rule ld_set_font_inv [OF ld_inv_new])
  have f: "ld_font (ld_set_font sample_store (Some (1 :: nat)) (ld_new (16 :: u32))) = Some 1" by simp
  show ?thesis using font_cache_clear_reaches_drawer [OF i f, of "fc_new sample_font 0 1"] by blast
qed

end
